theory Spec2Isabelle
  imports Complex_Main "HOL-Library.Word" "HOL-Library.Signed_Division"
begin

section \<open>Send-side bandwidth estimation\<close>

text \<open>
  A shallow embedding of \<^verbatim>\<open>webrtc/modules/bitrate_controller/send_side_bandwidth_estimation.cc\<close>.

  Types. \<^verbatim>\<open>uint32_t\<close> and \<^verbatim>\<open>uint8_t\<close> are words, whose arithmetic wraps as the
  unsigned arithmetic of C++ does. \<^verbatim>\<open>int\<close> and \<^verbatim>\<open>int64_t\<close> are modelled by \<open>int\<close>: signed
  overflow is undefined behaviour in C++, so the model describes the runs in which no
  signed operation overflows. A conversion from \<^verbatim>\<open>int\<close> to \<^verbatim>\<open>uint32_t\<close> or \<^verbatim>\<open>uint8_t\<close> is
  \<open>word_of_int\<close> (reduction modulo a power of two). A conversion from \<^verbatim>\<open>uint32_t\<close> to \<^verbatim>\<open>int\<close>
  keeps the 32 bits and reads them as two's complement (\<open>sint\<close>): a value from \<open>2 ^ 31\<close> on
  comes out negative. The promotion of a \<^verbatim>\<open>uint8_t\<close> to \<^verbatim>\<open>int\<close> keeps the value (\<open>uint\<close>).

  The \<^verbatim>\<open>float\<close> thresholds are modelled by the rationals they denote. The only \<^verbatim>\<open>float\<close>
  operations are \<^verbatim>\<open>last_fraction_loss_ / 256.0f\<close>, which is exact (an 8-bit integer
  divided by a power of two), and comparisons, which are exact on the denoted values.

  \<^verbatim>\<open>RTC_DCHECK\<close> is compiled out of release builds: the model has no such checks, and a
  theorem that needs what one asserts says so. \<^verbatim>\<open>RTC_CHECK\<close> aborts in every build.

  The class declaration (the header) is not part of the sources at hand; the field types are
  those the member functions use them at (\<^verbatim>\<open>uint32_t prev_bitrate = bitrate_\<close>,
  \<^verbatim>\<open>std::max<uint32_t>(min_bitrate_configured_, max_bitrate)\<close>, the deque of
  \<^verbatim>\<open>std::make_pair(now_ms, bitrate_)\<close>, ...).
\<close>

type_synonym u8 = "8 word"
type_synonym u32 = "32 word"

subsection \<open>Constants\<close>

definition kBweIncreaseIntervalMs :: int where "kBweIncreaseIntervalMs = 1000"
definition kBweDecreaseIntervalMs :: int where "kBweDecreaseIntervalMs = 300"
definition kStartPhaseMs :: int where "kStartPhaseMs = 2000"
definition kBweConverganceTimeMs :: int where "kBweConverganceTimeMs = 20000"
definition kLimitNumPackets :: int where "kLimitNumPackets = 20"
definition kDefaultMaxBitrateBps :: int where "kDefaultMaxBitrateBps = 1000000000"
definition kLowBitrateLogPeriodMs :: int where "kLowBitrateLogPeriodMs = 10000"
definition kRtcEventLogPeriodMs :: int where "kRtcEventLogPeriodMs = 5000"
definition kFeedbackIntervalMs :: int where "kFeedbackIntervalMs = 1500"
definition kFeedbackTimeoutIntervals :: int where "kFeedbackTimeoutIntervals = 3"
definition kTimeoutIntervalMs :: int where "kTimeoutIntervalMs = 1000"

text \<open>
  \<^verbatim>\<open>0.02f\<close> and \<^verbatim>\<open>0.1f\<close> are the single-precision numbers nearest to 0.02 and 0.1.
\<close>

definition kDefaultLowLossThreshold :: rat where
  "kDefaultLowLossThreshold = 5368709 / 2 ^ 28"
definition kDefaultHighLossThreshold :: rat where
  "kDefaultHighLossThreshold = 13421773 / 2 ^ 27"
definition kDefaultBitrateThresholdKbps :: int where "kDefaultBitrateThresholdKbps = 0"

definition kUmaRampupMetrics :: "(string \<times> int) list" where
  "kUmaRampupMetrics =
     [(''WebRTC.BWE.RampUpTimeTo500kbpsInMs'', 500),
      (''WebRTC.BWE.RampUpTimeTo1000kbpsInMs'', 1000),
      (''WebRTC.BWE.RampUpTimeTo2000kbpsInMs'', 2000)]"

definition kNumUmaRampupMetrics :: nat where
  "kNumUmaRampupMetrics = length kUmaRampupMetrics"

subsection \<open>Double-precision arithmetic\<close>

text \<open>
  Three expressions of \<^verbatim>\<open>UpdateEstimate\<close> compute in \<^verbatim>\<open>double\<close>:
  \<^verbatim>\<open>front().second * 1.08 + 0.5\<close>, \<^verbatim>\<open>bitrate_ *= 0.8\<close> and
  \<^verbatim>\<open>(bitrate_ * static_cast<double>(512 - last_fraction_loss_)) / 512.0\<close>.

  A nonnegative double below \<open>2 ^ 970\<close> that is a multiple of \<open>2 ^ -52\<close> is modelled by its
  numerator over \<open>2 ^ 52\<close>, a natural number with at most 53 significant bits. IEEE 754
  arithmetic computes the exact result and rounds it to the nearest representable number,
  ties to the even significand: \<open>round53\<close> does that on numerators. The literals \<^verbatim>\<open>1.08\<close> and
  \<^verbatim>\<open>0.8\<close> are the doubles \<open>4863887597560136 / 2 ^ 52\<close> and \<open>3602879701896397 / 2 ^ 52\<close>; the
  product of a \<^verbatim>\<open>uint32_t\<close> (converted exactly) with one of them has the numerator
  \<open>b * m\<close> before rounding.
\<close>

definition round_half_even :: "nat \<Rightarrow> nat \<Rightarrow> nat" where
  "round_half_even k n =
     (let q = n div 2 ^ k; r = n mod 2 ^ k
      in if 2 ^ k < 2 * r \<or> (2 * r = 2 ^ k \<and> odd q) then (q + 1) * 2 ^ k else q * 2 ^ k)"

fun bit_length :: "nat \<Rightarrow> nat" where
  "bit_length n = (if n = 0 then 0 else Suc (bit_length (n div 2)))"

declare bit_length.simps [simp del]

definition round53 :: "nat \<Rightarrow> nat" where
  "round53 n = round_half_even (bit_length n - 53) n"

definition double_1_08 :: nat where "double_1_08 = 4863887597560136"
definition double_0_8 :: nat where "double_0_8 = 3602879701896397"
definition double_0_5 :: nat where "double_0_5 = 2 ^ 51"

definition double_mul_u32 :: "u32 \<Rightarrow> nat \<Rightarrow> nat" where
  "double_mul_u32 b m = round53 (unat b * m)"

definition double_add :: "nat \<Rightarrow> nat \<Rightarrow> nat" where
  "double_add x y = round53 (x + y)"

text \<open>
  \<^verbatim>\<open>static_cast<uint32_t>\<close> of a double truncates. C++ leaves the conversion undefined when
  the truncated value does not fit; the model reduces it modulo \<open>2 ^ 32\<close> there, and no
  theorem below depends on that choice without saying so.
\<close>

definition double_to_u32 :: "nat \<Rightarrow> u32" where
  "double_to_u32 x = word_of_nat (x div 2 ^ 52)"

subsection \<open>State\<close>

datatype UmaState = kNoUpdate | kFirstDone | kDone

text \<open>
  What the estimator sends to its sinks: the event log
  (\<^verbatim>\<open>event_log_->LogLossBasedBweUpdate\<close>), the histograms (\<^verbatim>\<open>RTC_HISTOGRAM...\<close>) and the two
  warnings it logs. The model appends them to the field \<open>emitted\<close>, oldest first, with the
  values that the estimator passes.
\<close>

datatype event =
    LogLossBasedBweUpdate u32 u8 int
  | Histogram string int
  | WarnBelowMin u32 u32
  | WarnFeedbackTimeout int

record SendSideBandwidthEstimation =
  min_bitrate_history :: "(int \<times> u32) list"
  lost_packets_since_last_loss_update_Q8 :: int
  expected_packets_since_last_loss_update :: int
  bitrate :: u32
  min_bitrate_configured :: u32
  max_bitrate_configured :: u32
  last_low_bitrate_log_ms :: int
  has_decreased_since_last_fraction_loss :: bool
  last_feedback_ms :: int
  last_packet_report_ms :: int
  last_timeout_ms :: int
  last_fraction_loss :: u8
  last_logged_fraction_loss :: u8
  last_round_trip_time_ms :: int
  bwe_incoming :: u32
  delay_based_bitrate_bps :: u32
  time_last_decrease_ms :: int
  first_report_time_ms :: int
  initially_lost_packets :: int
  bitrate_at_2_seconds_kbps :: int
  uma_update_state :: UmaState
  rampup_uma_stats_updated :: "bool list"
  last_rtc_event_log_ms :: int
  in_timeout_experiment :: bool
  low_loss_threshold :: rat
  high_loss_threshold :: rat
  bitrate_threshold_bps :: u32
  emitted :: "event list"

subsection \<open>Construction\<close>

text \<open>
  The constructor reads three things from outside this file: the system-wide minimum
  \<^verbatim>\<open>congestion_controller::GetMinBitrateBps()\<close>, the field trial
  \<^verbatim>\<open>WebRTC-FeedbackTimeout\<close> and the field trial \<^verbatim>\<open>WebRTC-BweLossExperiment\<close>. They are
  parameters here. The loss trial is \<open>None\<close> when its string does not begin with
  \<^verbatim>\<open>Enabled\<close>, \<open>Some None\<close> when it does but \<^verbatim>\<open>sscanf\<close> does not read three values from
  it, and \<open>Some (Some (low, high, kbps))\<close> when it reads them. A failing \<^verbatim>\<open>RTC_CHECK\<close>
  aborts the process: the result is \<open>None\<close>.
\<close>

definition ReadBweLossExperimentParameters ::
    "(rat \<times> rat \<times> u32) option \<Rightarrow> (bool \<times> rat \<times> rat \<times> u32) option" where
  "ReadBweLossExperimentParameters parsed =
     (case parsed of
        Some (low, high, kbps) \<Rightarrow>
          if 0 < low \<and> low \<le> 1 \<and> 0 < high \<and> high \<le> 1 \<and> low \<le> high
             \<and> uint kbps < (2 ^ 31 - 1) div 1000
          then Some (True, low, high, kbps) else None
      | None \<Rightarrow>
          Some (False, kDefaultLowLossThreshold, kDefaultHighLossThreshold,
                word_of_int kDefaultBitrateThresholdKbps))"

definition initial_state :: "int \<Rightarrow> bool \<Rightarrow> SendSideBandwidthEstimation" where
  "initial_state system_min timeout_trial =
     \<lparr> min_bitrate_history = [],
       lost_packets_since_last_loss_update_Q8 = 0,
       expected_packets_since_last_loss_update = 0,
       bitrate = 0,
       min_bitrate_configured = word_of_int system_min,
       max_bitrate_configured = word_of_int kDefaultMaxBitrateBps,
       last_low_bitrate_log_ms = -1,
       has_decreased_since_last_fraction_loss = False,
       last_feedback_ms = -1,
       last_packet_report_ms = -1,
       last_timeout_ms = -1,
       last_fraction_loss = 0,
       last_logged_fraction_loss = 0,
       last_round_trip_time_ms = 0,
       bwe_incoming = 0,
       delay_based_bitrate_bps = 0,
       time_last_decrease_ms = 0,
       first_report_time_ms = -1,
       initially_lost_packets = 0,
       bitrate_at_2_seconds_kbps = 0,
       uma_update_state = kNoUpdate,
       rampup_uma_stats_updated = replicate kNumUmaRampupMetrics False,
       last_rtc_event_log_ms = -1,
       in_timeout_experiment = timeout_trial,
       low_loss_threshold = kDefaultLowLossThreshold,
       high_loss_threshold = kDefaultHighLossThreshold,
       bitrate_threshold_bps = word_of_int (1000 * kDefaultBitrateThresholdKbps),
       emitted = [] \<rparr>"

definition new_SendSideBandwidthEstimation ::
    "int \<Rightarrow> bool \<Rightarrow> (rat \<times> rat \<times> u32) option option
       \<Rightarrow> SendSideBandwidthEstimation option" where
  "new_SendSideBandwidthEstimation system_min timeout_trial loss_trial =
     (let s = initial_state system_min timeout_trial
      in case loss_trial of
           None \<Rightarrow> Some s
         | Some parsed \<Rightarrow>
             (case ReadBweLossExperimentParameters parsed of
                None \<Rightarrow> None
              | Some (ok, low, high, kbps) \<Rightarrow>
                  Some (s\<lparr>low_loss_threshold := low, high_loss_threshold := high,
                          bitrate_threshold_bps :=
                            (if ok then kbps * 1000 else bitrate_threshold_bps s)\<rparr>)))"

subsection \<open>Configuration and queries\<close>

definition SetSendBitrate :: "int \<Rightarrow> SendSideBandwidthEstimation \<Rightarrow> SendSideBandwidthEstimation" where
  "SetSendBitrate b s = s\<lparr>bitrate := word_of_int b, min_bitrate_history := []\<rparr>"

definition SetMinMaxBitrate ::
    "int \<Rightarrow> int \<Rightarrow> int \<Rightarrow> SendSideBandwidthEstimation \<Rightarrow> SendSideBandwidthEstimation" where
  "SetMinMaxBitrate system_min min_b max_b s =
     (let mn = (word_of_int (max min_b system_min) :: u32)
      in s\<lparr>min_bitrate_configured := mn,
           max_bitrate_configured :=
             (if 0 < max_b then max mn (word_of_int max_b)
              else word_of_int kDefaultMaxBitrateBps)\<rparr>)"

definition SetBitrates ::
    "int \<Rightarrow> int \<Rightarrow> int \<Rightarrow> int \<Rightarrow> SendSideBandwidthEstimation \<Rightarrow> SendSideBandwidthEstimation" where
  "SetBitrates system_min send_b min_b max_b s =
     SetMinMaxBitrate system_min min_b max_b (if 0 < send_b then SetSendBitrate send_b s else s)"

text \<open>
  \<^verbatim>\<open>GetMinBitrate\<close> returns an \<^verbatim>\<open>int\<close>, and \<^verbatim>\<open>CurrentEstimate\<close> stores \<^verbatim>\<open>bitrate_\<close> into an
  \<^verbatim>\<open>int\<close> (\<^verbatim>\<open>*bitrate = bitrate_\<close>): both convert a \<^verbatim>\<open>uint32_t\<close> to \<^verbatim>\<open>int\<close>.
\<close>

definition GetMinBitrate :: "SendSideBandwidthEstimation \<Rightarrow> int" where
  "GetMinBitrate s = sint (min_bitrate_configured s)"

definition CurrentEstimate :: "SendSideBandwidthEstimation \<Rightarrow> int \<times> u8 \<times> int" where
  "CurrentEstimate s = (sint (bitrate s), last_fraction_loss s, last_round_trip_time_ms s)"

definition IsInStartPhase :: "int \<Rightarrow> SendSideBandwidthEstimation \<Rightarrow> bool" where
  "IsInStartPhase now_ms s \<longleftrightarrow>
     first_report_time_ms s = -1 \<or> now_ms - first_report_time_ms s < kStartPhaseMs"

subsection \<open>Capping\<close>

definition CapBitrateToThresholds ::
    "int \<Rightarrow> u32 \<Rightarrow> SendSideBandwidthEstimation \<Rightarrow> u32 \<times> SendSideBandwidthEstimation" where
  "CapBitrateToThresholds now_ms b s =
     (let b1 = (if 0 < bwe_incoming s \<and> bwe_incoming s < b then bwe_incoming s else b);
          b2 = (if 0 < delay_based_bitrate_bps s \<and> delay_based_bitrate_bps s < b1
                then delay_based_bitrate_bps s else b1);
          b3 = (if max_bitrate_configured s < b2 then max_bitrate_configured s else b2)
      in if b3 < min_bitrate_configured s
         then (min_bitrate_configured s,
               if last_low_bitrate_log_ms s = -1
                  \<or> kLowBitrateLogPeriodMs < now_ms - last_low_bitrate_log_ms s
               then s\<lparr>last_low_bitrate_log_ms := now_ms,
                       emitted := emitted s
                         @ [WarnBelowMin (b3 div 1000) (min_bitrate_configured s div 1000)]\<rparr>
               else s)
         else (b3, s))"

text \<open>\<^verbatim>\<open>bitrate_ = CapBitrateToThresholds(now_ms, b)\<close>, as the callers write it.\<close>

definition assign_capped ::
    "int \<Rightarrow> u32 \<Rightarrow> SendSideBandwidthEstimation \<Rightarrow> SendSideBandwidthEstimation" where
  "assign_capped now_ms b s =
     (case CapBitrateToThresholds now_ms b s of (b', s') \<Rightarrow> s'\<lparr>bitrate := b'\<rparr>)"

definition UpdateReceiverEstimate ::
    "int \<Rightarrow> u32 \<Rightarrow> SendSideBandwidthEstimation \<Rightarrow> SendSideBandwidthEstimation" where
  "UpdateReceiverEstimate now_ms bandwidth s =
     (let s1 = s\<lparr>bwe_incoming := bandwidth\<rparr> in assign_capped now_ms (bitrate s1) s1)"

definition UpdateDelayBasedEstimate ::
    "int \<Rightarrow> u32 \<Rightarrow> SendSideBandwidthEstimation \<Rightarrow> SendSideBandwidthEstimation" where
  "UpdateDelayBasedEstimate now_ms bitrate_bps s =
     (let s1 = s\<lparr>delay_based_bitrate_bps := bitrate_bps\<rparr> in assign_capped now_ms (bitrate s1) s1)"

subsection \<open>The sliding-window minimum\<close>

text \<open>
  The deque is a list, its front the head. The two \<^verbatim>\<open>while\<close> loops of
  \<^verbatim>\<open>UpdateMinHistory\<close>:
\<close>

fun pop_front_expired :: "int \<Rightarrow> (int \<times> u32) list \<Rightarrow> (int \<times> u32) list" where
  "pop_front_expired now_ms [] = []"
| "pop_front_expired now_ms ((t, b) # h) =
     (if kBweIncreaseIntervalMs < now_ms - t + 1 then pop_front_expired now_ms h
      else (t, b) # h)"

function pop_back_higher :: "u32 \<Rightarrow> (int \<times> u32) list \<Rightarrow> (int \<times> u32) list" where
  "pop_back_higher cur h =
     (if h \<noteq> [] \<and> cur \<le> snd (last h) then pop_back_higher cur (butlast h) else h)"
  by pat_completeness auto
termination
  by (relation "measure (\<lambda>(cur, h). length h)") auto

declare pop_back_higher.simps [simp del]

definition push_min_history :: "int \<Rightarrow> u32 \<Rightarrow> (int \<times> u32) list \<Rightarrow> (int \<times> u32) list" where
  "push_min_history now_ms cur h =
     pop_back_higher cur (pop_front_expired now_ms h) @ [(now_ms, cur)]"

definition UpdateMinHistory ::
    "int \<Rightarrow> SendSideBandwidthEstimation \<Rightarrow> SendSideBandwidthEstimation" where
  "UpdateMinHistory now_ms s =
     s\<lparr>min_bitrate_history := push_min_history now_ms (bitrate s) (min_bitrate_history s)\<rparr>"

subsection \<open>Metrics\<close>

text \<open>
  The loop of \<^verbatim>\<open>UpdateUmaStats\<close> over the ramp-up milestones and their flags; \<open>sample\<close> is
  \<^verbatim>\<open>now_ms - first_report_time_ms_\<close>. The flag vector has one cell for each milestone.
  \<^verbatim>\<open>static_cast<int>(rtt)\<close> keeps the low 32 bits of the \<^verbatim>\<open>int64_t\<close>, read as two's complement.
  \<^verbatim>\<open>static_cast<int>((bitrate_ + 500) / 1000)\<close> converts a \<^verbatim>\<open>uint32_t\<close> that is at most 4294967,
  so that the \<^verbatim>\<open>int\<close> is the value itself (lemma \<open>bitrate_kbps_conversion\<close>).
\<close>

fun rampup_loop ::
    "int \<Rightarrow> int \<Rightarrow> (string \<times> int) list \<Rightarrow> bool list \<Rightarrow> bool list \<times> event list" where
  "rampup_loop bitrate_kbps sample ((name, kbps) # ms) (u # us) =
     (case rampup_loop bitrate_kbps sample ms us of
        (us', evs) \<Rightarrow>
          if \<not> u \<and> kbps \<le> bitrate_kbps then (True # us', Histogram name sample # evs)
          else (u # us', evs))"
| "rampup_loop bitrate_kbps sample ms us = (us, [])"

definition UpdateUmaStats ::
    "int \<Rightarrow> int \<Rightarrow> int \<Rightarrow> SendSideBandwidthEstimation \<Rightarrow> SendSideBandwidthEstimation" where
  "UpdateUmaStats now_ms rtt lost_packets s =
     (let bitrate_kbps = uint ((bitrate s + 500) div 1000);
          (flags, evs) = rampup_loop bitrate_kbps (now_ms - first_report_time_ms s)
                           kUmaRampupMetrics (rampup_uma_stats_updated s);
          s1 = s\<lparr>rampup_uma_stats_updated := flags, emitted := emitted s @ evs\<rparr>
      in if IsInStartPhase now_ms s1
         then s1\<lparr>initially_lost_packets := initially_lost_packets s1 + lost_packets\<rparr>
         else if uma_update_state s1 = kNoUpdate
         then s1\<lparr>uma_update_state := kFirstDone,
                 bitrate_at_2_seconds_kbps := bitrate_kbps,
                 emitted := emitted s1
                   @ [Histogram ''WebRTC.BWE.InitiallyLostPackets'' (initially_lost_packets s1),
                      Histogram ''WebRTC.BWE.InitialRtt'' (signed_take_bit 31 rtt),
                      Histogram ''WebRTC.BWE.InitialBandwidthEstimate'' bitrate_kbps]\<rparr>
         else if uma_update_state s1 = kFirstDone
                 \<and> kBweConverganceTimeMs \<le> now_ms - first_report_time_ms s1
         then s1\<lparr>uma_update_state := kDone,
                 emitted := emitted s1
                   @ [Histogram ''WebRTC.BWE.InitialVsConvergedDiff''
                        (max (bitrate_at_2_seconds_kbps s1 - bitrate_kbps) 0)]\<rparr>
         else s1)"

subsection \<open>The control loop\<close>

text \<open>
  \<^verbatim>\<open>UpdateEstimate\<close> is written here as the sequence of its blocks. \<open>startup_trust\<close> is the
  two assignments inside \<^verbatim>\<open>if (last_fraction_loss_ == 0 && IsInStartPhase(now_ms))\<close>,
  \<open>startup_block\<close> is that \<^verbatim>\<open>if\<close> up to the test \<^verbatim>\<open>bitrate_ != prev_bitrate\<close>.
\<close>

definition startup_trust ::
    "int \<Rightarrow> SendSideBandwidthEstimation \<Rightarrow> SendSideBandwidthEstimation" where
  "startup_trust now_ms s =
     (let s1 = (if bitrate s < bwe_incoming s then assign_capped now_ms (bwe_incoming s) s
                else s)
      in if bitrate s1 < delay_based_bitrate_bps s1
         then assign_capped now_ms (delay_based_bitrate_bps s1) s1 else s1)"

definition startup_block ::
    "int \<Rightarrow> SendSideBandwidthEstimation \<Rightarrow> SendSideBandwidthEstimation" where
  "startup_block now_ms s =
     (if last_fraction_loss s = 0 \<and> IsInStartPhase now_ms s then startup_trust now_ms s
      else s)"

text \<open>
  \<open>loss_based_control\<close> is the \<^verbatim>\<open>if\<close> / \<^verbatim>\<open>else if\<close> on the time since the last packet
  report. \<^verbatim>\<open>1.2 * kFeedbackIntervalMs\<close> is the double 1800 exactly, and an \<^verbatim>\<open>int64_t\<close> is
  below it iff it is below the integer 1800. The decrease is exact in double arithmetic:
  the product of a 32-bit value with \<^verbatim>\<open>512 - last_fraction_loss_\<close> has fewer than 53 bits,
  the division by 512 only changes the exponent, and the conversion truncates.
  \<^verbatim>\<open>front()\<close> of an empty deque is undefined in C++; \<^verbatim>\<open>UpdateEstimate\<close> reaches it only
  after \<^verbatim>\<open>UpdateMinHistory\<close> has pushed an entry (lemma \<open>UpdateMinHistory_nonempty\<close>), and the
  model leaves the state as it is on an empty history.
\<close>

definition loss_based_control ::
    "int \<Rightarrow> SendSideBandwidthEstimation \<Rightarrow> SendSideBandwidthEstimation" where
  "loss_based_control now_ms s =
     (let time_since_packet_report_ms = now_ms - last_packet_report_ms s;
          time_since_feedback_ms = now_ms - last_feedback_ms s
      in if time_since_packet_report_ms < 1800
         then
           (let loss = (of_nat (unat (last_fraction_loss s)) / 256 :: rat)
            in if bitrate s < bitrate_threshold_bps s \<or> loss \<le> low_loss_threshold s
               then
                 (case min_bitrate_history s of
                    [] \<Rightarrow> s
                  | (t, b) # h \<Rightarrow>
                      s\<lparr>bitrate :=
                          double_to_u32 (double_add (double_mul_u32 b double_1_08) double_0_5)
                            + 1000\<rparr>)
               else if bitrate_threshold_bps s < bitrate s
               then
                 if loss \<le> high_loss_threshold s then s
                 else if \<not> has_decreased_since_last_fraction_loss s
                         \<and> kBweDecreaseIntervalMs + last_round_trip_time_ms s
                             \<le> now_ms - time_last_decrease_ms s
                 then s\<lparr>time_last_decrease_ms := now_ms,
                         bitrate :=
                           word_of_nat
                             ((unat (bitrate s) * (512 - unat (last_fraction_loss s))) div 512),
                         has_decreased_since_last_fraction_loss := True\<rparr>
                 else s
               else s)
         else if kFeedbackTimeoutIntervals * kFeedbackIntervalMs < time_since_feedback_ms
                 \<and> (last_timeout_ms s = -1 \<or> kTimeoutIntervalMs < now_ms - last_timeout_ms s)
         then
           if in_timeout_experiment s
           then s\<lparr>emitted := emitted s @ [WarnFeedbackTimeout time_since_feedback_ms],
                   bitrate := double_to_u32 (double_mul_u32 (bitrate s) double_0_8),
                   lost_packets_since_last_loss_update_Q8 := 0,
                   expected_packets_since_last_loss_update := 0,
                   last_timeout_ms := now_ms\<rparr>
           else s
         else s)"

text \<open>The tail of \<^verbatim>\<open>UpdateEstimate\<close>: cap, log, assign.\<close>

definition cap_and_log ::
    "int \<Rightarrow> SendSideBandwidthEstimation \<Rightarrow> SendSideBandwidthEstimation" where
  "cap_and_log now_ms s =
     (case CapBitrateToThresholds now_ms (bitrate s) s of
        (capped_bitrate, s1) \<Rightarrow>
          (if capped_bitrate \<noteq> bitrate s1
              \<or> last_fraction_loss s1 \<noteq> last_logged_fraction_loss s1
              \<or> last_rtc_event_log_ms s1 = -1
              \<or> kRtcEventLogPeriodMs < now_ms - last_rtc_event_log_ms s1
           then s1\<lparr>emitted := emitted s1
                     @ [LogLossBasedBweUpdate capped_bitrate (last_fraction_loss s1)
                          (expected_packets_since_last_loss_update s1)],
                   last_logged_fraction_loss := last_fraction_loss s1,
                   last_rtc_event_log_ms := now_ms\<rparr>
           else s1)\<lparr>bitrate := capped_bitrate\<rparr>)"

text \<open>
  Outside the startup phase \<open>startup_block\<close> leaves the bitrate as it is, so the test
  \<^verbatim>\<open>bitrate_ != prev_bitrate\<close> of the source, which sits inside the startup \<^verbatim>\<open>if\<close>, is
  the test below.
\<close>

definition UpdateEstimate ::
    "int \<Rightarrow> SendSideBandwidthEstimation \<Rightarrow> SendSideBandwidthEstimation" where
  "UpdateEstimate now_ms s =
     (let s0 = startup_block now_ms s
      in if bitrate s0 \<noteq> bitrate s
         then s0\<lparr>min_bitrate_history := [(now_ms, bitrate s0)]\<rparr>
         else
           (let s1 = UpdateMinHistory now_ms s0
            in if last_packet_report_ms s1 = -1 then assign_capped now_ms (bitrate s1) s1
               else cap_and_log now_ms (loss_based_control now_ms s1)))"

subsection \<open>Receiver blocks\<close>

text \<open>
  \<^verbatim>\<open>UpdateReceiverBlock\<close> in its blocks. \<open>note_feedback\<close> is its head, the three assignments
  before \<^verbatim>\<open>if (number_of_packets > 0)\<close>; \<open>accumulate_report\<close> is the two additions to the
  accumulators; \<open>new_fraction_loss\<close> is the block after the early \<^verbatim>\<open>return\<close>, up to the call
  of \<^verbatim>\<open>UpdateEstimate\<close>. The division of the accumulators is the truncating division of
  C++ (\<open>sdiv\<close>), the shift \<^verbatim>\<open>>> 8\<close> of an \<^verbatim>\<open>int\<close> is arithmetic (\<open>drop_bit\<close> on \<open>int\<close>
  rounds down).
\<close>

definition note_feedback ::
    "int \<Rightarrow> int \<Rightarrow> SendSideBandwidthEstimation \<Rightarrow> SendSideBandwidthEstimation" where
  "note_feedback rtt now_ms s =
     s\<lparr>last_feedback_ms := now_ms,
       first_report_time_ms :=
         (if first_report_time_ms s = -1 then now_ms else first_report_time_ms s),
       last_round_trip_time_ms := rtt\<rparr>"

definition accumulate_report ::
    "u8 \<Rightarrow> int \<Rightarrow> SendSideBandwidthEstimation \<Rightarrow> SendSideBandwidthEstimation" where
  "accumulate_report fraction_loss number_of_packets s =
     (let num_lost_packets_Q8 = uint fraction_loss * number_of_packets
      in s\<lparr>lost_packets_since_last_loss_update_Q8 :=
             lost_packets_since_last_loss_update_Q8 s + num_lost_packets_Q8,
           expected_packets_since_last_loss_update :=
             expected_packets_since_last_loss_update s + number_of_packets\<rparr>)"

definition new_fraction_loss ::
    "int \<Rightarrow> SendSideBandwidthEstimation \<Rightarrow> SendSideBandwidthEstimation" where
  "new_fraction_loss now_ms s =
     s\<lparr>has_decreased_since_last_fraction_loss := False,
       last_fraction_loss :=
         word_of_int (lost_packets_since_last_loss_update_Q8 s
                      sdiv expected_packets_since_last_loss_update s),
       lost_packets_since_last_loss_update_Q8 := 0,
       expected_packets_since_last_loss_update := 0,
       last_packet_report_ms := now_ms\<rparr>"

definition UpdateReceiverBlock ::
    "u8 \<Rightarrow> int \<Rightarrow> int \<Rightarrow> int \<Rightarrow> SendSideBandwidthEstimation
       \<Rightarrow> SendSideBandwidthEstimation" where
  "UpdateReceiverBlock fraction_loss rtt number_of_packets now_ms s =
     (let s1 = note_feedback rtt now_ms s
      in if 0 < number_of_packets
         then
           (let s2 = accumulate_report fraction_loss number_of_packets s1
            in if expected_packets_since_last_loss_update s2 < kLimitNumPackets then s2
               else UpdateUmaStats now_ms rtt
                      (drop_bit 8 (uint fraction_loss * number_of_packets))
                      (UpdateEstimate now_ms (new_fraction_loss now_ms s2)))
         else UpdateUmaStats now_ms rtt
                (drop_bit 8 (uint fraction_loss * number_of_packets)) s1)"

section \<open>Properties\<close>

subsection \<open>Predicates and example states\<close>

text \<open>
  One ceiling step of \<^verbatim>\<open>CapBitrateToThresholds\<close>: a ceiling of 0 means that there is none.
\<close>

definition ceiling_cap :: "u32 \<Rightarrow> u32 \<Rightarrow> u32" where
  "ceiling_cap c b = (if 0 < c \<and> c < b then c else b)"

text \<open>The bitrate that \<^verbatim>\<open>CurrentEstimate\<close> returns lies within the configured bounds.\<close>

definition estimate_within_bounds :: "SendSideBandwidthEstimation \<Rightarrow> bool" where
  "estimate_within_bounds s \<longleftrightarrow>
     uint (min_bitrate_configured s) \<le> fst (CurrentEstimate s)
     \<and> fst (CurrentEstimate s) \<le> uint (max_bitrate_configured s)"

text \<open>
  A fresh estimator with the system minimum 10000, bounds set to 10000 and 20000, and then
  a send bitrate of 30000.
\<close>

definition over_max_state :: SendSideBandwidthEstimation where
  "over_max_state =
     SetSendBitrate 30000 (SetMinMaxBitrate 10000 10000 20000 (initial_state 10000 False))"

text \<open>The same with a send bitrate of 15000, between the bounds.\<close>

definition within_bounds_state :: SendSideBandwidthEstimation where
  "within_bounds_state =
     SetSendBitrate 15000 (SetMinMaxBitrate 10000 10000 20000 (initial_state 10000 False))"

text \<open>The state of the cap-ordering scenario.\<close>

definition cap_ordering_state :: SendSideBandwidthEstimation where
  "cap_ordering_state =
     (initial_state 10000 False)
       \<lparr>bwe_incoming := 600000, delay_based_bitrate_bps := 400000,
        max_bitrate_configured := 800000, min_bitrate_configured := 100000\<rparr>"

text \<open>
  A fresh estimator inside \<^verbatim>\<open>UpdateReceiverBlock(255, 100, 10, 0)\<close>, at the test of the
  accumulated packet count: the feedback noted and the report of 10 packets accumulated.
\<close>

definition thin_report :: SendSideBandwidthEstimation where
  "thin_report = accumulate_report 255 10 (note_feedback 100 0 (initial_state 10000 False))"

text \<open>
  The state of the feedback-timeout scenario: the timeout experiment enabled, a bitrate of
  1000000, the last feedback and packet report at time 0.
\<close>

definition timeout_state :: SendSideBandwidthEstimation where
  "timeout_state =
     (initial_state 10000 True)
       \<lparr>bitrate := 1000000, first_report_time_ms := 0, last_feedback_ms := 0,
        last_packet_report_ms := 0\<rparr>"

text \<open>The same state without the timeout experiment.\<close>

definition timeout_state_disabled :: SendSideBandwidthEstimation where
  "timeout_state_disabled = timeout_state\<lparr>in_timeout_experiment := False\<rparr>"

text \<open>
  A fresh estimator with the timeout experiment enabled, a send bitrate of 1000000, and one
  receiver block of 10 packets at time 0: feedback has arrived, no loss fraction yet.
\<close>

definition thin_feedback_state :: SendSideBandwidthEstimation where
  "thin_feedback_state =
     UpdateReceiverBlock 0 100 10 0 (SetSendBitrate 1000000 (initial_state 10000 True))"

text \<open>
  The state of the loss-based-increase scenario: a steady 100000, the start phase over.
\<close>

definition steady_state :: SendSideBandwidthEstimation where
  "steady_state =
     (initial_state 10000 False)
       \<lparr>bitrate := 100000, min_bitrate_history := [(2500, 100000)],
        first_report_time_ms := 0, last_feedback_ms := 2500, last_packet_report_ms := 2500\<rparr>"

text \<open>
  The state of the loss-based-decrease scenario, as \<^verbatim>\<open>UpdateReceiverBlock\<close> hands it to
  \<^verbatim>\<open>UpdateEstimate\<close> at time 5000: a steady 500000, the loss fraction 64, a round trip of 100.
\<close>

definition high_loss_state :: SendSideBandwidthEstimation where
  "high_loss_state =
     (initial_state 10000 False)
       \<lparr>bitrate := 500000, min_bitrate_history := [(4500, 500000)],
        first_report_time_ms := 0, last_feedback_ms := 5000, last_packet_report_ms := 5000,
        last_fraction_loss := 64, last_round_trip_time_ms := 100\<rparr>"

text \<open>The same state once a decrease has been made for this loss fraction.\<close>

definition high_loss_decreased_state :: SendSideBandwidthEstimation where
  "high_loss_decreased_state =
     high_loss_state\<lparr>has_decreased_since_last_fraction_loss := True\<rparr>"

text \<open>
  A fresh estimator with a send bitrate of 10000, the configured minimum, inside
  \<^verbatim>\<open>UpdateReceiverBlock(64, 100, 40, 5000)\<close> at the call of \<^verbatim>\<open>UpdateEstimate\<close>: the loss
  fraction of the 40 packets is 64.
\<close>

definition at_min_loss_state :: SendSideBandwidthEstimation where
  "at_min_loss_state =
     new_fraction_loss 5000
       (accumulate_report 64 40
          (note_feedback 100 5000 (SetSendBitrate 10000 (initial_state 10000 False))))"

text \<open>
  A fresh estimator with bounds of 10000 and 300000, then a REMB value of 600000, then a send
  bitrate of 500000: the bitrate is above the configured maximum and below the REMB value.
\<close>

definition capped_hint_state :: SendSideBandwidthEstimation where
  "capped_hint_state =
     SetSendBitrate 500000
       (UpdateReceiverEstimate 0 600000
          (SetMinMaxBitrate 10000 10000 300000 (initial_state 10000 False)))"

text \<open>
  A bitrate within the caps and above the window minimum: a send bitrate of 10000, a
  loss-free receiver block of 30 packets at time 0 (after it the bitrate is 11800 and the
  history holds 10000), then the configured minimum raised to 5000000, a recap by
  \<^verbatim>\<open>UpdateReceiverEstimate\<close> at time 100, and the minimum back at 10000.
\<close>

definition raised_floor_state :: SendSideBandwidthEstimation where
  "raised_floor_state =
     SetMinMaxBitrate 10000 10000 0
       (UpdateReceiverEstimate 100 0
          (SetMinMaxBitrate 10000 5000000 0
             (UpdateReceiverBlock 0 100 30 0
                (SetSendBitrate 10000 (initial_state 10000 False)))))"

text \<open>
  The start-phase ramp scenario: \<^verbatim>\<open>SetBitrates(100000, 10000, 2000000)\<close>, then a delay-based
  estimate of 500000.
\<close>

definition probing_state :: SendSideBandwidthEstimation where
  "probing_state =
     UpdateDelayBasedEstimate 0 500000
       (SetBitrates 10000 100000 10000 2000000 (initial_state 10000 False))"

text \<open>
  A fresh estimator with the system minimum 10000 and a send bitrate of 5000, below it.
\<close>

definition below_min_state :: SendSideBandwidthEstimation where
  "below_min_state = SetSendBitrate 5000 (initial_state 10000 False)"

text \<open>
  The test of the first loop of \<^verbatim>\<open>UpdateMinHistory\<close>: an entry has left the window.
\<close>

definition expired :: "int \<Rightarrow> int \<times> u32 \<Rightarrow> bool" where
  "expired now_ms e \<longleftrightarrow> kBweIncreaseIntervalMs < now_ms - fst e + 1"

text \<open>
  The bitrates of a history increase strictly from front to back.
\<close>

definition bitrates_increasing :: "(int \<times> u32) list \<Rightarrow> bool" where
  "bitrates_increasing h \<longleftrightarrow> sorted_wrt (\<lambda>a c. snd a < snd c) h"

text \<open>
  The timestamps of a history do not decrease from front to back.
\<close>

definition times_nondecreasing :: "(int \<times> u32) list \<Rightarrow> bool" where
  "times_nondecreasing h \<longleftrightarrow> sorted_wrt (\<lambda>a c. fst a \<le> fst c) h"

text \<open>
  The timestamps of a history increase strictly from front to back.
\<close>

definition times_increasing :: "(int \<times> u32) list \<Rightarrow> bool" where
  "times_increasing h \<longleftrightarrow> sorted_wrt (\<lambda>a c. fst a < fst c) h"

text \<open>
  The invariant of the sliding-window minimum: \<open>d\<close> is the history after the pushes \<open>ps\<close>,
  the last of them at time \<open>T\<close>. Every entry is a push that is still in the window, and every
  push still in the window is covered by an entry that is no older and no larger.
\<close>

definition window_min_inv ::
    "int \<Rightarrow> (int \<times> u32) list \<Rightarrow> (int \<times> u32) list \<Rightarrow> bool" where
  "window_min_inv T ps d \<longleftrightarrow>
     set d \<subseteq> set ps
     \<and> bitrates_increasing d \<and> times_nondecreasing d
     \<and> (\<forall>p \<in> set ps. fst p \<le> T)
     \<and> (\<forall>e \<in> set d. \<not> expired T e)
     \<and> (\<forall>p \<in> set ps. \<not> expired T p \<longrightarrow> (\<exists>e \<in> set d. snd e \<le> snd p \<and> fst p \<le> fst e))"

text \<open>
  The operations of the public interface that change the estimator, and the estimator after
  one of them. \<open>clock_after T op\<close> is the time the estimator was last given once \<open>op\<close> has
  run, \<open>T\<close> being that time before.
\<close>

datatype operation =
    SetBitratesOp int int int
  | SetSendBitrateOp int
  | SetMinMaxBitrateOp int int
  | UpdateReceiverEstimateOp int u32
  | UpdateDelayBasedEstimateOp int u32
  | UpdateReceiverBlockOp u8 int int int
  | UpdateEstimateOp int

fun run_operation ::
    "int \<Rightarrow> operation \<Rightarrow> SendSideBandwidthEstimation \<Rightarrow> SendSideBandwidthEstimation" where
  "run_operation system_min (SetBitratesOp send_b min_b max_b) s =
     SetBitrates system_min send_b min_b max_b s"
| "run_operation system_min (SetSendBitrateOp b) s = SetSendBitrate b s"
| "run_operation system_min (SetMinMaxBitrateOp min_b max_b) s =
     SetMinMaxBitrate system_min min_b max_b s"
| "run_operation system_min (UpdateReceiverEstimateOp now_ms bandwidth) s =
     UpdateReceiverEstimate now_ms bandwidth s"
| "run_operation system_min (UpdateDelayBasedEstimateOp now_ms bitrate_bps) s =
     UpdateDelayBasedEstimate now_ms bitrate_bps s"
| "run_operation system_min (UpdateReceiverBlockOp fraction_loss rtt number_of_packets now_ms) s =
     UpdateReceiverBlock fraction_loss rtt number_of_packets now_ms s"
| "run_operation system_min (UpdateEstimateOp now_ms) s = UpdateEstimate now_ms s"

text \<open>
  The arguments that configure the bounds are values of \<^verbatim>\<open>int\<close>, and the minimum is not
  negative (\<^verbatim>\<open>RTC_DCHECK_GE(min_bitrate, 0)\<close>).
\<close>

fun bounds_arguments_int :: "operation \<Rightarrow> bool" where
  "bounds_arguments_int (SetBitratesOp send_b min_b max_b) \<longleftrightarrow>
     0 \<le> min_b \<and> min_b < 2 ^ 31 \<and> max_b < 2 ^ 31"
| "bounds_arguments_int (SetMinMaxBitrateOp min_b max_b) \<longleftrightarrow>
     0 \<le> min_b \<and> min_b < 2 ^ 31 \<and> max_b < 2 ^ 31"
| "bounds_arguments_int op \<longleftrightarrow> True"

fun clock_after :: "int \<Rightarrow> operation \<Rightarrow> int" where
  "clock_after T (UpdateReceiverEstimateOp now_ms bandwidth) = now_ms"
| "clock_after T (UpdateDelayBasedEstimateOp now_ms bitrate_bps) = now_ms"
| "clock_after T (UpdateReceiverBlockOp fraction_loss rtt number_of_packets now_ms) = now_ms"
| "clock_after T (UpdateEstimateOp now_ms) = now_ms"
| "clock_after T op = T"

text \<open>
  A run of calls of \<^verbatim>\<open>UpdateMinHistory\<close>, the call \<open>(t, b)\<close> made at time \<open>t\<close> with the bitrate
  \<open>b\<close>.
\<close>

definition update_min_history_calls ::
    "(int \<times> u32) list \<Rightarrow> SendSideBandwidthEstimation \<Rightarrow> SendSideBandwidthEstimation" where
  "update_min_history_calls ps s =
     fold (\<lambda>p s'. UpdateMinHistory (fst p) (s'\<lparr>bitrate := snd p\<rparr>)) ps s"

text \<open>
  A fresh estimator with a send bitrate of 100000, a loss-free receiver block of 30 packets
  at time 0, and a tick at time 0.
\<close>

definition equal_times_state :: SendSideBandwidthEstimation where
  "equal_times_state =
     UpdateEstimate 0
       (UpdateReceiverBlock 0 100 30 0 (SetSendBitrate 100000 (initial_state 10000 False)))"

text \<open>
  The history that the pushes \<open>ps\<close> build from the empty one.
\<close>

definition replay :: "(int \<times> u32) list \<Rightarrow> (int \<times> u32) list" where
  "replay ps = fold (\<lambda>p h. push_min_history (fst p) (snd p) h) ps []"

subsection \<open>Rounding to double precision\<close>

lemma bit_length_bounds: "0 < n \<Longrightarrow> 2 ^ (bit_length n - 1) \<le> n \<and> n < 2 ^ bit_length n"
proof (induction n rule: bit_length.induct)
  case (1 n)
  show ?case
  proof (cases "n div 2 = 0")
    case True
    with 1(2) have "n = 1" by (simp add: div_eq_0_iff) 
    then show ?thesis
      by (simp add: bit_length.simps [of "Suc 0"] bit_length.simps [of 0])
  next
    case False
    then have pos: "0 < n div 2" by simp
    from 1(2) have n0: "n \<noteq> 0" by simp
    from 1(1) [OF n0 pos]
    have ih: "2 ^ (bit_length (n div 2) - 1) \<le> n div 2" "n div 2 < 2 ^ bit_length (n div 2)"
      by simp_all
    have bl: "bit_length n = Suc (bit_length (n div 2))"
      using n0 by (simp add: bit_length.simps [of n])
    have blpos: "0 < bit_length (n div 2)"
      using pos by (simp add: bit_length.simps [of "n div 2"])
    then obtain m where m: "bit_length (n div 2) = Suc m" by (cases "bit_length (n div 2)") auto
    from ih show ?thesis unfolding bl m by simp linarith
  qed
qed

lemma bit_length_le: "n < 2 ^ w \<Longrightarrow> bit_length n \<le> w"
proof (rule ccontr)
  assume lt: "n < 2 ^ w" and "\<not> bit_length n \<le> w"
  then have w: "w \<le> bit_length n - 1" by simp
  then have "0 < bit_length n" using \<open>\<not> bit_length n \<le> w\<close> by simp
  then have "0 < n" by (cases "n = 0") (simp_all add: bit_length.simps [of 0])
  then have "(2::nat) ^ (bit_length n - 1) \<le> n" using bit_length_bounds by blast
  moreover have "(2::nat) ^ w \<le> 2 ^ (bit_length n - 1)" using w by (simp add: power_increasing)
  ultimately show False using lt by linarith
qed

lemma round_half_even_err:
  "2 * round_half_even k n \<le> 2 * n + 2 ^ k \<and> 2 * n \<le> 2 * round_half_even k n + 2 ^ k"
proof -
  define q where "q = n div 2 ^ k"
  define r where "r = n mod 2 ^ k"
  have n: "n = q * 2 ^ k + r" unfolding q_def r_def by (rule div_mult_mod_eq [symmetric])
  have r: "r < 2 ^ k" by (simp add: r_def)
  show ?thesis
    unfolding round_half_even_def Let_def q_def [symmetric] r_def [symmetric]
    using r by (auto simp add: n algebra_simps)
qed

lemma round_half_even_ge: "m * 2 ^ k \<le> n \<Longrightarrow> m * 2 ^ k \<le> round_half_even k n"
proof -
  assume a: "m * 2 ^ k \<le> n"
  have "m \<le> n div 2 ^ k" using a by (simp add: less_eq_div_iff_mult_less_eq)
  then have "m * 2 ^ k \<le> (n div 2 ^ k) * 2 ^ k" by simp
  also have "\<dots> \<le> round_half_even k n" by (simp add: round_half_even_def Let_def)
  finally show ?thesis .
qed

lemma round53_err:
  "2 ^ 53 * round53 n \<le> 2 ^ 53 * n + n \<and> 2 ^ 53 * n \<le> 2 ^ 53 * round53 n + n"
proof (cases "bit_length n \<le> 53")
  case True
  then have "round53 n = n" by (simp add: round53_def round_half_even_def)
  then show ?thesis by simp
next
  case False
  define k where "k = bit_length n - 53"
  have bl: "bit_length n - 1 = k + 52" using False by (simp add: k_def)
  have "0 < n" using False by (cases "n = 0") (simp_all add: bit_length.simps [of 0])
  then have "2 ^ (bit_length n - 1) \<le> n" using bit_length_bounds [of n] by blast
  then have "2 ^ (k + 52) \<le> n" unfolding bl .
  then have low: "2 ^ 52 * 2 ^ k \<le> n" by (simp add: power_add mult.commute)
  have e: "2 * round_half_even k n \<le> 2 * n + 2 ^ k" "2 * n \<le> 2 * round_half_even k n + 2 ^ k"
    using round_half_even_err [of k n] by simp_all
  have "2 ^ 52 * (2 * round_half_even k n) \<le> 2 ^ 52 * (2 * n + 2 ^ k)"
    using e(1) by (rule mult_le_mono2)
  moreover have "2 ^ 52 * (2 * n) \<le> 2 ^ 52 * (2 * round_half_even k n + 2 ^ k)"
    using e(2) by (rule mult_le_mono2)
  ultimately show ?thesis using low unfolding round53_def k_def [symmetric]
    by (simp add: algebra_simps)
qed

lemma round53_ge:
  assumes "n < 2 ^ 105" "t * 2 ^ 52 \<le> n"
  shows "t * 2 ^ 52 \<le> round53 n"
proof -
  define k where "k = bit_length n - 53"
  have "bit_length n \<le> 105" using assms(1) by (rule bit_length_le)
  then have k: "k \<le> 52" by (simp add: k_def)
  have "(2::nat) ^ 52 = 2 ^ (52 - k) * 2 ^ k" using k by (simp flip: power_add)
  then have "(t * 2 ^ (52 - k)) * 2 ^ k \<le> n" using assms(2) by (simp add: mult.assoc)
  then have "(t * 2 ^ (52 - k)) * 2 ^ k \<le> round_half_even k n" by (rule round_half_even_ge)
  then show ?thesis using \<open>(2::nat) ^ 52 = 2 ^ (52 - k) * 2 ^ k\<close>
    by (simp add: round53_def k_def mult.assoc)
qed

lemma u32_bound: "unat (b::u32) < 4294967296"
  using unsigned_less [of b, where ?'a = nat] by simp

lemma arith_08_lo:
  "n = 3602879701896397 * (b::nat) \<Longrightarrow> 5 * t \<le> 4 * b \<Longrightarrow> 4503599627370496 * t \<le> n"
  by linarith

lemma arith_08_hi:
  "n = 3602879701896397 * (b::nat) \<Longrightarrow> b < 4294967296 \<Longrightarrow> 4 * b < 5 * t + 5 \<Longrightarrow>
   9007199254740992 * x \<le> 9007199254740992 * n + n \<Longrightarrow> x < 4503599627370496 * t + 4503599627370496"
  by linarith

lemma arith_108_lo:
  "n = 4863887597560136 * (b::nat) \<Longrightarrow> b < 4294967296 \<Longrightarrow> 50 * t + 1 \<le> 54 * b + 25 \<Longrightarrow>
   9007199254740992 * n \<le> 9007199254740992 * x + n \<Longrightarrow>
   z = x + 2251799813685248 \<Longrightarrow>
   9007199254740992 * z \<le> 9007199254740992 * y + z \<Longrightarrow>
   4503599627370496 * t \<le> y"
  by linarith

lemma arith_108_hi:
  "n = 4863887597560136 * (b::nat) \<Longrightarrow> b < 4294967296 \<Longrightarrow> 54 * b + 25 < 50 * t + 50 \<Longrightarrow>
   9007199254740992 * x \<le> 9007199254740992 * n + n \<Longrightarrow>
   z = x + 2251799813685248 \<Longrightarrow>
   9007199254740992 * y \<le> 9007199254740992 * z + z \<Longrightarrow>
   y < 4503599627370496 * t + 4503599627370496"
  by linarith

lemma p52: "(2::nat) ^ 52 = 4503599627370496" by simp
lemma p53: "(2::nat) ^ 53 = 9007199254740992" by simp
lemma p51: "(2::nat) ^ 51 = 2251799813685248" by simp

lemma mul_0_8_exact:
  "double_to_u32 (double_mul_u32 b double_0_8) = word_of_nat (4 * unat b div 5)"
proof -
  define n where "n = 3602879701896397 * unat b"
  define t where "t = 4 * unat b div 5"
  have m: "4 * unat b = 5 * t + (4 * unat b) mod 5" unfolding t_def by simp
  have "(4 * unat b) mod 5 < 5" by simp
  with m have t1: "5 * t \<le> 4 * unat b" and t2: "4 * unat b < 5 * t + 5" by linarith+
  have "n < 3602879701896397 * 4294967296" unfolding n_def using u32_bound [of b] by simp
  then have nlt: "n < 2 ^ 105" by simp
  have "4503599627370496 * t \<le> n" using n_def t1 by (rule arith_08_lo)
  then have lo: "t * 2 ^ 52 \<le> n" by (simp add: mult.commute)
  have ge: "t * 2 ^ 52 \<le> round53 n" using nlt lo by (rule round53_ge)
  have "9007199254740992 * round53 n \<le> 9007199254740992 * n + n"
    using round53_err [of n] unfolding p53 by simp
  with n_def u32_bound t2 have "round53 n < 4503599627370496 * t + 4503599627370496"
    by (rule arith_08_hi)
  then have hi: "round53 n < 2 ^ 52 * Suc t" by simp
  have "round53 n div 2 ^ 52 = t"
    using ge hi by (intro div_nat_eqI) (simp_all add: mult.commute)
  then show ?thesis
    by (simp add: double_to_u32_def double_mul_u32_def double_0_8_def n_def t_def mult.commute)
qed

lemma mul_1_08_add_half_exact:
  "double_to_u32 (double_add (double_mul_u32 b double_1_08) double_0_5)
     = word_of_nat ((54 * unat b + 25) div 50)"
proof -
  define n where "n = 4863887597560136 * unat b"
  define x where "x = round53 n"
  define z where "z = x + 2251799813685248"
  define y where "y = round53 z"
  define t where "t = (54 * unat b + 25) div 50"
  define m where "m = 54 * unat b + 25"
  have m: "m = 50 * t + m mod 50" unfolding t_def m_def by simp
  have "odd m" unfolding m_def by simp
  then have "m \<noteq> 50 * t" by auto
  with m have "1 \<le> m mod 50" by (cases "m mod 50 = 0") simp_all
  with m have "50 * t + 1 \<le> m" by linarith
  then have t1: "50 * t + 1 \<le> 54 * unat b + 25" by (simp add: m_def)
  have "m mod 50 < 50" by simp
  with m have "m < 50 * t + 50" by linarith
  then have t2: "54 * unat b + 25 < 50 * t + 50" by (simp add: m_def)
  have x1: "9007199254740992 * x \<le> 9007199254740992 * n + n"
    and x2: "9007199254740992 * n \<le> 9007199254740992 * x + n"
    using round53_err [of n] unfolding p53 by (simp_all add: x_def)
  have y1: "9007199254740992 * y \<le> 9007199254740992 * z + z"
    and y2: "9007199254740992 * z \<le> 9007199254740992 * y + z"
    using round53_err [of z] unfolding p53 by (simp_all add: y_def)
  from n_def u32_bound t1 x2 z_def y2 have "4503599627370496 * t \<le> y"
    by (rule arith_108_lo)
  then have lo: "t * 2 ^ 52 \<le> y" by (simp add: mult.commute)
  from n_def u32_bound t2 x1 z_def y1 have "y < 4503599627370496 * t + 4503599627370496"
    by (rule arith_108_hi)
  then have hi: "y < 2 ^ 52 * Suc t" by simp
  have "y div 2 ^ 52 = t"
    using lo hi by (intro div_nat_eqI) (simp_all add: mult.commute)
  then show ?thesis
    by (simp add: double_to_u32_def double_mul_u32_def double_add_def double_1_08_def
        double_0_5_def n_def x_def y_def z_def t_def mult.commute)
qed

subsection \<open>Capping: value, frame and bounds\<close>

lemmas const_defs = kBweIncreaseIntervalMs_def kBweDecreaseIntervalMs_def kStartPhaseMs_def
  kBweConverganceTimeMs_def kLimitNumPackets_def kDefaultMaxBitrateBps_def
  kLowBitrateLogPeriodMs_def kRtcEventLogPeriodMs_def kFeedbackIntervalMs_def
  kFeedbackTimeoutIntervals_def kTimeoutIntervalMs_def kDefaultLowLossThreshold_def
  kDefaultHighLossThreshold_def kDefaultBitrateThresholdKbps_def kUmaRampupMetrics_def
  kNumUmaRampupMetrics_def

lemmas word_to_nat = word_le_nat_alt word_less_nat_alt word_unat_eq_iff

lemma Cap_fst:
  "fst (CapBitrateToThresholds now_ms b s) =
     max (min_bitrate_configured s)
       (min (max_bitrate_configured s)
          (ceiling_cap (delay_based_bitrate_bps s) (ceiling_cap (bwe_incoming s) b)))"
  unfolding CapBitrateToThresholds_def Let_def ceiling_cap_def max_def min_def
  by (auto simp add: word_to_nat)

lemma cap_formula_idem:
  fixes mn mx d w b :: u32
  defines "x \<equiv> ceiling_cap d (ceiling_cap w b)"
  defines "r \<equiv> max mn (min mx x)"
  shows "max mn (min mx (ceiling_cap d (ceiling_cap w r))) = r"
  unfolding r_def x_def ceiling_cap_def max_def min_def
  by (auto simp add: word_to_nat)

lemma cap_formula_mono:
  fixes mn mx d w a b :: u32
  shows "a \<le> b \<Longrightarrow> max mn (min mx (ceiling_cap d (ceiling_cap w a)))
           \<le> max mn (min mx (ceiling_cap d (ceiling_cap w b)))"
  unfolding ceiling_cap_def max_def min_def
  by (auto simp add: word_to_nat)

lemma Cap_bounds:
  "min_bitrate_configured s \<le> fst (CapBitrateToThresholds now_ms b s)"
  "min_bitrate_configured s \<le> max_bitrate_configured s
     \<Longrightarrow> fst (CapBitrateToThresholds now_ms b s) \<le> max_bitrate_configured s"
  by (simp_all add: Cap_fst)

lemma Cap_snd_frame [simp]:
  "min_bitrate_history (snd (CapBitrateToThresholds now_ms b s)) = min_bitrate_history s"
  "lost_packets_since_last_loss_update_Q8 (snd (CapBitrateToThresholds now_ms b s)) = lost_packets_since_last_loss_update_Q8 s"
  "expected_packets_since_last_loss_update (snd (CapBitrateToThresholds now_ms b s)) = expected_packets_since_last_loss_update s"
  "bitrate (snd (CapBitrateToThresholds now_ms b s)) = bitrate s"
  "min_bitrate_configured (snd (CapBitrateToThresholds now_ms b s)) = min_bitrate_configured s"
  "max_bitrate_configured (snd (CapBitrateToThresholds now_ms b s)) = max_bitrate_configured s"
  "has_decreased_since_last_fraction_loss (snd (CapBitrateToThresholds now_ms b s)) = has_decreased_since_last_fraction_loss s"
  "last_feedback_ms (snd (CapBitrateToThresholds now_ms b s)) = last_feedback_ms s"
  "last_packet_report_ms (snd (CapBitrateToThresholds now_ms b s)) = last_packet_report_ms s"
  "last_timeout_ms (snd (CapBitrateToThresholds now_ms b s)) = last_timeout_ms s"
  "last_fraction_loss (snd (CapBitrateToThresholds now_ms b s)) = last_fraction_loss s"
  "last_logged_fraction_loss (snd (CapBitrateToThresholds now_ms b s)) = last_logged_fraction_loss s"
  "last_round_trip_time_ms (snd (CapBitrateToThresholds now_ms b s)) = last_round_trip_time_ms s"
  "bwe_incoming (snd (CapBitrateToThresholds now_ms b s)) = bwe_incoming s"
  "delay_based_bitrate_bps (snd (CapBitrateToThresholds now_ms b s)) = delay_based_bitrate_bps s"
  "time_last_decrease_ms (snd (CapBitrateToThresholds now_ms b s)) = time_last_decrease_ms s"
  "first_report_time_ms (snd (CapBitrateToThresholds now_ms b s)) = first_report_time_ms s"
  "initially_lost_packets (snd (CapBitrateToThresholds now_ms b s)) = initially_lost_packets s"
  "bitrate_at_2_seconds_kbps (snd (CapBitrateToThresholds now_ms b s)) = bitrate_at_2_seconds_kbps s"
  "uma_update_state (snd (CapBitrateToThresholds now_ms b s)) = uma_update_state s"
  "rampup_uma_stats_updated (snd (CapBitrateToThresholds now_ms b s)) = rampup_uma_stats_updated s"
  "last_rtc_event_log_ms (snd (CapBitrateToThresholds now_ms b s)) = last_rtc_event_log_ms s"
  "in_timeout_experiment (snd (CapBitrateToThresholds now_ms b s)) = in_timeout_experiment s"
  "low_loss_threshold (snd (CapBitrateToThresholds now_ms b s)) = low_loss_threshold s"
  "high_loss_threshold (snd (CapBitrateToThresholds now_ms b s)) = high_loss_threshold s"
  "bitrate_threshold_bps (snd (CapBitrateToThresholds now_ms b s)) = bitrate_threshold_bps s"
  by (simp_all add: CapBitrateToThresholds_def Let_def)

lemma assign_capped_bitrate [simp]:
  "bitrate (assign_capped now_ms b s) = fst (CapBitrateToThresholds now_ms b s)"
  by (simp add: assign_capped_def case_prod_beta)

lemma assign_capped_frame [simp]:
  "min_bitrate_history (assign_capped now_ms b s) = min_bitrate_history s"
  "lost_packets_since_last_loss_update_Q8 (assign_capped now_ms b s) = lost_packets_since_last_loss_update_Q8 s"
  "expected_packets_since_last_loss_update (assign_capped now_ms b s) = expected_packets_since_last_loss_update s"
  "min_bitrate_configured (assign_capped now_ms b s) = min_bitrate_configured s"
  "max_bitrate_configured (assign_capped now_ms b s) = max_bitrate_configured s"
  "has_decreased_since_last_fraction_loss (assign_capped now_ms b s) = has_decreased_since_last_fraction_loss s"
  "last_feedback_ms (assign_capped now_ms b s) = last_feedback_ms s"
  "last_packet_report_ms (assign_capped now_ms b s) = last_packet_report_ms s"
  "last_timeout_ms (assign_capped now_ms b s) = last_timeout_ms s"
  "last_fraction_loss (assign_capped now_ms b s) = last_fraction_loss s"
  "last_logged_fraction_loss (assign_capped now_ms b s) = last_logged_fraction_loss s"
  "last_round_trip_time_ms (assign_capped now_ms b s) = last_round_trip_time_ms s"
  "bwe_incoming (assign_capped now_ms b s) = bwe_incoming s"
  "delay_based_bitrate_bps (assign_capped now_ms b s) = delay_based_bitrate_bps s"
  "time_last_decrease_ms (assign_capped now_ms b s) = time_last_decrease_ms s"
  "first_report_time_ms (assign_capped now_ms b s) = first_report_time_ms s"
  "initially_lost_packets (assign_capped now_ms b s) = initially_lost_packets s"
  "bitrate_at_2_seconds_kbps (assign_capped now_ms b s) = bitrate_at_2_seconds_kbps s"
  "uma_update_state (assign_capped now_ms b s) = uma_update_state s"
  "rampup_uma_stats_updated (assign_capped now_ms b s) = rampup_uma_stats_updated s"
  "last_rtc_event_log_ms (assign_capped now_ms b s) = last_rtc_event_log_ms s"
  "in_timeout_experiment (assign_capped now_ms b s) = in_timeout_experiment s"
  "low_loss_threshold (assign_capped now_ms b s) = low_loss_threshold s"
  "high_loss_threshold (assign_capped now_ms b s) = high_loss_threshold s"
  "bitrate_threshold_bps (assign_capped now_ms b s) = bitrate_threshold_bps s"
  by (simp_all add: assign_capped_def case_prod_beta)

lemma startup_trust_frame [simp]:
  "min_bitrate_history (startup_trust now_ms s) = min_bitrate_history s"
  "lost_packets_since_last_loss_update_Q8 (startup_trust now_ms s) = lost_packets_since_last_loss_update_Q8 s"
  "expected_packets_since_last_loss_update (startup_trust now_ms s) = expected_packets_since_last_loss_update s"
  "min_bitrate_configured (startup_trust now_ms s) = min_bitrate_configured s"
  "max_bitrate_configured (startup_trust now_ms s) = max_bitrate_configured s"
  "has_decreased_since_last_fraction_loss (startup_trust now_ms s) = has_decreased_since_last_fraction_loss s"
  "last_feedback_ms (startup_trust now_ms s) = last_feedback_ms s"
  "last_packet_report_ms (startup_trust now_ms s) = last_packet_report_ms s"
  "last_timeout_ms (startup_trust now_ms s) = last_timeout_ms s"
  "last_fraction_loss (startup_trust now_ms s) = last_fraction_loss s"
  "last_logged_fraction_loss (startup_trust now_ms s) = last_logged_fraction_loss s"
  "last_round_trip_time_ms (startup_trust now_ms s) = last_round_trip_time_ms s"
  "bwe_incoming (startup_trust now_ms s) = bwe_incoming s"
  "delay_based_bitrate_bps (startup_trust now_ms s) = delay_based_bitrate_bps s"
  "time_last_decrease_ms (startup_trust now_ms s) = time_last_decrease_ms s"
  "first_report_time_ms (startup_trust now_ms s) = first_report_time_ms s"
  "initially_lost_packets (startup_trust now_ms s) = initially_lost_packets s"
  "bitrate_at_2_seconds_kbps (startup_trust now_ms s) = bitrate_at_2_seconds_kbps s"
  "uma_update_state (startup_trust now_ms s) = uma_update_state s"
  "rampup_uma_stats_updated (startup_trust now_ms s) = rampup_uma_stats_updated s"
  "last_rtc_event_log_ms (startup_trust now_ms s) = last_rtc_event_log_ms s"
  "in_timeout_experiment (startup_trust now_ms s) = in_timeout_experiment s"
  "low_loss_threshold (startup_trust now_ms s) = low_loss_threshold s"
  "high_loss_threshold (startup_trust now_ms s) = high_loss_threshold s"
  "bitrate_threshold_bps (startup_trust now_ms s) = bitrate_threshold_bps s"
  by (simp_all add: startup_trust_def Let_def)

lemma startup_block_frame [simp]:
  "min_bitrate_history (startup_block now_ms s) = min_bitrate_history s"
  "lost_packets_since_last_loss_update_Q8 (startup_block now_ms s) = lost_packets_since_last_loss_update_Q8 s"
  "expected_packets_since_last_loss_update (startup_block now_ms s) = expected_packets_since_last_loss_update s"
  "min_bitrate_configured (startup_block now_ms s) = min_bitrate_configured s"
  "max_bitrate_configured (startup_block now_ms s) = max_bitrate_configured s"
  "has_decreased_since_last_fraction_loss (startup_block now_ms s) = has_decreased_since_last_fraction_loss s"
  "last_feedback_ms (startup_block now_ms s) = last_feedback_ms s"
  "last_packet_report_ms (startup_block now_ms s) = last_packet_report_ms s"
  "last_timeout_ms (startup_block now_ms s) = last_timeout_ms s"
  "last_fraction_loss (startup_block now_ms s) = last_fraction_loss s"
  "last_logged_fraction_loss (startup_block now_ms s) = last_logged_fraction_loss s"
  "last_round_trip_time_ms (startup_block now_ms s) = last_round_trip_time_ms s"
  "bwe_incoming (startup_block now_ms s) = bwe_incoming s"
  "delay_based_bitrate_bps (startup_block now_ms s) = delay_based_bitrate_bps s"
  "time_last_decrease_ms (startup_block now_ms s) = time_last_decrease_ms s"
  "first_report_time_ms (startup_block now_ms s) = first_report_time_ms s"
  "initially_lost_packets (startup_block now_ms s) = initially_lost_packets s"
  "bitrate_at_2_seconds_kbps (startup_block now_ms s) = bitrate_at_2_seconds_kbps s"
  "uma_update_state (startup_block now_ms s) = uma_update_state s"
  "rampup_uma_stats_updated (startup_block now_ms s) = rampup_uma_stats_updated s"
  "last_rtc_event_log_ms (startup_block now_ms s) = last_rtc_event_log_ms s"
  "in_timeout_experiment (startup_block now_ms s) = in_timeout_experiment s"
  "low_loss_threshold (startup_block now_ms s) = low_loss_threshold s"
  "high_loss_threshold (startup_block now_ms s) = high_loss_threshold s"
  "bitrate_threshold_bps (startup_block now_ms s) = bitrate_threshold_bps s"
  by (simp_all add: startup_block_def)

lemma UpdateMinHistory_frame [simp]:
  "lost_packets_since_last_loss_update_Q8 (UpdateMinHistory now_ms s) = lost_packets_since_last_loss_update_Q8 s"
  "expected_packets_since_last_loss_update (UpdateMinHistory now_ms s) = expected_packets_since_last_loss_update s"
  "bitrate (UpdateMinHistory now_ms s) = bitrate s"
  "min_bitrate_configured (UpdateMinHistory now_ms s) = min_bitrate_configured s"
  "max_bitrate_configured (UpdateMinHistory now_ms s) = max_bitrate_configured s"
  "last_low_bitrate_log_ms (UpdateMinHistory now_ms s) = last_low_bitrate_log_ms s"
  "has_decreased_since_last_fraction_loss (UpdateMinHistory now_ms s) = has_decreased_since_last_fraction_loss s"
  "last_feedback_ms (UpdateMinHistory now_ms s) = last_feedback_ms s"
  "last_packet_report_ms (UpdateMinHistory now_ms s) = last_packet_report_ms s"
  "last_timeout_ms (UpdateMinHistory now_ms s) = last_timeout_ms s"
  "last_fraction_loss (UpdateMinHistory now_ms s) = last_fraction_loss s"
  "last_logged_fraction_loss (UpdateMinHistory now_ms s) = last_logged_fraction_loss s"
  "last_round_trip_time_ms (UpdateMinHistory now_ms s) = last_round_trip_time_ms s"
  "bwe_incoming (UpdateMinHistory now_ms s) = bwe_incoming s"
  "delay_based_bitrate_bps (UpdateMinHistory now_ms s) = delay_based_bitrate_bps s"
  "time_last_decrease_ms (UpdateMinHistory now_ms s) = time_last_decrease_ms s"
  "first_report_time_ms (UpdateMinHistory now_ms s) = first_report_time_ms s"
  "initially_lost_packets (UpdateMinHistory now_ms s) = initially_lost_packets s"
  "bitrate_at_2_seconds_kbps (UpdateMinHistory now_ms s) = bitrate_at_2_seconds_kbps s"
  "uma_update_state (UpdateMinHistory now_ms s) = uma_update_state s"
  "rampup_uma_stats_updated (UpdateMinHistory now_ms s) = rampup_uma_stats_updated s"
  "last_rtc_event_log_ms (UpdateMinHistory now_ms s) = last_rtc_event_log_ms s"
  "in_timeout_experiment (UpdateMinHistory now_ms s) = in_timeout_experiment s"
  "low_loss_threshold (UpdateMinHistory now_ms s) = low_loss_threshold s"
  "high_loss_threshold (UpdateMinHistory now_ms s) = high_loss_threshold s"
  "bitrate_threshold_bps (UpdateMinHistory now_ms s) = bitrate_threshold_bps s"
  "emitted (UpdateMinHistory now_ms s) = emitted s"
  by (simp_all add: UpdateMinHistory_def)

lemma loss_based_control_frame [simp]:
  "min_bitrate_history (loss_based_control now_ms s) = min_bitrate_history s"
  "min_bitrate_configured (loss_based_control now_ms s) = min_bitrate_configured s"
  "max_bitrate_configured (loss_based_control now_ms s) = max_bitrate_configured s"
  "last_low_bitrate_log_ms (loss_based_control now_ms s) = last_low_bitrate_log_ms s"
  "last_feedback_ms (loss_based_control now_ms s) = last_feedback_ms s"
  "last_packet_report_ms (loss_based_control now_ms s) = last_packet_report_ms s"
  "last_fraction_loss (loss_based_control now_ms s) = last_fraction_loss s"
  "last_logged_fraction_loss (loss_based_control now_ms s) = last_logged_fraction_loss s"
  "last_round_trip_time_ms (loss_based_control now_ms s) = last_round_trip_time_ms s"
  "bwe_incoming (loss_based_control now_ms s) = bwe_incoming s"
  "delay_based_bitrate_bps (loss_based_control now_ms s) = delay_based_bitrate_bps s"
  "first_report_time_ms (loss_based_control now_ms s) = first_report_time_ms s"
  "initially_lost_packets (loss_based_control now_ms s) = initially_lost_packets s"
  "bitrate_at_2_seconds_kbps (loss_based_control now_ms s) = bitrate_at_2_seconds_kbps s"
  "uma_update_state (loss_based_control now_ms s) = uma_update_state s"
  "rampup_uma_stats_updated (loss_based_control now_ms s) = rampup_uma_stats_updated s"
  "last_rtc_event_log_ms (loss_based_control now_ms s) = last_rtc_event_log_ms s"
  "in_timeout_experiment (loss_based_control now_ms s) = in_timeout_experiment s"
  "low_loss_threshold (loss_based_control now_ms s) = low_loss_threshold s"
  "high_loss_threshold (loss_based_control now_ms s) = high_loss_threshold s"
  "bitrate_threshold_bps (loss_based_control now_ms s) = bitrate_threshold_bps s"
  by (simp_all add: loss_based_control_def Let_def split: list.splits)

lemma cap_and_log_bitrate [simp]:
  "bitrate (cap_and_log now_ms s) = fst (CapBitrateToThresholds now_ms (bitrate s) s)"
  by (simp add: cap_and_log_def case_prod_beta)

lemma cap_and_log_frame [simp]:
  "min_bitrate_history (cap_and_log now_ms s) = min_bitrate_history s"
  "lost_packets_since_last_loss_update_Q8 (cap_and_log now_ms s) = lost_packets_since_last_loss_update_Q8 s"
  "expected_packets_since_last_loss_update (cap_and_log now_ms s) = expected_packets_since_last_loss_update s"
  "min_bitrate_configured (cap_and_log now_ms s) = min_bitrate_configured s"
  "max_bitrate_configured (cap_and_log now_ms s) = max_bitrate_configured s"
  "has_decreased_since_last_fraction_loss (cap_and_log now_ms s) = has_decreased_since_last_fraction_loss s"
  "last_feedback_ms (cap_and_log now_ms s) = last_feedback_ms s"
  "last_packet_report_ms (cap_and_log now_ms s) = last_packet_report_ms s"
  "last_timeout_ms (cap_and_log now_ms s) = last_timeout_ms s"
  "last_fraction_loss (cap_and_log now_ms s) = last_fraction_loss s"
  "last_round_trip_time_ms (cap_and_log now_ms s) = last_round_trip_time_ms s"
  "bwe_incoming (cap_and_log now_ms s) = bwe_incoming s"
  "delay_based_bitrate_bps (cap_and_log now_ms s) = delay_based_bitrate_bps s"
  "time_last_decrease_ms (cap_and_log now_ms s) = time_last_decrease_ms s"
  "first_report_time_ms (cap_and_log now_ms s) = first_report_time_ms s"
  "initially_lost_packets (cap_and_log now_ms s) = initially_lost_packets s"
  "bitrate_at_2_seconds_kbps (cap_and_log now_ms s) = bitrate_at_2_seconds_kbps s"
  "uma_update_state (cap_and_log now_ms s) = uma_update_state s"
  "rampup_uma_stats_updated (cap_and_log now_ms s) = rampup_uma_stats_updated s"
  "in_timeout_experiment (cap_and_log now_ms s) = in_timeout_experiment s"
  "low_loss_threshold (cap_and_log now_ms s) = low_loss_threshold s"
  "high_loss_threshold (cap_and_log now_ms s) = high_loss_threshold s"
  "bitrate_threshold_bps (cap_and_log now_ms s) = bitrate_threshold_bps s"
  by (simp_all add: cap_and_log_def case_prod_beta)

lemma UpdateEstimate_frame [simp]:
  "min_bitrate_configured (UpdateEstimate now_ms s) = min_bitrate_configured s"
  "max_bitrate_configured (UpdateEstimate now_ms s) = max_bitrate_configured s"
  "last_feedback_ms (UpdateEstimate now_ms s) = last_feedback_ms s"
  "last_packet_report_ms (UpdateEstimate now_ms s) = last_packet_report_ms s"
  "last_fraction_loss (UpdateEstimate now_ms s) = last_fraction_loss s"
  "last_round_trip_time_ms (UpdateEstimate now_ms s) = last_round_trip_time_ms s"
  "bwe_incoming (UpdateEstimate now_ms s) = bwe_incoming s"
  "delay_based_bitrate_bps (UpdateEstimate now_ms s) = delay_based_bitrate_bps s"
  "first_report_time_ms (UpdateEstimate now_ms s) = first_report_time_ms s"
  "initially_lost_packets (UpdateEstimate now_ms s) = initially_lost_packets s"
  "bitrate_at_2_seconds_kbps (UpdateEstimate now_ms s) = bitrate_at_2_seconds_kbps s"
  "uma_update_state (UpdateEstimate now_ms s) = uma_update_state s"
  "rampup_uma_stats_updated (UpdateEstimate now_ms s) = rampup_uma_stats_updated s"
  "in_timeout_experiment (UpdateEstimate now_ms s) = in_timeout_experiment s"
  "low_loss_threshold (UpdateEstimate now_ms s) = low_loss_threshold s"
  "high_loss_threshold (UpdateEstimate now_ms s) = high_loss_threshold s"
  "bitrate_threshold_bps (UpdateEstimate now_ms s) = bitrate_threshold_bps s"
  by (simp_all add: UpdateEstimate_def Let_def)

lemma UpdateUmaStats_frame [simp]:
  "min_bitrate_history (UpdateUmaStats now_ms rtt lost s) = min_bitrate_history s"
  "lost_packets_since_last_loss_update_Q8 (UpdateUmaStats now_ms rtt lost s) = lost_packets_since_last_loss_update_Q8 s"
  "expected_packets_since_last_loss_update (UpdateUmaStats now_ms rtt lost s) = expected_packets_since_last_loss_update s"
  "bitrate (UpdateUmaStats now_ms rtt lost s) = bitrate s"
  "min_bitrate_configured (UpdateUmaStats now_ms rtt lost s) = min_bitrate_configured s"
  "max_bitrate_configured (UpdateUmaStats now_ms rtt lost s) = max_bitrate_configured s"
  "last_low_bitrate_log_ms (UpdateUmaStats now_ms rtt lost s) = last_low_bitrate_log_ms s"
  "has_decreased_since_last_fraction_loss (UpdateUmaStats now_ms rtt lost s) = has_decreased_since_last_fraction_loss s"
  "last_feedback_ms (UpdateUmaStats now_ms rtt lost s) = last_feedback_ms s"
  "last_packet_report_ms (UpdateUmaStats now_ms rtt lost s) = last_packet_report_ms s"
  "last_timeout_ms (UpdateUmaStats now_ms rtt lost s) = last_timeout_ms s"
  "last_fraction_loss (UpdateUmaStats now_ms rtt lost s) = last_fraction_loss s"
  "last_logged_fraction_loss (UpdateUmaStats now_ms rtt lost s) = last_logged_fraction_loss s"
  "last_round_trip_time_ms (UpdateUmaStats now_ms rtt lost s) = last_round_trip_time_ms s"
  "bwe_incoming (UpdateUmaStats now_ms rtt lost s) = bwe_incoming s"
  "delay_based_bitrate_bps (UpdateUmaStats now_ms rtt lost s) = delay_based_bitrate_bps s"
  "time_last_decrease_ms (UpdateUmaStats now_ms rtt lost s) = time_last_decrease_ms s"
  "first_report_time_ms (UpdateUmaStats now_ms rtt lost s) = first_report_time_ms s"
  "last_rtc_event_log_ms (UpdateUmaStats now_ms rtt lost s) = last_rtc_event_log_ms s"
  "in_timeout_experiment (UpdateUmaStats now_ms rtt lost s) = in_timeout_experiment s"
  "low_loss_threshold (UpdateUmaStats now_ms rtt lost s) = low_loss_threshold s"
  "high_loss_threshold (UpdateUmaStats now_ms rtt lost s) = high_loss_threshold s"
  "bitrate_threshold_bps (UpdateUmaStats now_ms rtt lost s) = bitrate_threshold_bps s"
  by (simp_all add: UpdateUmaStats_def Let_def case_prod_beta)

lemma Cap_lower:
  "min_bitrate_configured s = mn \<Longrightarrow> mn \<le> fst (CapBitrateToThresholds now_ms b s)"
  using Cap_bounds(1) [of s now_ms b] by simp

lemma Cap_upper:
  "max_bitrate_configured s = mx \<Longrightarrow> min_bitrate_configured s \<le> mx
     \<Longrightarrow> fst (CapBitrateToThresholds now_ms b s) \<le> mx"
  using Cap_bounds(2) [of s now_ms b] by simp

lemma Cap_fst_cong:
  assumes "min_bitrate_configured s' = min_bitrate_configured s"
    "max_bitrate_configured s' = max_bitrate_configured s"
    "bwe_incoming s' = bwe_incoming s"
    "delay_based_bitrate_bps s' = delay_based_bitrate_bps s"
  shows "fst (CapBitrateToThresholds now' b s') = fst (CapBitrateToThresholds now_ms b s)"
  using assms by (simp add: Cap_fst)

lemma Cap_fst_mono:
  "a \<le> b \<Longrightarrow> fst (CapBitrateToThresholds now_ms a s) \<le> fst (CapBitrateToThresholds now_ms b s)"
  unfolding Cap_fst by (rule cap_formula_mono)

text \<open>
  The conversion of a \<^verbatim>\<open>uint32_t\<close> to \<^verbatim>\<open>int\<close> keeps a value below \<open>2 ^ 31\<close> and subtracts
  \<open>2 ^ 32\<close> from any other.
\<close>

lemma sint_below_2p31:
  fixes w :: u32
  assumes "uint w < 2 ^ 31"
  shows "sint w = uint w"
proof -
  have "signed_take_bit 31 (uint w) = uint w"
  proof (rule signed_take_bit_int_eq_self)
    have "- (2 ^ 31) \<le> (0 :: int)" by simp
    also have "0 \<le> uint w" by simp
    finally show "- (2 ^ 31) \<le> uint w" .
    show "uint w < 2 ^ 31" by (rule assms)
  qed
  then show ?thesis by (simp add: sint_uint)
qed

lemma sint_from_2p31:
  fixes w :: u32
  assumes "2 ^ 31 \<le> uint w"
  shows "sint w = uint w - 2 ^ 32"
proof -
  have b: "uint w < 2 ^ 32" using uint_lt2p [of w] by simp
  have "signed_take_bit 31 (uint w) = take_bit (Suc 31) (uint w + 2 ^ 31) - 2 ^ 31"
    by (rule signed_take_bit_eq_take_bit_shift)
  also have "take_bit (Suc 31) (uint w + 2 ^ 31) = (uint w + 2 ^ 31) mod 2 ^ 32"
    by (simp add: take_bit_eq_mod)
  also have "(uint w + 2 ^ 31) mod 2 ^ 32 = uint w + 2 ^ 31 - 2 ^ 32"
  proof -
    have "(uint w + 2 ^ 31) mod 2 ^ 32 = (uint w + 2 ^ 31 - 2 ^ 32) mod 2 ^ 32"
      by (metis minus_mod_self2)
    also have "\<dots> = uint w + 2 ^ 31 - 2 ^ 32"
      using assms b by (intro mod_pos_pos_trivial) simp_all
    finally show ?thesis .
  qed
  finally show ?thesis by (simp add: sint_uint)
qed

lemma sint_nonnegative:
  fixes w :: u32
  assumes "0 \<le> sint w"
  shows "sint w = uint w"
proof (cases "uint w < 2 ^ 31")
  case True
  then show ?thesis by (rule sint_below_2p31)
next
  case False
  then have "sint w = uint w - 2 ^ 32" by (intro sint_from_2p31) simp
  moreover have "uint w < 2 ^ 32" using uint_lt2p [of w] by simp
  ultimately show ?thesis using assms by simp
qed

text \<open>
  \<^verbatim>\<open>UpdateUmaStats\<close> converts \<^verbatim>\<open>(bitrate_ + 500) / 1000\<close>, which is below \<open>2 ^ 31\<close>: the
  conversion keeps the value, as the model has it.
\<close>

lemma bitrate_kbps_conversion:
  fixes b :: u32
  shows "sint ((b + 500) div 1000) = uint ((b + 500) div 1000)"
proof (rule sint_below_2p31)
  have "uint ((b + 500) div 1000) = uint (b + 500) div 1000"
    by (simp add: uint_div)
  moreover have "uint (b + 500) < 2 ^ 32" using uint_lt2p [of "b + 500"] by simp
  ultimately show "uint ((b + 500) div 1000) < 2 ^ 31" by simp
qed

text \<open>
  With a configured maximum that is a value of \<^verbatim>\<open>int\<close>, the estimate that \<^verbatim>\<open>CurrentEstimate\<close>
  returns is within the bounds iff the stored bitrate is.
\<close>

lemma estimate_within_bounds_iff:
  assumes "uint (max_bitrate_configured s) < 2 ^ 31"
  shows "estimate_within_bounds s \<longleftrightarrow>
     min_bitrate_configured s \<le> bitrate s \<and> bitrate s \<le> max_bitrate_configured s"
proof
  assume "estimate_within_bounds s"
  then have a: "uint (min_bitrate_configured s) \<le> sint (bitrate s)"
    and b: "sint (bitrate s) \<le> uint (max_bitrate_configured s)"
    by (simp_all add: estimate_within_bounds_def CurrentEstimate_def)
  have "0 \<le> uint (min_bitrate_configured s)" by simp
  with a have "0 \<le> sint (bitrate s)" by linarith
  then have "sint (bitrate s) = uint (bitrate s)" by (rule sint_nonnegative)
  with a b show "min_bitrate_configured s \<le> bitrate s \<and> bitrate s \<le> max_bitrate_configured s"
    by (simp add: word_le_def)
next
  assume c: "min_bitrate_configured s \<le> bitrate s \<and> bitrate s \<le> max_bitrate_configured s"
  then have "uint (bitrate s) \<le> uint (max_bitrate_configured s)" by (simp add: word_le_def)
  then have "uint (bitrate s) < 2 ^ 31" using assms by (rule le_less_trans)
  then have "sint (bitrate s) = uint (bitrate s)" by (rule sint_below_2p31)
  with c show "estimate_within_bounds s"
    by (simp add: estimate_within_bounds_def CurrentEstimate_def word_le_def)
qed

lemma startup_trust_changed:
  assumes "min_bitrate_configured s \<le> max_bitrate_configured s"
    and "bitrate (startup_trust now_ms s) \<noteq> bitrate s"
  shows "min_bitrate_configured s \<le> bitrate (startup_trust now_ms s)
         \<and> bitrate (startup_trust now_ms s) \<le> max_bitrate_configured s"
  using assms
  by (simp add: startup_trust_def Let_def Cap_lower Cap_upper split: if_splits)

lemma UpdateEstimate_bitrate_bounds:
  assumes "min_bitrate_configured s \<le> max_bitrate_configured s"
  shows "min_bitrate_configured s \<le> bitrate (UpdateEstimate now_ms s)
         \<and> bitrate (UpdateEstimate now_ms s) \<le> max_bitrate_configured s"
proof (cases "bitrate (startup_block now_ms s) \<noteq> bitrate s")
  case True
  then have "bitrate (startup_trust now_ms s) \<noteq> bitrate s"
    and "startup_block now_ms s = startup_trust now_ms s"
    by (simp_all add: startup_block_def split: if_splits)
  with assms True show ?thesis
    using startup_trust_changed [of s now_ms]
    by (simp add: UpdateEstimate_def Let_def)
next
  case False
  with assms show ?thesis
    by (simp add: UpdateEstimate_def Let_def Cap_lower Cap_upper)
qed

lemma UpdateEstimate_within_bounds:
  assumes "min_bitrate_configured s \<le> max_bitrate_configured s"
    and "uint (max_bitrate_configured s) < 2 ^ 31"
  shows "estimate_within_bounds (UpdateEstimate now_ms s)"
  using UpdateEstimate_bitrate_bounds [OF assms(1), of now_ms] assms(2)
  by (simp add: estimate_within_bounds_iff)

subsection \<open>Evaluation\<close>

text \<open>The loops of \<^verbatim>\<open>UpdateMinHistory\<close> as \<open>dropWhile\<close>, and the equations that evaluate a run.\<close>

lemma pop_front_expired_dropWhile:
  "pop_front_expired now_ms h = dropWhile (expired now_ms) h"
  by (induction h) (auto simp add: expired_def)

lemma pop_back_higher_dropWhile:
  "pop_back_higher cur h = rev (dropWhile (\<lambda>e. cur \<le> snd e) (rev h))"
proof (induction cur h rule: pop_back_higher.induct)
  case (1 cur h)
  show ?case
  proof (cases "h \<noteq> [] \<and> cur \<le> snd (last h)")
    case True
    then obtain xs x where h: "h = xs @ [x]" by (metis append_butlast_last_id)
    have "pop_back_higher cur h =
        (if h \<noteq> [] \<and> cur \<le> snd (last h) then pop_back_higher cur (butlast h) else h)"
      by (rule pop_back_higher.simps)
    also have "\<dots> = pop_back_higher cur (butlast h)" using True by (rule if_P)
    finally have "pop_back_higher cur h = pop_back_higher cur (butlast h)" .
    also have "\<dots> = rev (dropWhile (\<lambda>e. cur \<le> snd e) (rev (butlast h)))"
      using True by (rule 1)
    also have "\<dots> = rev (dropWhile (\<lambda>e. cur \<le> snd e) (rev h))"
      using True by (simp add: h)
    finally show ?thesis .
  next
    case False
    have "pop_back_higher cur h =
        (if h \<noteq> [] \<and> cur \<le> snd (last h) then pop_back_higher cur (butlast h) else h)"
      by (rule pop_back_higher.simps)
    also have "\<dots> = h" using False by (rule if_not_P)
    finally have "pop_back_higher cur h = h" .
    moreover have "dropWhile (\<lambda>e. cur \<le> snd e) (rev h) = rev h"
      using False by (cases h rule: rev_cases) simp_all
    ultimately show ?thesis by simp
  qed
qed

lemmas eval_defs = SetMinMaxBitrate_def UpdateReceiverEstimate_def UpdateReceiverBlock_def
  SetSendBitrate_def initial_state_def note_feedback_def accumulate_report_def
  new_fraction_loss_def UpdateEstimate_def startup_block_def startup_trust_def
  IsInStartPhase_def UpdateMinHistory_def push_min_history_def pop_back_higher_dropWhile
  loss_based_control_def cap_and_log_def assign_capped_def CapBitrateToThresholds_def
  UpdateUmaStats_def mul_1_08_add_half_exact mul_0_8_exact signed_divide_int_def
  Let_def case_prod_beta const_defs

subsection \<open>The estimate and the configured bounds\<close>

lemma over_max_state_eval:
  "over_max_state = (initial_state 10000 False)\<lparr>min_bitrate_configured := 10000, max_bitrate_configured := 20000, bitrate := 30000\<rparr>"
  by (simp add: over_max_state_def SetSendBitrate_def SetMinMaxBitrate_def initial_state_def const_defs)

lemma UpdateReceiverEstimate_within_bounds:
  assumes "min_bitrate_configured s \<le> max_bitrate_configured s"
    and "uint (max_bitrate_configured s) < 2 ^ 31"
  shows "estimate_within_bounds (UpdateReceiverEstimate now_ms bandwidth s)"
proof -
  let ?r = "UpdateReceiverEstimate now_ms bandwidth s"
  have c: "min_bitrate_configured ?r = min_bitrate_configured s"
    "max_bitrate_configured ?r = max_bitrate_configured s"
    by (simp_all add: UpdateReceiverEstimate_def Let_def)
  have "min_bitrate_configured s \<le> bitrate ?r \<and> bitrate ?r \<le> max_bitrate_configured s"
    using assms(1) by (simp add: UpdateReceiverEstimate_def Let_def Cap_lower Cap_upper)
  then show ?thesis using assms(2) by (simp add: estimate_within_bounds_iff c)
qed

lemma UpdateDelayBasedEstimate_within_bounds:
  assumes "min_bitrate_configured s \<le> max_bitrate_configured s"
    and "uint (max_bitrate_configured s) < 2 ^ 31"
  shows "estimate_within_bounds (UpdateDelayBasedEstimate now_ms bitrate_bps s)"
proof -
  let ?r = "UpdateDelayBasedEstimate now_ms bitrate_bps s"
  have c: "min_bitrate_configured ?r = min_bitrate_configured s"
    "max_bitrate_configured ?r = max_bitrate_configured s"
    by (simp_all add: UpdateDelayBasedEstimate_def Let_def)
  have "min_bitrate_configured s \<le> bitrate ?r \<and> bitrate ?r \<le> max_bitrate_configured s"
    using assms(1) by (simp add: UpdateDelayBasedEstimate_def Let_def Cap_lower Cap_upper)
  then show ?thesis using assms(2) by (simp add: estimate_within_bounds_iff c)
qed

lemma UpdateReceiverBlock_within_bounds:
  assumes "min_bitrate_configured s \<le> max_bitrate_configured s"
    and "uint (max_bitrate_configured s) < 2 ^ 31"
    and "estimate_within_bounds s"
  shows "estimate_within_bounds (UpdateReceiverBlock fraction_loss rtt number_of_packets now_ms s)"
proof -
  let ?r = "UpdateReceiverBlock fraction_loss rtt number_of_packets now_ms s"
  have c: "min_bitrate_configured ?r = min_bitrate_configured s"
    "max_bitrate_configured ?r = max_bitrate_configured s"
    by (simp_all add: UpdateReceiverBlock_def Let_def note_feedback_def accumulate_report_def
        new_fraction_loss_def)
  have w: "min_bitrate_configured s \<le> bitrate s \<and> bitrate s \<le> max_bitrate_configured s"
    using assms(3) estimate_within_bounds_iff [OF assms(2)] by simp
  have ue: "min_bitrate_configured s \<le> bitrate (UpdateEstimate now_ms s')
      \<and> bitrate (UpdateEstimate now_ms s') \<le> max_bitrate_configured s"
    if "min_bitrate_configured s' = min_bitrate_configured s"
       "max_bitrate_configured s' = max_bitrate_configured s" for s'
    using UpdateEstimate_bitrate_bounds [of s' now_ms] that assms(1) by simp
  have "min_bitrate_configured s \<le> bitrate ?r \<and> bitrate ?r \<le> max_bitrate_configured s"
    using w ue
    by (simp add: UpdateReceiverBlock_def Let_def note_feedback_def accumulate_report_def
        new_fraction_loss_def)
  then show ?thesis using assms(2) by (simp add: estimate_within_bounds_iff c)
qed

text \<open>
  The configured maximum is a value of \<^verbatim>\<open>int\<close> in every state that the program reaches: the
  constructor sets it to \<^verbatim>\<open>kDefaultMaxBitrateBps\<close>, \<^verbatim>\<open>SetMinMaxBitrate\<close> sets it from its \<^verbatim>\<open>int\<close>
  arguments and the \<^verbatim>\<open>int\<close> that \<^verbatim>\<open>GetMinBitrateBps\<close> returns, and nothing else assigns it.
\<close>

lemma SetMinMaxBitrate_max_is_int:
  assumes "system_min < 2 ^ 31" "0 \<le> min_b" "min_b < 2 ^ 31" "max_b < 2 ^ 31"
  shows "uint (max_bitrate_configured (SetMinMaxBitrate system_min min_b max_b s)) < 2 ^ 31"
proof -
  define m where "m = max min_b system_min"
  have m: "0 \<le> m" "m < 2 ^ 31" using assms by (simp_all add: m_def)
  have um: "uint (word_of_int m :: u32) = m"
    using m by (simp add: uint_word_of_int take_bit_int_eq_self)
  show ?thesis
  proof (cases "0 < max_b")
    case True
    have ub: "uint (word_of_int max_b :: u32) = max_b"
      using True assms(4) by (simp add: uint_word_of_int take_bit_int_eq_self)
    have "uint (max (word_of_int m) (word_of_int max_b) :: u32) = max m max_b"
      using um ub by (simp add: max_def word_le_def)
    then show ?thesis
      using True m assms(4) by (simp add: SetMinMaxBitrate_def Let_def m_def [symmetric])
  next
    case False
    then show ?thesis by (simp add: SetMinMaxBitrate_def Let_def const_defs)
  qed
qed

lemma run_operation_max_is_int:
  assumes "system_min < 2 ^ 31" "bounds_arguments_int op"
    and "uint (max_bitrate_configured s) < 2 ^ 31"
  shows "uint (max_bitrate_configured (run_operation system_min op s)) < 2 ^ 31"
proof (cases op)
  case (SetBitratesOp send_b min_b max_b)
  have "uint (max_bitrate_configured (SetMinMaxBitrate system_min min_b max_b s')) < 2 ^ 31"
    for s'
    using assms(1,2) SetBitratesOp by (intro SetMinMaxBitrate_max_is_int) simp_all
  then show ?thesis by (simp add: SetBitratesOp SetBitrates_def)
next
  case (SetSendBitrateOp b)
  with assms(3) show ?thesis by (simp add: SetSendBitrate_def)
next
  case (SetMinMaxBitrateOp min_b max_b)
  have "uint (max_bitrate_configured (SetMinMaxBitrate system_min min_b max_b s)) < 2 ^ 31"
    using assms(1,2) SetMinMaxBitrateOp by (intro SetMinMaxBitrate_max_is_int) simp_all
  then show ?thesis by (simp add: SetMinMaxBitrateOp)
next
  case (UpdateReceiverEstimateOp now_ms bandwidth)
  with assms(3) show ?thesis by (simp add: UpdateReceiverEstimate_def Let_def)
next
  case (UpdateDelayBasedEstimateOp now_ms bitrate_bps)
  with assms(3) show ?thesis by (simp add: UpdateDelayBasedEstimate_def Let_def)
next
  case (UpdateReceiverBlockOp fraction_loss rtt number_of_packets now_ms)
  with assms(3) show ?thesis
    by (simp add: UpdateReceiverBlock_def Let_def note_feedback_def accumulate_report_def
        new_fraction_loss_def)
next
  case (UpdateEstimateOp now_ms)
  with assms(3) show ?thesis by simp
qed

lemma new_SendSideBandwidthEstimation_max:
  assumes "new_SendSideBandwidthEstimation system_min timeout_trial loss_trial = Some s"
  shows "max_bitrate_configured s = 1000000000"
  using assms
  by (auto simp add: new_SendSideBandwidthEstimation_def initial_state_def Let_def const_defs
      split: option.splits)

lemma run_operations_max_is_int:
  assumes "system_min < 2 ^ 31" "list_all bounds_arguments_int ops"
    and "uint (max_bitrate_configured s) < 2 ^ 31"
  shows "uint (max_bitrate_configured (fold (run_operation system_min) ops s)) < 2 ^ 31"
  using assms(2,3)
proof (induction ops arbitrary: s)
  case Nil
  then show ?case by simp
next
  case (Cons op ops)
  have "uint (max_bitrate_configured (run_operation system_min op s)) < 2 ^ 31"
    using assms(1) Cons.prems by (intro run_operation_max_is_int) simp_all
  moreover have "list_all bounds_arguments_int ops" using Cons.prems by simp
  ultimately have "uint (max_bitrate_configured
      (fold (run_operation system_min) ops (run_operation system_min op s))) < 2 ^ 31"
    by (intro Cons.IH)
  then show ?case by simp
qed

lemma reachable_max_is_int:
  assumes "new_SendSideBandwidthEstimation system_min timeout_trial loss_trial = Some s"
    and "system_min < 2 ^ 31" "list_all bounds_arguments_int ops"
  shows "uint (max_bitrate_configured (fold (run_operation system_min) ops s)) < 2 ^ 31"
proof -
  have "uint (max_bitrate_configured s) < 2 ^ 31"
    by (simp add: new_SendSideBandwidthEstimation_max [OF assms(1)])
  with assms(2,3) show ?thesis by (rule run_operations_max_is_int)
qed

text \<open>
  Claim C1, as amended. \<^verbatim>\<open>SetSendBitrate\<close> stores the bitrate it is given, uncapped, and
  \<^verbatim>\<open>SetMinMaxBitrate\<close> does not touch the estimate; the estimate is within the configured
  bounds after each operation that caps. In a state whose configured minimum is at most its
  configured maximum, and whose configured maximum is a value of \<^verbatim>\<open>int\<close> (below \<open>2 ^ 31\<close>, as
  it is in every state that the program reaches, lemma \<open>reachable_max_is_int\<close>), the
  \<^verbatim>\<open>int\<close> that \<^verbatim>\<open>CurrentEstimate\<close> returns lies between \<^verbatim>\<open>min_bitrate_configured_\<close> and
  \<^verbatim>\<open>max_bitrate_configured_\<close> after \<^verbatim>\<open>UpdateEstimate\<close>, after \<^verbatim>\<open>UpdateReceiverEstimate\<close> and after
  \<^verbatim>\<open>UpdateDelayBasedEstimate\<close>, and \<^verbatim>\<open>UpdateReceiverBlock\<close> keeps it there once it is.
\<close>

theorem capping_operations_keep_estimate_within_bounds:
  assumes "min_bitrate_configured s \<le> max_bitrate_configured s"
    and "uint (max_bitrate_configured s) < 2 ^ 31"
  shows "estimate_within_bounds (UpdateEstimate now_ms s)
       \<and> estimate_within_bounds (UpdateReceiverEstimate now_ms bandwidth s)
       \<and> estimate_within_bounds (UpdateDelayBasedEstimate now_ms bitrate_bps s)
       \<and> (estimate_within_bounds s
            \<longrightarrow> estimate_within_bounds (UpdateReceiverBlock fraction_loss rtt number_of_packets now_ms s))"
  using assms UpdateEstimate_within_bounds UpdateReceiverEstimate_within_bounds
    UpdateDelayBasedEstimate_within_bounds UpdateReceiverBlock_within_bounds
  by blast

text \<open>
  Claim C1 as stated fails: after bounds of 10000 and 20000 and then \<^verbatim>\<open>SetSendBitrate(30000)\<close>,
  \<^verbatim>\<open>CurrentEstimate\<close> returns 30000, above the configured maximum.
\<close>

theorem SetSendBitrate_estimate_out_of_bounds:
  "fst (CurrentEstimate over_max_state) = 30000
   \<and> uint (max_bitrate_configured over_max_state) = 20000
   \<and> \<not> estimate_within_bounds over_max_state"
  by (simp add: over_max_state_eval estimate_within_bounds_def CurrentEstimate_def initial_state_def)

text \<open>
  The amended claim at a state whose estimate is within the bounds, and, at the state of the
  counterexample, the next \<^verbatim>\<open>UpdateEstimate\<close> bringing the estimate down to the maximum.
\<close>

theorem capping_operations_keep_estimate_within_bounds_witness:
  "min_bitrate_configured within_bounds_state \<le> max_bitrate_configured within_bounds_state
   \<and> uint (max_bitrate_configured within_bounds_state) < 2 ^ 31
   \<and> estimate_within_bounds within_bounds_state
   \<and> estimate_within_bounds (UpdateEstimate 0 within_bounds_state)
   \<and> estimate_within_bounds (UpdateReceiverEstimate 0 0 within_bounds_state)
   \<and> estimate_within_bounds (UpdateDelayBasedEstimate 0 0 within_bounds_state)
   \<and> estimate_within_bounds (UpdateReceiverBlock 0 100 30 0 within_bounds_state)
   \<and> min_bitrate_configured over_max_state \<le> max_bitrate_configured over_max_state
   \<and> uint (max_bitrate_configured over_max_state) < 2 ^ 31
   \<and> estimate_within_bounds (UpdateEstimate 0 over_max_state)
   \<and> fst (CurrentEstimate (UpdateEstimate 0 over_max_state)) = 20000"
proof -
  have e: "within_bounds_state =
      (initial_state 10000 False)\<lparr>min_bitrate_configured := 10000,
        max_bitrate_configured := 20000, bitrate := 15000\<rparr>"
    by (simp add: within_bounds_state_def SetSendBitrate_def SetMinMaxBitrate_def
        initial_state_def const_defs)
  have h: "min_bitrate_configured within_bounds_state \<le> max_bitrate_configured within_bounds_state"
    "uint (max_bitrate_configured within_bounds_state) < 2 ^ 31"
    by (simp_all add: e initial_state_def)
  have w: "estimate_within_bounds within_bounds_state"
    by (simp add: e estimate_within_bounds_def CurrentEstimate_def initial_state_def)
  have h': "min_bitrate_configured over_max_state \<le> max_bitrate_configured over_max_state"
    "uint (max_bitrate_configured over_max_state) < 2 ^ 31"
    by (simp_all add: over_max_state_eval initial_state_def)
  have "bitrate (UpdateEstimate 0 over_max_state) = 20000"
    by (simp add: over_max_state_eval UpdateEstimate_def startup_block_def startup_trust_def
        IsInStartPhase_def UpdateMinHistory_def assign_capped_def CapBitrateToThresholds_def
        Let_def initial_state_def const_defs)
  then have v: "fst (CurrentEstimate (UpdateEstimate 0 over_max_state)) = 20000"
    by (simp add: CurrentEstimate_def)
  show ?thesis
    using h w h' v
      capping_operations_keep_estimate_within_bounds [OF h, of 0 0 0 0 100 30]
      capping_operations_keep_estimate_within_bounds [OF h', of 0 0 0 0 100 30]
    by simp
qed

subsection \<open>Capping is idempotent\<close>

text \<open>
  Claim C7. The bitrate that \<^verbatim>\<open>CapBitrateToThresholds\<close> returns is a fixed point of it: capping
  the result again, in the same state or in the state the first call leaves (which differs
  in the time of the last below-minimum warning only), at any time, returns the result
  unchanged. The caps apply in the order REMB ceiling, delay-based ceiling, configured
  maximum, configured minimum.
\<close>

theorem CapBitrateToThresholds_idempotent:
  "fst (CapBitrateToThresholds now2 (fst (CapBitrateToThresholds now1 b s)) s)
     = fst (CapBitrateToThresholds now1 b s)
   \<and> fst (CapBitrateToThresholds now2 (fst (CapBitrateToThresholds now1 b s))
            (snd (CapBitrateToThresholds now1 b s)))
     = fst (CapBitrateToThresholds now1 b s)
   \<and> fst (CapBitrateToThresholds now1 b s)
     = max (min_bitrate_configured s)
         (min (max_bitrate_configured s)
            (ceiling_cap (delay_based_bitrate_bps s) (ceiling_cap (bwe_incoming s) b)))"
  by (simp add: Cap_fst cap_formula_idem)

text \<open>The cap-ordering scenario: 900000 is capped to 400000, and 400000 stays.\<close>

theorem CapBitrateToThresholds_idempotent_witness:
  "fst (CapBitrateToThresholds 0 900000 cap_ordering_state) = 400000
   \<and> fst (CapBitrateToThresholds 1 400000 cap_ordering_state) = 400000
   \<and> fst (CapBitrateToThresholds 1 400000 (snd (CapBitrateToThresholds 0 900000 cap_ordering_state)))
       = 400000"
proof -
  have v: "fst (CapBitrateToThresholds 0 900000 cap_ordering_state) = 400000"
    by (simp add: cap_ordering_state_def CapBitrateToThresholds_def Let_def initial_state_def)
  show ?thesis
    using CapBitrateToThresholds_idempotent [of 1 0 900000 cap_ordering_state]
    unfolding v by simp
qed

subsection \<open>The configured bounds\<close>

text \<open>
  \<^verbatim>\<open>SetMinMaxBitrate\<close> orders the bounds when \<^verbatim>\<open>max_bitrate > 0\<close>, where it takes the larger
  of the two, and when the minimum is at most the default maximum.
\<close>

lemma SetMinMaxBitrate_ordered:
  assumes "0 < max_b \<or> (0 \<le> max min_b system_min \<and> max min_b system_min \<le> 1000000000)"
  shows "min_bitrate_configured (SetMinMaxBitrate system_min min_b max_b s)
         \<le> max_bitrate_configured (SetMinMaxBitrate system_min min_b max_b s)"
proof (cases "0 < max_b")
  case True
  then show ?thesis by (simp add: SetMinMaxBitrate_def Let_def)
next
  case False
  with assms have r: "0 \<le> max min_b system_min" "max min_b system_min \<le> 1000000000" by simp_all
  then have "uint (word_of_int (max min_b system_min) :: u32) = max min_b system_min"
    by (simp add: uint_word_of_int take_bit_int_eq_self)
  moreover have "uint (1000000000 :: u32) = 1000000000" by simp
  ultimately show ?thesis using False r
    by (simp add: SetMinMaxBitrate_def Let_def kDefaultMaxBitrateBps_def word_le_def)
qed

text \<open>
  Claim C3 says that \<^verbatim>\<open>min_bitrate_configured_ \<le> max_bitrate_configured_\<close> holds after every
  call of \<^verbatim>\<open>SetMinMaxBitrate\<close> with a minimum of at least 0, also when \<^verbatim>\<open>max_bitrate \<le> 0\<close>
  resets the maximum to the default. The branch for \<^verbatim>\<open>max_bitrate > 0\<close> takes the larger of
  the minimum and the maximum; the branch for the default does not, and
  \<^verbatim>\<open>SetMinMaxBitrate(2000000000, 0)\<close> leaves the minimum 2000000000 above the maximum
  1000000000, in every state.
\<close>

theorem SetMinMaxBitrate_default_max_below_min:
  "min_bitrate_configured (SetMinMaxBitrate 10000 2000000000 0 s) = 2000000000
   \<and> max_bitrate_configured (SetMinMaxBitrate 10000 2000000000 0 s) = 1000000000
   \<and> \<not> min_bitrate_configured (SetMinMaxBitrate 10000 2000000000 0 s)
         \<le> max_bitrate_configured (SetMinMaxBitrate 10000 2000000000 0 s)"
  by (simp add: SetMinMaxBitrate_def Let_def kDefaultMaxBitrateBps_def)

subsection \<open>Receiver blocks\<close>

text \<open>
  Claim C10. A call of \<^verbatim>\<open>UpdateReceiverBlock\<close> with \<^verbatim>\<open>number_of_packets \<le> 0\<close> leaves the
  bitrate, the loss fraction, the decrease flag, the time of the last packet report and both
  loss accumulators as they are. Apart from the metrics state (the ramp-up flags, the
  initially lost packets, the bitrate at two seconds, the state of the one-shot metrics and
  what was sent to the sinks) it changes \<^verbatim>\<open>last_feedback_ms_\<close>, \<^verbatim>\<open>first_report_time_ms_\<close> (when
  that was -1) and \<^verbatim>\<open>last_round_trip_time_ms_\<close>, and nothing else.
\<close>

theorem UpdateReceiverBlock_without_packets:
  assumes "number_of_packets \<le> 0"
  shows "bitrate (UpdateReceiverBlock fraction_loss rtt number_of_packets now_ms s) = bitrate s
    \<and> last_fraction_loss (UpdateReceiverBlock fraction_loss rtt number_of_packets now_ms s)
        = last_fraction_loss s
    \<and> has_decreased_since_last_fraction_loss
          (UpdateReceiverBlock fraction_loss rtt number_of_packets now_ms s)
        = has_decreased_since_last_fraction_loss s
    \<and> last_packet_report_ms (UpdateReceiverBlock fraction_loss rtt number_of_packets now_ms s)
        = last_packet_report_ms s
    \<and> lost_packets_since_last_loss_update_Q8
          (UpdateReceiverBlock fraction_loss rtt number_of_packets now_ms s)
        = lost_packets_since_last_loss_update_Q8 s
    \<and> expected_packets_since_last_loss_update
          (UpdateReceiverBlock fraction_loss rtt number_of_packets now_ms s)
        = expected_packets_since_last_loss_update s
    \<and> (UpdateReceiverBlock fraction_loss rtt number_of_packets now_ms s)
          \<lparr>rampup_uma_stats_updated := rampup_uma_stats_updated s,
           initially_lost_packets := initially_lost_packets s,
           bitrate_at_2_seconds_kbps := bitrate_at_2_seconds_kbps s,
           uma_update_state := uma_update_state s,
           emitted := emitted s\<rparr>
        = s\<lparr>last_feedback_ms := now_ms,
            first_report_time_ms :=
              (if first_report_time_ms s = -1 then now_ms else first_report_time_ms s),
            last_round_trip_time_ms := rtt\<rparr>"
  using assms
  by (simp add: UpdateReceiverBlock_def UpdateUmaStats_def note_feedback_def Let_def
      case_prod_beta)

theorem UpdateReceiverBlock_without_packets_witness:
  "(0 :: int) \<le> 0
   \<and> bitrate (UpdateReceiverBlock 7 100 0 50 within_bounds_state) = bitrate within_bounds_state
   \<and> last_feedback_ms (UpdateReceiverBlock 7 100 0 50 within_bounds_state) = 50
   \<and> first_report_time_ms (UpdateReceiverBlock 7 100 0 50 within_bounds_state) = 50
   \<and> last_round_trip_time_ms (UpdateReceiverBlock 7 100 0 50 within_bounds_state) = 100
   \<and> last_packet_report_ms (UpdateReceiverBlock 7 100 0 50 within_bounds_state) = -1
   \<and> expected_packets_since_last_loss_update
        (UpdateReceiverBlock 7 100 0 50 within_bounds_state) = 0"
proof -
  have f: "last_feedback_ms (s\<lparr>rampup_uma_stats_updated := a, initially_lost_packets := b,
             bitrate_at_2_seconds_kbps := c, uma_update_state := d, emitted := e\<rparr>)
           = last_feedback_ms s"
      "first_report_time_ms (s\<lparr>rampup_uma_stats_updated := a, initially_lost_packets := b,
             bitrate_at_2_seconds_kbps := c, uma_update_state := d, emitted := e\<rparr>)
           = first_report_time_ms s"
      "last_round_trip_time_ms (s\<lparr>rampup_uma_stats_updated := a, initially_lost_packets := b,
             bitrate_at_2_seconds_kbps := c, uma_update_state := d, emitted := e\<rparr>)
           = last_round_trip_time_ms s"
    for s :: SendSideBandwidthEstimation and a b c d e
    by simp_all
  have i: "first_report_time_ms within_bounds_state = -1"
      "last_packet_report_ms within_bounds_state = -1"
      "expected_packets_since_last_loss_update within_bounds_state = 0"
    by (simp_all add: within_bounds_state_def SetSendBitrate_def SetMinMaxBitrate_def
        initial_state_def Let_def)
  note w = UpdateReceiverBlock_without_packets [of 0 7 100 50 within_bounds_state]
  from w have "(UpdateReceiverBlock 7 100 0 50 within_bounds_state)
          \<lparr>rampup_uma_stats_updated := rampup_uma_stats_updated within_bounds_state,
           initially_lost_packets := initially_lost_packets within_bounds_state,
           bitrate_at_2_seconds_kbps := bitrate_at_2_seconds_kbps within_bounds_state,
           uma_update_state := uma_update_state within_bounds_state,
           emitted := emitted within_bounds_state\<rparr>
        = within_bounds_state\<lparr>last_feedback_ms := 50,
            first_report_time_ms := 50, last_round_trip_time_ms := 100\<rparr>"
    by (simp add: i)
  from arg_cong [OF this, of last_feedback_ms] arg_cong [OF this, of first_report_time_ms]
    arg_cong [OF this, of last_round_trip_time_ms]
  have "last_feedback_ms (UpdateReceiverBlock 7 100 0 50 within_bounds_state) = 50"
    "first_report_time_ms (UpdateReceiverBlock 7 100 0 50 within_bounds_state) = 50"
    "last_round_trip_time_ms (UpdateReceiverBlock 7 100 0 50 within_bounds_state) = 100"
    by (simp_all only: f) simp_all
  with w show ?thesis by (simp add: i)
qed

text \<open>
  Claim C2, as amended. \<^verbatim>\<open>UpdateReceiverBlock\<close> ends with the call
  \<^verbatim>\<open>UpdateUmaStats(now_ms, rtt, (fraction_loss * number_of_packets) >> 8)\<close> when
  \<^verbatim>\<open>number_of_packets \<le> 0\<close>, and when \<^verbatim>\<open>number_of_packets > 0\<close> and the accumulated expected
  packet count reaches 20, there after \<^verbatim>\<open>UpdateEstimate\<close>. (When the accumulated count stays
  below 20 the function returns before that call.)
\<close>

theorem UpdateReceiverBlock_calls_UpdateUmaStats:
  "(number_of_packets \<le> 0 \<longrightarrow>
      UpdateReceiverBlock fraction_loss rtt number_of_packets now_ms s
        = UpdateUmaStats now_ms rtt (drop_bit 8 (uint fraction_loss * number_of_packets))
            (note_feedback rtt now_ms s))
   \<and> (0 < number_of_packets
        \<and> kLimitNumPackets \<le> expected_packets_since_last_loss_update s + number_of_packets \<longrightarrow>
      UpdateReceiverBlock fraction_loss rtt number_of_packets now_ms s
        = UpdateUmaStats now_ms rtt (drop_bit 8 (uint fraction_loss * number_of_packets))
            (UpdateEstimate now_ms
               (new_fraction_loss now_ms
                  (accumulate_report fraction_loss number_of_packets
                     (note_feedback rtt now_ms s)))))"
  by (simp add: UpdateReceiverBlock_def Let_def accumulate_report_def note_feedback_def)

theorem UpdateReceiverBlock_calls_UpdateUmaStats_witness:
  "(0 :: int) \<le> 0
   \<and> UpdateReceiverBlock 7 100 0 50 within_bounds_state
       = UpdateUmaStats 50 100 (drop_bit 8 (uint (7 :: u8) * 0))
           (note_feedback 100 50 within_bounds_state)
   \<and> (0 :: int) < 30
   \<and> kLimitNumPackets \<le> expected_packets_since_last_loss_update within_bounds_state + 30
   \<and> UpdateReceiverBlock 7 100 30 50 within_bounds_state
       = UpdateUmaStats 50 100 (drop_bit 8 (uint (7 :: u8) * 30))
           (UpdateEstimate 50
              (new_fraction_loss 50
                 (accumulate_report 7 30 (note_feedback 100 50 within_bounds_state))))"
proof -
  have i: "expected_packets_since_last_loss_update within_bounds_state = 0"
    by (simp add: within_bounds_state_def SetSendBitrate_def SetMinMaxBitrate_def
        initial_state_def Let_def)
  show ?thesis
    using UpdateReceiverBlock_calls_UpdateUmaStats [of 0 7 100 50 within_bounds_state]
      UpdateReceiverBlock_calls_UpdateUmaStats [of 30 7 100 50 within_bounds_state]
    by (simp add: i kLimitNumPackets_def)
qed

text \<open>
  Claim C2 as stated fails on the early return: a first report of 10 packets with the loss
  fraction 255 leaves the state as the accumulation leaves it, without the call of
  \<^verbatim>\<open>UpdateUmaStats\<close>, which would have added \<^verbatim>\<open>(255 * 10) >> 8 = 9\<close> to the initially lost
  packets.
\<close>

theorem UpdateReceiverBlock_thin_report_skips_UpdateUmaStats:
  "UpdateReceiverBlock 255 100 10 0 (initial_state 10000 False) = thin_report
   \<and> UpdateUmaStats 0 100 (drop_bit 8 (uint (255 :: u8) * 10)) thin_report
       \<noteq> UpdateReceiverBlock 255 100 10 0 (initial_state 10000 False)
   \<and> initially_lost_packets (UpdateReceiverBlock 255 100 10 0 (initial_state 10000 False)) = 0
   \<and> initially_lost_packets
        (UpdateUmaStats 0 100 (drop_bit 8 (uint (255 :: u8) * 10)) thin_report) = 9"
proof -
  have a: "UpdateReceiverBlock 255 100 10 0 (initial_state 10000 False) = thin_report"
    by (simp add: UpdateReceiverBlock_def Let_def thin_report_def accumulate_report_def
        note_feedback_def initial_state_def const_defs)
  have b: "initially_lost_packets thin_report = 0"
    by (simp add: thin_report_def accumulate_report_def note_feedback_def initial_state_def
        Let_def)
  have c: "initially_lost_packets
        (UpdateUmaStats 0 100 (drop_bit 8 (uint (255 :: u8) * 10)) thin_report) = 9"
    by (simp add: UpdateUmaStats_def thin_report_def accumulate_report_def note_feedback_def
        initial_state_def Let_def case_prod_beta IsInStartPhase_def const_defs drop_bit_eq_div)
  from b c have "UpdateUmaStats 0 100 (drop_bit 8 (uint (255 :: u8) * 10)) thin_report \<noteq> thin_report"
    by auto
  with a b c show ?thesis by simp
qed

subsection \<open>The control loop\<close>

text \<open>
  A tick that passes the startup block without adopting a hint, after a first loss fraction,
  is the loss-based control on the updated history, capped and logged.
\<close>

lemma UpdateEstimate_control:
  assumes "bitrate (startup_block now_ms s) = bitrate s" "last_packet_report_ms s \<noteq> -1"
  shows "UpdateEstimate now_ms s
    = cap_and_log now_ms (loss_based_control now_ms (UpdateMinHistory now_ms (startup_block now_ms s)))"
  using assms by (simp add: UpdateEstimate_def Let_def)

lemma UpdateMinHistory_nonempty: "min_bitrate_history (UpdateMinHistory now_ms s) \<noteq> []"
  by (simp add: UpdateMinHistory_def push_min_history_def)

lemma loss_based_control_timeout:
  assumes "1800 \<le> now_ms - last_packet_report_ms s"
    and "4500 < now_ms - last_feedback_ms s"
    and "last_timeout_ms s = -1 \<or> 1000 < now_ms - last_timeout_ms s"
  shows "loss_based_control now_ms s =
     (if in_timeout_experiment s
      then s\<lparr>emitted := emitted s @ [WarnFeedbackTimeout (now_ms - last_feedback_ms s)],
             bitrate := word_of_nat (4 * unat (bitrate s) div 5),
             lost_packets_since_last_loss_update_Q8 := 0,
             expected_packets_since_last_loss_update := 0,
             last_timeout_ms := now_ms\<rparr>
      else s)"
  using assms
  by (simp add: loss_based_control_def Let_def mul_0_8_exact const_defs)

lemma loss_based_control_recent_timeout:
  assumes "1800 \<le> now_ms - last_packet_report_ms s"
    and "last_timeout_ms s \<noteq> -1" "now_ms - last_timeout_ms s \<le> 1000"
  shows "loss_based_control now_ms s = s"
  using assms
  by (simp add: loss_based_control_def Let_def const_defs)

lemma loss_based_control_high_loss:
  assumes "now_ms - last_packet_report_ms s < 1800"
    and "bitrate_threshold_bps s < bitrate s"
    and "high_loss_threshold s < of_nat (unat (last_fraction_loss s)) / 256"
    and "low_loss_threshold s \<le> high_loss_threshold s"
  shows "loss_based_control now_ms s =
     (if \<not> has_decreased_since_last_fraction_loss s
         \<and> 300 + last_round_trip_time_ms s \<le> now_ms - time_last_decrease_ms s
      then s\<lparr>time_last_decrease_ms := now_ms,
             bitrate := word_of_nat
                          ((unat (bitrate s) * (512 - unat (last_fraction_loss s))) div 512),
             has_decreased_since_last_fraction_loss := True\<rparr>
      else s)"
proof -
  have "\<not> bitrate s < bitrate_threshold_bps s" using assms(2) by (simp add: word_to_nat)
  moreover have "\<not> of_nat (unat (last_fraction_loss s)) / 256 \<le> low_loss_threshold s"
    using assms(3,4) by simp
  moreover have "\<not> of_nat (unat (last_fraction_loss s)) / 256 \<le> high_loss_threshold s"
    using assms(3) by simp
  ultimately show ?thesis
    using assms(1,2) by (simp add: loss_based_control_def Let_def const_defs)
qed

lemma loss_based_control_increase:
  assumes "now_ms - last_packet_report_ms s < 1800"
    and "bitrate s < bitrate_threshold_bps s
         \<or> of_nat (unat (last_fraction_loss s)) / 256 \<le> low_loss_threshold s"
    and "min_bitrate_history s \<noteq> []"
  shows "loss_based_control now_ms s =
     s\<lparr>bitrate := word_of_nat ((54 * unat (snd (hd (min_bitrate_history s))) + 25) div 50) + 1000\<rparr>"
proof -
  obtain t b h where h: "min_bitrate_history s = (t, b) # h"
    using assms(3) by (cases "min_bitrate_history s") auto
  show ?thesis
    using assms(1,2) by (auto simp add: loss_based_control_def Let_def h mul_1_08_add_half_exact)
qed

lemma unat_add_1000:
  "x + 1000 < 2 ^ 32 \<Longrightarrow> unat (word_of_nat x + 1000 :: u32) = x + 1000"
proof -
  assume a: "x + 1000 < 2 ^ 32"
  have e: "(word_of_nat (x + 1000) :: u32) = word_of_nat x + 1000" by simp
  show ?thesis by (rule of_nat_inverse [OF e]) (use a in simp)
qed

text \<open>
  Claim C4, as amended. On a tick of \<^verbatim>\<open>UpdateEstimate\<close> that reaches the timeout test (the
  startup block adopts no hint and \<^verbatim>\<open>last_packet_report_ms_\<close> is not -1), with
  \<^verbatim>\<open>now_ms - last_packet_report_ms_ \<ge> 1800\<close>, \<^verbatim>\<open>now_ms - last_feedback_ms_ > 4500\<close> and
  \<^verbatim>\<open>last_timeout_ms_\<close> either -1 or more than 1000 ms ago: with the timeout experiment, the
  bitrate before capping is \<open>\<lfloor>0.8 * bitrate\<rfloor>\<close>, both loss accumulators are 0 and
  \<^verbatim>\<open>last_timeout_ms_\<close> is \<^verbatim>\<open>now_ms\<close>, and a second tick within 1000 ms of it (\<^verbatim>\<open>now_ms\<close> not
  being the sentinel -1) makes no cut; without the experiment none of these fields
  changes before capping.
\<close>

theorem feedback_timeout_cut:
  assumes "bitrate (startup_block now_ms s) = bitrate s"
    and "last_packet_report_ms s \<noteq> -1"
    and "1800 \<le> now_ms - last_packet_report_ms s"
    and "4500 < now_ms - last_feedback_ms s"
    and "last_timeout_ms s = -1 \<or> 1000 < now_ms - last_timeout_ms s"
  shows
    "(in_timeout_experiment s \<longrightarrow>
        UpdateEstimate now_ms s
          = cap_and_log now_ms
              ((UpdateMinHistory now_ms (startup_block now_ms s))
                 \<lparr>emitted := emitted (startup_block now_ms s)
                              @ [WarnFeedbackTimeout (now_ms - last_feedback_ms s)],
                  bitrate := word_of_nat (4 * unat (bitrate s) div 5),
                  lost_packets_since_last_loss_update_Q8 := 0,
                  expected_packets_since_last_loss_update := 0,
                  last_timeout_ms := now_ms\<rparr>)
        \<and> lost_packets_since_last_loss_update_Q8 (UpdateEstimate now_ms s) = 0
        \<and> expected_packets_since_last_loss_update (UpdateEstimate now_ms s) = 0
        \<and> last_timeout_ms (UpdateEstimate now_ms s) = now_ms
        \<and> (now_ms \<noteq> -1 \<and> now2 - now_ms \<le> 1000
             \<and> bitrate (startup_block now2 (UpdateEstimate now_ms s))
                 = bitrate (UpdateEstimate now_ms s)
             \<and> 1800 \<le> now2 - last_packet_report_ms s \<longrightarrow>
            UpdateEstimate now2 (UpdateEstimate now_ms s)
              = cap_and_log now2
                  (UpdateMinHistory now2 (startup_block now2 (UpdateEstimate now_ms s)))))
     \<and> (\<not> in_timeout_experiment s \<longrightarrow>
        UpdateEstimate now_ms s
          = cap_and_log now_ms (UpdateMinHistory now_ms (startup_block now_ms s))
        \<and> lost_packets_since_last_loss_update_Q8 (UpdateEstimate now_ms s)
            = lost_packets_since_last_loss_update_Q8 s
        \<and> expected_packets_since_last_loss_update (UpdateEstimate now_ms s)
            = expected_packets_since_last_loss_update s
        \<and> last_timeout_ms (UpdateEstimate now_ms s) = last_timeout_ms s)"
proof -
  let ?s1 = "UpdateMinHistory now_ms (startup_block now_ms s)"
  let ?r = "UpdateEstimate now_ms s"
  have ctl: "?r = cap_and_log now_ms (loss_based_control now_ms ?s1)"
    using assms(1,2) by (rule UpdateEstimate_control)
  have lbc: "loss_based_control now_ms ?s1 =
     (if in_timeout_experiment s
      then ?s1\<lparr>emitted := emitted (startup_block now_ms s)
                    @ [WarnFeedbackTimeout (now_ms - last_feedback_ms s)],
             bitrate := word_of_nat (4 * unat (bitrate s) div 5),
             lost_packets_since_last_loss_update_Q8 := 0,
             expected_packets_since_last_loss_update := 0,
             last_timeout_ms := now_ms\<rparr>
      else ?s1)"
    using assms(3-5) loss_based_control_timeout [of now_ms ?s1] assms(1)
    by (simp add: UpdateMinHistory_def)
  show ?thesis
  proof (cases "in_timeout_experiment s")
    case True
    have eq: "?r = cap_and_log now_ms
              (?s1\<lparr>emitted := emitted (startup_block now_ms s)
                              @ [WarnFeedbackTimeout (now_ms - last_feedback_ms s)],
                  bitrate := word_of_nat (4 * unat (bitrate s) div 5),
                  lost_packets_since_last_loss_update_Q8 := 0,
                  expected_packets_since_last_loss_update := 0,
                  last_timeout_ms := now_ms\<rparr>)"
      using ctl lbc True by simp
    have f: "lost_packets_since_last_loss_update_Q8 ?r = 0"
      "expected_packets_since_last_loss_update ?r = 0" "last_timeout_ms ?r = now_ms"
      by (simp_all add: eq)
    have second: "UpdateEstimate now2 ?r
              = cap_and_log now2 (UpdateMinHistory now2 (startup_block now2 ?r))"
      if "now_ms \<noteq> -1" "now2 - now_ms \<le> 1000"
        "bitrate (startup_block now2 ?r) = bitrate ?r"
        "1800 \<le> now2 - last_packet_report_ms s"
    proof -
      have "UpdateEstimate now2 ?r = cap_and_log now2
          (loss_based_control now2 (UpdateMinHistory now2 (startup_block now2 ?r)))"
        using that(3) assms(2) by (intro UpdateEstimate_control) simp_all
      moreover have "loss_based_control now2 (UpdateMinHistory now2 (startup_block now2 ?r))
          = UpdateMinHistory now2 (startup_block now2 ?r)"
        using that f(3) by (intro loss_based_control_recent_timeout) simp_all
      ultimately show ?thesis by simp
    qed
    from True eq f second show ?thesis by simp
  next
    case False
    have eq: "?r = cap_and_log now_ms ?s1" using ctl lbc False by simp
    have "lost_packets_since_last_loss_update_Q8 ?r = lost_packets_since_last_loss_update_Q8 s"
      "expected_packets_since_last_loss_update ?r = expected_packets_since_last_loss_update s"
      "last_timeout_ms ?r = last_timeout_ms s"
      by (simp_all add: eq)
    with False eq show ?thesis by simp
  qed
qed

text \<open>
  The feedback-timeout scenario: 1000000 is cut to 800000 at 5000, not again at 5500; without
  the experiment it stays at 1000000.
\<close>

theorem feedback_timeout_cut_witness:
  "(bitrate (startup_block 5000 timeout_state) = bitrate timeout_state
   \<and> last_packet_report_ms timeout_state \<noteq> -1
   \<and> 1800 \<le> 5000 - last_packet_report_ms timeout_state
   \<and> 4500 < 5000 - last_feedback_ms timeout_state
   \<and> last_timeout_ms timeout_state = -1
   \<and> in_timeout_experiment timeout_state
   \<and> bitrate timeout_state = 1000000
   \<and> bitrate (UpdateEstimate 5000 timeout_state) = 800000
   \<and> lost_packets_since_last_loss_update_Q8 (UpdateEstimate 5000 timeout_state) = 0
   \<and> expected_packets_since_last_loss_update (UpdateEstimate 5000 timeout_state) = 0
   \<and> last_timeout_ms (UpdateEstimate 5000 timeout_state) = 5000
   \<and> bitrate (UpdateEstimate 5500 (UpdateEstimate 5000 timeout_state)) = 800000)
   \<and> (bitrate (startup_block 5000 timeout_state_disabled) = bitrate timeout_state_disabled
   \<and> last_packet_report_ms timeout_state_disabled \<noteq> -1
   \<and> 1800 \<le> 5000 - last_packet_report_ms timeout_state_disabled
   \<and> 4500 < 5000 - last_feedback_ms timeout_state_disabled
   \<and> last_timeout_ms timeout_state_disabled = -1
   \<and> \<not> in_timeout_experiment timeout_state_disabled
   \<and> bitrate (UpdateEstimate 5000 timeout_state_disabled) = 1000000
   \<and> last_timeout_ms (UpdateEstimate 5000 timeout_state_disabled) = -1)"
proof -
  have enabled:
    "bitrate (startup_block 5000 timeout_state) = bitrate timeout_state
     \<and> last_packet_report_ms timeout_state \<noteq> -1
     \<and> 1800 \<le> 5000 - last_packet_report_ms timeout_state
     \<and> 4500 < 5000 - last_feedback_ms timeout_state
     \<and> last_timeout_ms timeout_state = -1
     \<and> in_timeout_experiment timeout_state
     \<and> bitrate timeout_state = 1000000
     \<and> bitrate (UpdateEstimate 5000 timeout_state) = 800000
     \<and> lost_packets_since_last_loss_update_Q8 (UpdateEstimate 5000 timeout_state) = 0
     \<and> expected_packets_since_last_loss_update (UpdateEstimate 5000 timeout_state) = 0
     \<and> last_timeout_ms (UpdateEstimate 5000 timeout_state) = 5000
     \<and> bitrate (UpdateEstimate 5500 (UpdateEstimate 5000 timeout_state)) = 800000"
  proof -
    have h: "bitrate (startup_block 5000 timeout_state) = bitrate timeout_state"
        "last_packet_report_ms timeout_state \<noteq> -1"
        "1800 \<le> 5000 - last_packet_report_ms timeout_state"
        "4500 < 5000 - last_feedback_ms timeout_state"
        "last_timeout_ms timeout_state = -1 \<or> 1000 < 5000 - last_timeout_ms timeout_state"
      and i: "in_timeout_experiment timeout_state" "bitrate timeout_state = 1000000"
        "last_timeout_ms timeout_state = -1"
      by (simp_all add: timeout_state_def initial_state_def startup_block_def IsInStartPhase_def
          const_defs)
    have c: "min_bitrate_configured timeout_state = 10000"
        "max_bitrate_configured timeout_state = 1000000000"
        "bwe_incoming timeout_state = 0" "delay_based_bitrate_bps timeout_state = 0"
        "first_report_time_ms timeout_state = 0" "last_packet_report_ms timeout_state = 0"
      by (simp_all add: timeout_state_def initial_state_def const_defs)
    note t = feedback_timeout_cut [OF h, of 5500]
    from t i(1) have eq: "UpdateEstimate 5000 timeout_state
            = cap_and_log 5000
                ((UpdateMinHistory 5000 (startup_block 5000 timeout_state))
                   \<lparr>emitted := emitted (startup_block 5000 timeout_state)
                                @ [WarnFeedbackTimeout (5000 - last_feedback_ms timeout_state)],
                    bitrate := word_of_nat (4 * unat (bitrate timeout_state) div 5),
                    lost_packets_since_last_loss_update_Q8 := 0,
                    expected_packets_since_last_loss_update := 0,
                    last_timeout_ms := 5000\<rparr>)"
      and f: "lost_packets_since_last_loss_update_Q8 (UpdateEstimate 5000 timeout_state) = 0"
        "expected_packets_since_last_loss_update (UpdateEstimate 5000 timeout_state) = 0"
        "last_timeout_ms (UpdateEstimate 5000 timeout_state) = 5000"
      by blast+
    have b1: "bitrate (UpdateEstimate 5000 timeout_state) = 800000"
      unfolding eq by (simp add: Cap_fst c i ceiling_cap_def)
    have sb: "bitrate (startup_block 5500 (UpdateEstimate 5000 timeout_state))
        = bitrate (UpdateEstimate 5000 timeout_state)"
      by (simp add: startup_block_def IsInStartPhase_def c const_defs)
    have p: "(5000 :: int) \<noteq> -1" "(5500 :: int) - 5000 \<le> 1000"
      "1800 \<le> 5500 - last_packet_report_ms timeout_state"
      by (simp_all add: c)
    from t i(1) p sb have "UpdateEstimate 5500 (UpdateEstimate 5000 timeout_state)
        = cap_and_log 5500
            (UpdateMinHistory 5500 (startup_block 5500 (UpdateEstimate 5000 timeout_state)))"
      by blast
    then have "bitrate (UpdateEstimate 5500 (UpdateEstimate 5000 timeout_state))
        = fst (CapBitrateToThresholds 5500 (bitrate (UpdateEstimate 5000 timeout_state))
            (UpdateMinHistory 5500 (startup_block 5500 (UpdateEstimate 5000 timeout_state))))"
      by (simp add: sb)
    then have b2: "bitrate (UpdateEstimate 5500 (UpdateEstimate 5000 timeout_state)) = 800000"
      by (simp add: b1 Cap_fst c ceiling_cap_def)
    from h(1-4) i f b1 b2 show ?thesis by simp
  qed
  have disabled:
    "bitrate (startup_block 5000 timeout_state_disabled) = bitrate timeout_state_disabled
     \<and> last_packet_report_ms timeout_state_disabled \<noteq> -1
     \<and> 1800 \<le> 5000 - last_packet_report_ms timeout_state_disabled
     \<and> 4500 < 5000 - last_feedback_ms timeout_state_disabled
     \<and> last_timeout_ms timeout_state_disabled = -1
     \<and> \<not> in_timeout_experiment timeout_state_disabled
     \<and> bitrate (UpdateEstimate 5000 timeout_state_disabled) = 1000000
     \<and> last_timeout_ms (UpdateEstimate 5000 timeout_state_disabled) = -1"
  proof -
    have h: "bitrate (startup_block 5000 timeout_state_disabled) = bitrate timeout_state_disabled"
        "last_packet_report_ms timeout_state_disabled \<noteq> -1"
        "1800 \<le> 5000 - last_packet_report_ms timeout_state_disabled"
        "4500 < 5000 - last_feedback_ms timeout_state_disabled"
        "last_timeout_ms timeout_state_disabled = -1
           \<or> 1000 < 5000 - last_timeout_ms timeout_state_disabled"
      and i: "\<not> in_timeout_experiment timeout_state_disabled"
        "bitrate timeout_state_disabled = 1000000"
        "last_timeout_ms timeout_state_disabled = -1"
      by (simp_all add: timeout_state_disabled_def timeout_state_def initial_state_def
          startup_block_def IsInStartPhase_def const_defs)
    have c: "min_bitrate_configured timeout_state_disabled = 10000"
        "max_bitrate_configured timeout_state_disabled = 1000000000"
        "bwe_incoming timeout_state_disabled = 0"
        "delay_based_bitrate_bps timeout_state_disabled = 0"
      by (simp_all add: timeout_state_disabled_def timeout_state_def initial_state_def const_defs)
    note t = feedback_timeout_cut [OF h, of 5500]
    from t i(1) have eq: "UpdateEstimate 5000 timeout_state_disabled
            = cap_and_log 5000 (UpdateMinHistory 5000 (startup_block 5000 timeout_state_disabled))"
      and f: "last_timeout_ms (UpdateEstimate 5000 timeout_state_disabled)
            = last_timeout_ms timeout_state_disabled"
      by blast+
    have b: "bitrate (UpdateEstimate 5000 timeout_state_disabled) = 1000000"
      unfolding eq by (simp add: h(1) i Cap_fst c ceiling_cap_def)
    from h(1-4) i f b show ?thesis by simp
  qed
  from enabled disabled show ?thesis by blast
qed

text \<open>
  Claim C4 as stated fails when no loss fraction has been computed yet: the three
  conditions hold at time 5000 after a single block of 10 packets at time 0, the experiment
  is enabled, and the tick returns through the branch for \<^verbatim>\<open>last_packet_report_ms_ == -1\<close>:
  no cut, the accumulator not zeroed, \<^verbatim>\<open>last_timeout_ms_\<close> still -1.
\<close>

theorem feedback_timeout_needs_packet_report:
  "1800 \<le> 5000 - last_packet_report_ms thin_feedback_state
   \<and> 4500 < 5000 - last_feedback_ms thin_feedback_state
   \<and> last_timeout_ms thin_feedback_state = -1
   \<and> in_timeout_experiment thin_feedback_state
   \<and> bitrate thin_feedback_state = 1000000
   \<and> bitrate (UpdateEstimate 5000 thin_feedback_state) = 1000000
   \<and> expected_packets_since_last_loss_update (UpdateEstimate 5000 thin_feedback_state) = 10
   \<and> last_timeout_ms (UpdateEstimate 5000 thin_feedback_state) = -1"
proof -
  have e: "thin_feedback_state = (initial_state 10000 True)
      \<lparr>bitrate := 1000000, last_feedback_ms := 0, first_report_time_ms := 0,
       last_round_trip_time_ms := 100, expected_packets_since_last_loss_update := 10\<rparr>"
    by (simp add: thin_feedback_state_def UpdateReceiverBlock_def SetSendBitrate_def
        note_feedback_def accumulate_report_def initial_state_def Let_def const_defs)
  show ?thesis
    by (simp add: e initial_state_def UpdateEstimate_def Let_def startup_block_def
      IsInStartPhase_def UpdateMinHistory_def push_min_history_def pop_back_higher.simps
      assign_capped_def CapBitrateToThresholds_def case_prod_beta const_defs)
qed

text \<open>
  The decrease does not wrap: \<open>\<lfloor>b * (512 - l) / 512\<rfloor>\<close> is at most \<open>b\<close>, and below it when the
  loss fraction and the bitrate are not 0.
\<close>

lemma decrease_value:
  fixes b :: u32 and l :: u8
  shows "unat (word_of_nat ((unat b * (512 - unat l)) div 512) :: u32)
           = (unat b * (512 - unat l)) div 512"
    and "(word_of_nat ((unat b * (512 - unat l)) div 512) :: u32) \<le> b"
    and "0 < l \<Longrightarrow> 0 < b \<Longrightarrow> (word_of_nat ((unat b * (512 - unat l)) div 512) :: u32) < b"
proof -
  define n where "n = (unat b * (512 - unat l)) div 512"
  have le: "n \<le> unat b"
  proof -
    have "unat b * (512 - unat l) \<le> unat b * 512" by simp
    then have "n \<le> (unat b * 512) div 512" unfolding n_def by (rule div_le_mono)
    then show ?thesis by simp
  qed
  have "unat b < 2 ^ 32" using unsigned_less [of b, where ?'a = nat] by simp
  with le have "n < 2 ^ LENGTH(32)" by simp
  with refl have e: "unat (word_of_nat n :: u32) = n" by (rule of_nat_inverse)
  show "unat (word_of_nat ((unat b * (512 - unat l)) div 512) :: u32)
           = (unat b * (512 - unat l)) div 512"
    using e by (simp add: n_def)
  show "(word_of_nat ((unat b * (512 - unat l)) div 512) :: u32) \<le> b"
    using e le by (simp add: n_def word_le_nat_alt)
  show "(word_of_nat ((unat b * (512 - unat l)) div 512) :: u32) < b" if "0 < l" "0 < b"
  proof -
    have "0 < unat l" "0 < unat b" using that by (simp_all add: word_less_nat_alt)
    then have "unat b * (512 - unat l) < unat b * 512" by simp
    then have "n < unat b" unfolding n_def by (rule less_mult_imp_div_less)
    with e show ?thesis by (simp add: n_def word_less_nat_alt)
  qed
qed

text \<open>
  The loss thresholds are ordered in every state that the program reaches: the constructor
  checks the parsed ones (\<^verbatim>\<open>RTC_CHECK_LE\<close> on the low and the high threshold), the
  defaults are 0.02 and 0.1, and no operation assigns them.
\<close>

lemma new_SendSideBandwidthEstimation_thresholds_ordered:
  assumes "new_SendSideBandwidthEstimation system_min timeout_trial loss_trial = Some s"
  shows "low_loss_threshold s \<le> high_loss_threshold s"
  using assms
  by (auto simp add: new_SendSideBandwidthEstimation_def ReadBweLossExperimentParameters_def
      initial_state_def Let_def kDefaultLowLossThreshold_def kDefaultHighLossThreshold_def
      split: option.splits if_splits)

lemma run_operation_thresholds:
  "low_loss_threshold (run_operation system_min op s) = low_loss_threshold s"
  "high_loss_threshold (run_operation system_min op s) = high_loss_threshold s"
  by (cases op;
      simp add: SetBitrates_def SetSendBitrate_def SetMinMaxBitrate_def
        UpdateReceiverEstimate_def UpdateDelayBasedEstimate_def UpdateReceiverBlock_def Let_def
        note_feedback_def accumulate_report_def new_fraction_loss_def)+

lemma run_operations_thresholds:
  "low_loss_threshold (fold (run_operation system_min) ops s) = low_loss_threshold s"
  "high_loss_threshold (fold (run_operation system_min) ops s) = high_loss_threshold s"
  by (induction ops arbitrary: s) (simp_all add: run_operation_thresholds)

lemma reachable_thresholds_ordered:
  assumes "new_SendSideBandwidthEstimation system_min timeout_trial loss_trial = Some s"
  shows "low_loss_threshold (fold (run_operation system_min) ops s)
     \<le> high_loss_threshold (fold (run_operation system_min) ops s)"
  using new_SendSideBandwidthEstimation_thresholds_ordered [OF assms]
  by (simp add: run_operations_thresholds)

text \<open>
  Claim C5, as amended. On a tick of \<^verbatim>\<open>UpdateEstimate\<close> that reaches the feedback-fresh branch
  (the startup block adopts no hint, \<^verbatim>\<open>last_packet_report_ms_\<close> is not -1 and less than 1800
  ms ago), with the bitrate above \<^verbatim>\<open>bitrate_threshold_bps_\<close> and \<^verbatim>\<open>last_fraction_loss_ / 256\<close>
  above the high loss threshold, in a state with the thresholds ordered as they are in every
  state that the program reaches (lemma \<open>reachable_thresholds_ordered\<close>): if
  \<^verbatim>\<open>has_decreased_since_last_fraction_loss_\<close> is false and
  \<^verbatim>\<open>now_ms - time_last_decrease_ms_ \<ge> 300 + last_round_trip_time_ms_\<close>, the bitrate before
  capping is \<open>\<lfloor>bitrate * (512 - last_fraction_loss) / 512\<rfloor>\<close>, which is not above the old
  bitrate and is below it for a loss fraction other than 0, the bitrate after the tick is
  \<^verbatim>\<open>CapBitrateToThresholds\<close> of it, \<^verbatim>\<open>time_last_decrease_ms_\<close> is \<^verbatim>\<open>now_ms\<close> and the flag is true,
  so that a second tick in this branch with the same loss fraction leaves the bitrate and
  \<^verbatim>\<open>time_last_decrease_ms_\<close> as they are; otherwise the bitrate before capping is the old
  one, the bitrate after the tick is \<^verbatim>\<open>CapBitrateToThresholds\<close> of it, and the other two do
  not change.
\<close>

theorem loss_based_decrease:
  assumes "bitrate (startup_block now_ms s) = bitrate s"
    and "last_packet_report_ms s \<noteq> -1"
    and "now_ms - last_packet_report_ms s < 1800"
    and "bitrate_threshold_bps s < bitrate s"
    and "high_loss_threshold s < of_nat (unat (last_fraction_loss s)) / 256"
    and "low_loss_threshold s \<le> high_loss_threshold s"
  shows
    "(\<not> has_decreased_since_last_fraction_loss s
       \<and> 300 + last_round_trip_time_ms s \<le> now_ms - time_last_decrease_ms s \<longrightarrow>
        UpdateEstimate now_ms s
          = cap_and_log now_ms
              ((UpdateMinHistory now_ms (startup_block now_ms s))
                 \<lparr>time_last_decrease_ms := now_ms,
                  bitrate := word_of_nat
                    ((unat (bitrate s) * (512 - unat (last_fraction_loss s))) div 512),
                  has_decreased_since_last_fraction_loss := True\<rparr>)
        \<and> unat (word_of_nat
                  ((unat (bitrate s) * (512 - unat (last_fraction_loss s))) div 512) :: u32)
            = (unat (bitrate s) * (512 - unat (last_fraction_loss s))) div 512
        \<and> (word_of_nat
              ((unat (bitrate s) * (512 - unat (last_fraction_loss s))) div 512) :: u32)
            \<le> bitrate s
        \<and> (0 < last_fraction_loss s \<longrightarrow>
             (word_of_nat
                ((unat (bitrate s) * (512 - unat (last_fraction_loss s))) div 512) :: u32)
              < bitrate s)
        \<and> bitrate (UpdateEstimate now_ms s)
            = fst (CapBitrateToThresholds now_ms
                     (word_of_nat
                        ((unat (bitrate s) * (512 - unat (last_fraction_loss s))) div 512)) s)
        \<and> time_last_decrease_ms (UpdateEstimate now_ms s) = now_ms
        \<and> has_decreased_since_last_fraction_loss (UpdateEstimate now_ms s)
        \<and> last_fraction_loss (UpdateEstimate now_ms s) = last_fraction_loss s
        \<and> (bitrate (startup_block now2 (UpdateEstimate now_ms s))
               = bitrate (UpdateEstimate now_ms s)
             \<and> now2 - last_packet_report_ms s < 1800
             \<and> bitrate_threshold_bps s < bitrate (UpdateEstimate now_ms s) \<longrightarrow>
            UpdateEstimate now2 (UpdateEstimate now_ms s)
              = cap_and_log now2
                  (UpdateMinHistory now2 (startup_block now2 (UpdateEstimate now_ms s)))
            \<and> bitrate (UpdateEstimate now2 (UpdateEstimate now_ms s))
                = bitrate (UpdateEstimate now_ms s)
            \<and> time_last_decrease_ms (UpdateEstimate now2 (UpdateEstimate now_ms s)) = now_ms))
     \<and> (\<not> (\<not> has_decreased_since_last_fraction_loss s
             \<and> 300 + last_round_trip_time_ms s \<le> now_ms - time_last_decrease_ms s) \<longrightarrow>
        UpdateEstimate now_ms s
          = cap_and_log now_ms (UpdateMinHistory now_ms (startup_block now_ms s))
        \<and> bitrate (UpdateEstimate now_ms s)
            = fst (CapBitrateToThresholds now_ms (bitrate s) s)
        \<and> time_last_decrease_ms (UpdateEstimate now_ms s) = time_last_decrease_ms s
        \<and> has_decreased_since_last_fraction_loss (UpdateEstimate now_ms s)
            = has_decreased_since_last_fraction_loss s)"
proof -
  let ?s1 = "UpdateMinHistory now_ms (startup_block now_ms s)"
  let ?r = "UpdateEstimate now_ms s"
  let ?d = "word_of_nat ((unat (bitrate s) * (512 - unat (last_fraction_loss s))) div 512) :: u32"
  let ?gate = "\<not> has_decreased_since_last_fraction_loss s
       \<and> 300 + last_round_trip_time_ms s \<le> now_ms - time_last_decrease_ms s"
  have ctl: "?r = cap_and_log now_ms (loss_based_control now_ms ?s1)"
    using assms(1,2) by (rule UpdateEstimate_control)
  have lbc: "loss_based_control now_ms ?s1 =
     (if ?gate
      then ?s1\<lparr>time_last_decrease_ms := now_ms, bitrate := ?d,
             has_decreased_since_last_fraction_loss := True\<rparr>
      else ?s1)"
    using assms loss_based_control_high_loss [of now_ms ?s1] by simp
  have pos: "0 < bitrate s"
    using assms(4) by (simp add: word_less_nat_alt)
  note d = decrease_value [where b = "bitrate s" and l = "last_fraction_loss s"]
  show ?thesis
  proof (cases ?gate)
    case True
    have eq: "?r = cap_and_log now_ms
              (?s1\<lparr>time_last_decrease_ms := now_ms, bitrate := ?d,
                  has_decreased_since_last_fraction_loss := True\<rparr>)"
      using ctl lbc True by simp
    have f: "time_last_decrease_ms ?r = now_ms" "has_decreased_since_last_fraction_loss ?r"
      "last_fraction_loss ?r = last_fraction_loss s"
      by (simp_all add: eq)
    have "bitrate ?r = fst (CapBitrateToThresholds now_ms ?d
              (?s1\<lparr>time_last_decrease_ms := now_ms, bitrate := ?d,
                  has_decreased_since_last_fraction_loss := True\<rparr>))"
      by (simp add: eq)
    also have "\<dots> = fst (CapBitrateToThresholds now_ms ?d s)"
      by (rule Cap_fst_cong) simp_all
    finally have br: "bitrate ?r = fst (CapBitrateToThresholds now_ms ?d s)" .
    have second: "UpdateEstimate now2 ?r
              = cap_and_log now2 (UpdateMinHistory now2 (startup_block now2 ?r))
          \<and> bitrate (UpdateEstimate now2 ?r) = bitrate ?r
          \<and> time_last_decrease_ms (UpdateEstimate now2 ?r) = now_ms"
      if "bitrate (startup_block now2 ?r) = bitrate ?r"
        "now2 - last_packet_report_ms s < 1800"
        "bitrate_threshold_bps s < bitrate ?r"
    proof -
      let ?s2 = "UpdateMinHistory now2 (startup_block now2 ?r)"
      have "UpdateEstimate now2 ?r = cap_and_log now2 (loss_based_control now2 ?s2)"
        using that(1) assms(2) by (intro UpdateEstimate_control) simp_all
      moreover have "loss_based_control now2 ?s2 = ?s2"
        using that assms(5,6) f(2) loss_based_control_high_loss [of now2 ?s2]
        by simp
      ultimately have e2: "UpdateEstimate now2 ?r = cap_and_log now2 ?s2" by simp
      have "bitrate (UpdateEstimate now2 ?r)
          = fst (CapBitrateToThresholds now2 (bitrate ?r) ?s2)"
        by (simp add: e2 that(1))
      also have "\<dots> = fst (CapBitrateToThresholds now_ms (bitrate ?r) s)"
        by (rule Cap_fst_cong) simp_all
      also have "\<dots> = bitrate ?r"
        unfolding br by (simp add: Cap_fst cap_formula_idem)
      finally have b2: "bitrate (UpdateEstimate now2 ?r) = bitrate ?r" .
      have "time_last_decrease_ms (UpdateEstimate now2 ?r) = now_ms"
        by (simp add: e2 f(1))
      with e2 b2 show ?thesis by simp
    qed
    have strict: "0 < last_fraction_loss s \<longrightarrow> ?d < bitrate s"
      using d(3) pos by blast
    from True eq d(1,2) strict br f second show ?thesis by blast
  next
    case False
    have eq: "?r = cap_and_log now_ms ?s1" using ctl lbc False by simp
    have "bitrate ?r = fst (CapBitrateToThresholds now_ms (bitrate s) ?s1)"
      by (simp add: eq assms(1))
    also have "\<dots> = fst (CapBitrateToThresholds now_ms (bitrate s) s)"
      by (rule Cap_fst_cong) simp_all
    finally have br: "bitrate ?r = fst (CapBitrateToThresholds now_ms (bitrate s) s)" .
    have "time_last_decrease_ms ?r = time_last_decrease_ms s"
      "has_decreased_since_last_fraction_loss ?r = has_decreased_since_last_fraction_loss s"
      by (simp_all add: eq)
    with False eq br show ?thesis by blast
  qed
qed

text \<open>
  Claim C5 as stated fails on a decrease that falls below the configured minimum. With a send
  bitrate of 10000, the configured minimum, and a receiver block of 40 packets with the loss
  fraction 64 at time 5000, the tick of that block is in the feedback-fresh branch with the
  bitrate above the threshold and the loss above the high threshold, the flag is false and
  the last decrease is 5000 ms ago: the decrease fires (\<^verbatim>\<open>time_last_decrease_ms_\<close> becomes
  5000), and the bitrate after the tick is 10000, not \<open>10000 * 448 / 512 = 8750\<close>. The tick is
  the one that \<^verbatim>\<open>UpdateReceiverBlock(64, 100, 40, 5000)\<close> makes after \<^verbatim>\<open>SetSendBitrate(10000)\<close>
  on a fresh estimator. With a send bitrate of 5000 the same block raises the bitrate to
  10000.
\<close>

theorem high_loss_tick_capped_to_minimum:
  "bitrate (startup_block 5000 at_min_loss_state) = bitrate at_min_loss_state
   \<and> last_packet_report_ms at_min_loss_state \<noteq> -1
   \<and> 5000 - last_packet_report_ms at_min_loss_state < 1800
   \<and> bitrate_threshold_bps at_min_loss_state < bitrate at_min_loss_state
   \<and> high_loss_threshold at_min_loss_state
       < of_nat (unat (last_fraction_loss at_min_loss_state)) / 256
   \<and> \<not> has_decreased_since_last_fraction_loss at_min_loss_state
   \<and> 300 + last_round_trip_time_ms at_min_loss_state
       \<le> 5000 - time_last_decrease_ms at_min_loss_state
   \<and> bitrate at_min_loss_state = 10000
   \<and> last_fraction_loss at_min_loss_state = 64
   \<and> (unat (bitrate at_min_loss_state)
        * (512 - unat (last_fraction_loss at_min_loss_state))) div 512 = 8750
   \<and> time_last_decrease_ms (UpdateEstimate 5000 at_min_loss_state) = 5000
   \<and> has_decreased_since_last_fraction_loss (UpdateEstimate 5000 at_min_loss_state)
   \<and> bitrate (UpdateEstimate 5000 at_min_loss_state) = 10000
   \<and> UpdateReceiverBlock 64 100 40 5000 (SetSendBitrate 10000 (initial_state 10000 False))
       = UpdateUmaStats 5000 100 (drop_bit 8 (uint (64 :: u8) * 40))
           (UpdateEstimate 5000 at_min_loss_state)
   \<and> bitrate (UpdateReceiverBlock 64 100 40 5000
                (SetSendBitrate 10000 (initial_state 10000 False))) = 10000
   \<and> bitrate below_min_state = 5000
   \<and> bitrate (UpdateReceiverBlock 64 100 40 5000 below_min_state) = 10000"
proof -
  have e: "at_min_loss_state = (initial_state 10000 False)
     \<lparr>bitrate := 10000, last_feedback_ms := 5000, first_report_time_ms := 5000,
      last_round_trip_time_ms := 100, last_fraction_loss := 64,
      last_packet_report_ms := 5000\<rparr>"
    by (simp add: at_min_loss_state_def new_fraction_loss_def accumulate_report_def
        note_feedback_def SetSendBitrate_def initial_state_def Let_def)
  have 1: "bitrate (startup_block 5000 at_min_loss_state) = bitrate at_min_loss_state
      \<and> last_packet_report_ms at_min_loss_state \<noteq> -1
      \<and> 5000 - last_packet_report_ms at_min_loss_state < 1800
      \<and> bitrate_threshold_bps at_min_loss_state < bitrate at_min_loss_state
      \<and> high_loss_threshold at_min_loss_state
          < of_nat (unat (last_fraction_loss at_min_loss_state)) / 256
      \<and> \<not> has_decreased_since_last_fraction_loss at_min_loss_state
      \<and> 300 + last_round_trip_time_ms at_min_loss_state
          \<le> 5000 - time_last_decrease_ms at_min_loss_state
      \<and> bitrate at_min_loss_state = 10000
      \<and> last_fraction_loss at_min_loss_state = 64
      \<and> (unat (bitrate at_min_loss_state)
           * (512 - unat (last_fraction_loss at_min_loss_state))) div 512 = 8750"
    by (simp add: e initial_state_def startup_block_def const_defs)
  have 2: "time_last_decrease_ms (UpdateEstimate 5000 at_min_loss_state) = 5000
      \<and> has_decreased_since_last_fraction_loss (UpdateEstimate 5000 at_min_loss_state)
      \<and> bitrate (UpdateEstimate 5000 at_min_loss_state) = 10000"
    by (simp add: e eval_defs)
  have 3: "bitrate (UpdateReceiverBlock 64 100 40 5000
                (SetSendBitrate 10000 (initial_state 10000 False))) = 10000"
    by (simp add: eval_defs)
  have 5: "UpdateReceiverBlock 64 100 40 5000 (SetSendBitrate 10000 (initial_state 10000 False))
       = UpdateUmaStats 5000 100 (drop_bit 8 (uint (64 :: u8) * 40))
           (UpdateEstimate 5000 at_min_loss_state)"
    by (simp add: UpdateReceiverBlock_def at_min_loss_state_def Let_def accumulate_report_def
        note_feedback_def SetSendBitrate_def initial_state_def const_defs)
  have 4: "bitrate below_min_state = 5000
      \<and> bitrate (UpdateReceiverBlock 64 100 40 5000 below_min_state) = 10000"
    by (simp add: below_min_state_def eval_defs)
  from 1 2 3 4 5 show ?thesis by blast
qed

text \<open>
  The loss-based-decrease scenario: 500000 becomes 437500 at 5000 and stays at 5200; with
  the flag already set it stays at 500000.
\<close>

theorem loss_based_decrease_witness:
  "(bitrate (startup_block 5000 high_loss_state) = bitrate high_loss_state
   \<and> last_packet_report_ms high_loss_state \<noteq> -1
   \<and> 5000 - last_packet_report_ms high_loss_state < 1800
   \<and> bitrate_threshold_bps high_loss_state < bitrate high_loss_state
   \<and> high_loss_threshold high_loss_state
       < of_nat (unat (last_fraction_loss high_loss_state)) / 256
   \<and> low_loss_threshold high_loss_state \<le> high_loss_threshold high_loss_state
   \<and> \<not> has_decreased_since_last_fraction_loss high_loss_state
   \<and> 300 + last_round_trip_time_ms high_loss_state
       \<le> 5000 - time_last_decrease_ms high_loss_state
   \<and> 0 < last_fraction_loss high_loss_state
   \<and> bitrate high_loss_state = 500000
   \<and> bitrate (UpdateEstimate 5000 high_loss_state) = 437500
   \<and> bitrate (UpdateEstimate 5000 high_loss_state) < bitrate high_loss_state
   \<and> time_last_decrease_ms (UpdateEstimate 5000 high_loss_state) = 5000
   \<and> has_decreased_since_last_fraction_loss (UpdateEstimate 5000 high_loss_state)
   \<and> bitrate (UpdateEstimate 5200 (UpdateEstimate 5000 high_loss_state)) = 437500
   \<and> time_last_decrease_ms (UpdateEstimate 5200 (UpdateEstimate 5000 high_loss_state)) = 5000)
   \<and> (bitrate (startup_block 5000 high_loss_decreased_state) = bitrate high_loss_decreased_state
   \<and> last_packet_report_ms high_loss_decreased_state \<noteq> -1
   \<and> 5000 - last_packet_report_ms high_loss_decreased_state < 1800
   \<and> bitrate_threshold_bps high_loss_decreased_state < bitrate high_loss_decreased_state
   \<and> high_loss_threshold high_loss_decreased_state
       < of_nat (unat (last_fraction_loss high_loss_decreased_state)) / 256
   \<and> low_loss_threshold high_loss_decreased_state
       \<le> high_loss_threshold high_loss_decreased_state
   \<and> has_decreased_since_last_fraction_loss high_loss_decreased_state
   \<and> bitrate (UpdateEstimate 5000 high_loss_decreased_state) = 500000
   \<and> time_last_decrease_ms (UpdateEstimate 5000 high_loss_decreased_state) = 0)"
proof -
  have fires:
    "bitrate (startup_block 5000 high_loss_state) = bitrate high_loss_state
     \<and> last_packet_report_ms high_loss_state \<noteq> -1
     \<and> 5000 - last_packet_report_ms high_loss_state < 1800
     \<and> bitrate_threshold_bps high_loss_state < bitrate high_loss_state
     \<and> high_loss_threshold high_loss_state
         < of_nat (unat (last_fraction_loss high_loss_state)) / 256
     \<and> low_loss_threshold high_loss_state \<le> high_loss_threshold high_loss_state
     \<and> \<not> has_decreased_since_last_fraction_loss high_loss_state
     \<and> 300 + last_round_trip_time_ms high_loss_state
         \<le> 5000 - time_last_decrease_ms high_loss_state
     \<and> 0 < last_fraction_loss high_loss_state
     \<and> bitrate high_loss_state = 500000
     \<and> bitrate (UpdateEstimate 5000 high_loss_state) = 437500
     \<and> bitrate (UpdateEstimate 5000 high_loss_state) < bitrate high_loss_state
     \<and> time_last_decrease_ms (UpdateEstimate 5000 high_loss_state) = 5000
     \<and> has_decreased_since_last_fraction_loss (UpdateEstimate 5000 high_loss_state)
     \<and> bitrate (UpdateEstimate 5200 (UpdateEstimate 5000 high_loss_state)) = 437500
     \<and> time_last_decrease_ms (UpdateEstimate 5200 (UpdateEstimate 5000 high_loss_state)) = 5000"
  proof -
    have h: "bitrate (startup_block 5000 high_loss_state) = bitrate high_loss_state"
        "last_packet_report_ms high_loss_state \<noteq> -1"
        "5000 - last_packet_report_ms high_loss_state < 1800"
        "bitrate_threshold_bps high_loss_state < bitrate high_loss_state"
        "high_loss_threshold high_loss_state
           < of_nat (unat (last_fraction_loss high_loss_state)) / 256"
        "low_loss_threshold high_loss_state \<le> high_loss_threshold high_loss_state"
      and i: "\<not> has_decreased_since_last_fraction_loss high_loss_state"
        "300 + last_round_trip_time_ms high_loss_state
           \<le> 5000 - time_last_decrease_ms high_loss_state"
        "bitrate high_loss_state = 500000" "last_fraction_loss high_loss_state = 64"
      by (simp_all add: high_loss_state_def initial_state_def startup_block_def const_defs)
    have l: "0 < last_fraction_loss high_loss_state" by (simp add: i(4))
    have c: "min_bitrate_configured high_loss_state = 10000"
        "max_bitrate_configured high_loss_state = 1000000000"
        "bwe_incoming high_loss_state = 0" "delay_based_bitrate_bps high_loss_state = 0"
        "first_report_time_ms high_loss_state = 0" "last_packet_report_ms high_loss_state = 5000"
        "bitrate_threshold_bps high_loss_state = 0"
      by (simp_all add: high_loss_state_def initial_state_def const_defs)
    note t = loss_based_decrease [OF h, of 5200]
    from t i(1,2) have br: "bitrate (UpdateEstimate 5000 high_loss_state)
            = fst (CapBitrateToThresholds 5000
                     (word_of_nat
                        ((unat (bitrate high_loss_state)
                          * (512 - unat (last_fraction_loss high_loss_state))) div 512))
                     high_loss_state)"
      and f: "time_last_decrease_ms (UpdateEstimate 5000 high_loss_state) = 5000"
        "has_decreased_since_last_fraction_loss (UpdateEstimate 5000 high_loss_state)"
      by blast+
    have b1: "bitrate (UpdateEstimate 5000 high_loss_state) = 437500"
      unfolding br by (simp add: Cap_fst c i ceiling_cap_def)
    have lt: "bitrate (UpdateEstimate 5000 high_loss_state) < bitrate high_loss_state"
      by (simp add: b1 i(3))
    have sb: "bitrate (startup_block 5200 (UpdateEstimate 5000 high_loss_state))
        = bitrate (UpdateEstimate 5000 high_loss_state)"
      by (simp add: startup_block_def i)
    have p: "5200 - last_packet_report_ms high_loss_state < 1800"
      "bitrate_threshold_bps high_loss_state < bitrate (UpdateEstimate 5000 high_loss_state)"
      by (simp_all add: c b1)
    from t i(1,2) p sb
    have "bitrate (UpdateEstimate 5200 (UpdateEstimate 5000 high_loss_state))
        = bitrate (UpdateEstimate 5000 high_loss_state)"
      and t2: "time_last_decrease_ms (UpdateEstimate 5200 (UpdateEstimate 5000 high_loss_state))
        = 5000"
      by blast+
    then have b2: "bitrate (UpdateEstimate 5200 (UpdateEstimate 5000 high_loss_state)) = 437500"
      by (simp add: b1)
    from h i(1-3) l f b1 lt b2 t2 show ?thesis by simp
  qed
  have latched:
    "bitrate (startup_block 5000 high_loss_decreased_state) = bitrate high_loss_decreased_state
     \<and> last_packet_report_ms high_loss_decreased_state \<noteq> -1
     \<and> 5000 - last_packet_report_ms high_loss_decreased_state < 1800
     \<and> bitrate_threshold_bps high_loss_decreased_state < bitrate high_loss_decreased_state
     \<and> high_loss_threshold high_loss_decreased_state
         < of_nat (unat (last_fraction_loss high_loss_decreased_state)) / 256
     \<and> low_loss_threshold high_loss_decreased_state
         \<le> high_loss_threshold high_loss_decreased_state
     \<and> has_decreased_since_last_fraction_loss high_loss_decreased_state
     \<and> bitrate (UpdateEstimate 5000 high_loss_decreased_state) = 500000
     \<and> time_last_decrease_ms (UpdateEstimate 5000 high_loss_decreased_state) = 0"
  proof -
    have h: "bitrate (startup_block 5000 high_loss_decreased_state)
          = bitrate high_loss_decreased_state"
        "last_packet_report_ms high_loss_decreased_state \<noteq> -1"
        "5000 - last_packet_report_ms high_loss_decreased_state < 1800"
        "bitrate_threshold_bps high_loss_decreased_state < bitrate high_loss_decreased_state"
        "high_loss_threshold high_loss_decreased_state
           < of_nat (unat (last_fraction_loss high_loss_decreased_state)) / 256"
        "low_loss_threshold high_loss_decreased_state
           \<le> high_loss_threshold high_loss_decreased_state"
      and i: "has_decreased_since_last_fraction_loss high_loss_decreased_state"
        "bitrate high_loss_decreased_state = 500000"
        "time_last_decrease_ms high_loss_decreased_state = 0"
      by (simp_all add: high_loss_decreased_state_def high_loss_state_def initial_state_def
          startup_block_def const_defs)
    have c: "min_bitrate_configured high_loss_decreased_state = 10000"
        "max_bitrate_configured high_loss_decreased_state = 1000000000"
        "bwe_incoming high_loss_decreased_state = 0"
        "delay_based_bitrate_bps high_loss_decreased_state = 0"
      by (simp_all add: high_loss_decreased_state_def high_loss_state_def initial_state_def
          const_defs)
    note t = loss_based_decrease [OF h, of 5200]
    from t i(1) have br: "bitrate (UpdateEstimate 5000 high_loss_decreased_state)
            = fst (CapBitrateToThresholds 5000 (bitrate high_loss_decreased_state)
                     high_loss_decreased_state)"
      and f: "time_last_decrease_ms (UpdateEstimate 5000 high_loss_decreased_state)
            = time_last_decrease_ms high_loss_decreased_state"
      by blast+
    have b: "bitrate (UpdateEstimate 5000 high_loss_decreased_state) = 500000"
      unfolding br by (simp add: i Cap_fst c ceiling_cap_def)
    from h i f b show ?thesis by simp
  qed
  from fires latched show ?thesis by blast
qed

text \<open>
  Claim C6. In the feedback-fresh branch of \<^verbatim>\<open>UpdateEstimate\<close>, with the bitrate below
  \<^verbatim>\<open>bitrate_threshold_bps_\<close> or \<^verbatim>\<open>last_fraction_loss_ / 256\<close> at most the low loss threshold,
  the bitrate before capping is the rounding of 1.08 times the bitrate at the front of
  \<^verbatim>\<open>min_bitrate_history_\<close>, plus 1000: \<open>(54 * b + 25) div 50 = \<lfloor>1.08 * b + 1 / 2\<rfloor>\<close>.
  The value is a \<^verbatim>\<open>uint32_t\<close>: it is the number itself whenever that is below \<open>2 ^ 32\<close>, as
  it is for every front bitrate up to 3976820643, which is beyond every bitrate that an
  \<^verbatim>\<open>int\<close> configures. Above, the sum wraps, and from 3976821570 on the conversion of the
  double is the one that C++ leaves undefined and the model reduces modulo \<open>2 ^ 32\<close>.
\<close>

theorem loss_based_increase:
  assumes "bitrate (startup_block now_ms s) = bitrate s"
    and "last_packet_report_ms s \<noteq> -1"
    and "now_ms - last_packet_report_ms s < 1800"
    and "bitrate s < bitrate_threshold_bps s
         \<or> of_nat (unat (last_fraction_loss s)) / 256 \<le> low_loss_threshold s"
  shows
    "min_bitrate_history (UpdateMinHistory now_ms (startup_block now_ms s)) \<noteq> []
     \<and> UpdateEstimate now_ms s
         = cap_and_log now_ms
             ((UpdateMinHistory now_ms (startup_block now_ms s))
                \<lparr>bitrate :=
                   word_of_nat
                     ((54 * unat (snd (hd (min_bitrate_history
                                        (UpdateMinHistory now_ms (startup_block now_ms s)))))
                       + 25) div 50)
                   + 1000\<rparr>)
     \<and> ((54 * unat (snd (hd (min_bitrate_history
                               (UpdateMinHistory now_ms (startup_block now_ms s)))))
           + 25) div 50 + 1000 < 2 ^ 32 \<longrightarrow>
         unat (word_of_nat
                 ((54 * unat (snd (hd (min_bitrate_history
                                    (UpdateMinHistory now_ms (startup_block now_ms s)))))
                   + 25) div 50)
               + 1000 :: u32)
           = (54 * unat (snd (hd (min_bitrate_history
                                   (UpdateMinHistory now_ms (startup_block now_ms s)))))
              + 25) div 50 + 1000)"
proof -
  let ?s1 = "UpdateMinHistory now_ms (startup_block now_ms s)"
  have ne: "min_bitrate_history ?s1 \<noteq> []" by (rule UpdateMinHistory_nonempty)
  have ctl: "UpdateEstimate now_ms s = cap_and_log now_ms (loss_based_control now_ms ?s1)"
    using assms(1,2) by (rule UpdateEstimate_control)
  have "loss_based_control now_ms ?s1 =
     ?s1\<lparr>bitrate := word_of_nat ((54 * unat (snd (hd (min_bitrate_history ?s1))) + 25) div 50)
                       + 1000\<rparr>"
    using assms ne by (intro loss_based_control_increase) simp_all
  with ctl ne show ?thesis by (simp add: unat_add_1000)
qed

text \<open>
  The loss-based-increase scenario: with the defaults and a steady 100000, a block of 30
  packets with the loss fraction 2 gives 109000.
\<close>

theorem loss_based_increase_witness:
  "bitrate (startup_block 3000
       (new_fraction_loss 3000 (accumulate_report 2 30 (note_feedback 100 3000 steady_state))))
     = bitrate (new_fraction_loss 3000 (accumulate_report 2 30 (note_feedback 100 3000 steady_state)))
   \<and> last_packet_report_ms
        (new_fraction_loss 3000 (accumulate_report 2 30 (note_feedback 100 3000 steady_state)))
       \<noteq> -1
   \<and> 3000 - last_packet_report_ms
        (new_fraction_loss 3000 (accumulate_report 2 30 (note_feedback 100 3000 steady_state)))
       < 1800
   \<and> last_fraction_loss
        (new_fraction_loss 3000 (accumulate_report 2 30 (note_feedback 100 3000 steady_state)))
       = 2
   \<and> (2 :: rat) / 256
       \<le> low_loss_threshold
            (new_fraction_loss 3000 (accumulate_report 2 30 (note_feedback 100 3000 steady_state)))
   \<and> bitrate steady_state = 100000
   \<and> bitrate (UpdateEstimate 3000
        (new_fraction_loss 3000 (accumulate_report 2 30 (note_feedback 100 3000 steady_state))))
       = 109000
   \<and> (54 * unat (100000 :: u32) + 25) div 50 + 1000 < 2 ^ 32
   \<and> unat (word_of_nat ((54 * unat (100000 :: u32) + 25) div 50) + 1000 :: u32) = 109000
   \<and> bitrate (UpdateReceiverBlock 2 100 30 3000 steady_state) = 109000"
proof -
  define s where
    "s = new_fraction_loss 3000 (accumulate_report 2 30 (note_feedback 100 3000 steady_state))"
  have e: "s = steady_state\<lparr>last_feedback_ms := 3000, last_round_trip_time_ms := 100,
      has_decreased_since_last_fraction_loss := False, last_fraction_loss := 2,
      last_packet_report_ms := 3000\<rparr>"
    by (simp add: s_def new_fraction_loss_def accumulate_report_def note_feedback_def
        steady_state_def initial_state_def Let_def signed_divide_int_def)
  have h: "bitrate (startup_block 3000 s) = bitrate s"
      "last_packet_report_ms s \<noteq> -1"
      "3000 - last_packet_report_ms s < 1800"
      "bitrate s < bitrate_threshold_bps s
         \<or> of_nat (unat (last_fraction_loss s)) / 256 \<le> low_loss_threshold s"
    and i: "last_fraction_loss s = 2" "(2 :: rat) / 256 \<le> low_loss_threshold s"
      "bitrate steady_state = 100000"
    by (simp_all add: e steady_state_def initial_state_def startup_block_def IsInStartPhase_def
        const_defs)
  have c: "min_bitrate_configured s = 10000" "max_bitrate_configured s = 1000000000"
      "bwe_incoming s = 0" "delay_based_bitrate_bps s = 0"
    by (simp_all add: e steady_state_def initial_state_def const_defs)
  have hist: "min_bitrate_history (UpdateMinHistory 3000 (startup_block 3000 s))
      = [(3000, 100000)]"
    by (simp add: e steady_state_def initial_state_def startup_block_def IsInStartPhase_def
        UpdateMinHistory_def push_min_history_def pop_back_higher.simps const_defs)
  note t = loss_based_increase [OF h]
  from t have "UpdateEstimate 3000 s
         = cap_and_log 3000
             ((UpdateMinHistory 3000 (startup_block 3000 s))
                \<lparr>bitrate :=
                   word_of_nat
                     ((54 * unat (snd (hd (min_bitrate_history
                                        (UpdateMinHistory 3000 (startup_block 3000 s)))))
                       + 25) div 50)
                   + 1000\<rparr>)"
    by blast
  then have b: "bitrate (UpdateEstimate 3000 s) = 109000"
    by (simp add: hist Cap_fst c ceiling_cap_def)
  have fits: "(54 * unat (100000 :: u32) + 25) div 50 + 1000 < 2 ^ 32" by simp
  from t have "(54 * unat (snd (hd (min_bitrate_history
                                   (UpdateMinHistory 3000 (startup_block 3000 s)))))
           + 25) div 50 + 1000 < 2 ^ 32 \<longrightarrow>
         unat (word_of_nat
                 ((54 * unat (snd (hd (min_bitrate_history
                                    (UpdateMinHistory 3000 (startup_block 3000 s)))))
                   + 25) div 50)
               + 1000 :: u32)
           = (54 * unat (snd (hd (min_bitrate_history
                                   (UpdateMinHistory 3000 (startup_block 3000 s)))))
              + 25) div 50 + 1000"
    by blast
  with fits have u:
    "unat (word_of_nat ((54 * unat (100000 :: u32) + 25) div 50) + 1000 :: u32) = 109000"
    unfolding hist by simp
  have "expected_packets_since_last_loss_update
          (accumulate_report 2 30 (note_feedback 100 3000 steady_state)) = 30"
    by (simp add: accumulate_report_def note_feedback_def steady_state_def initial_state_def
        Let_def)
  then have "bitrate (UpdateReceiverBlock 2 100 30 3000 steady_state)
      = bitrate (UpdateEstimate 3000 s)"
    by (simp add: UpdateReceiverBlock_def Let_def s_def kLimitNumPackets_def)
  with b h i fits u show ?thesis unfolding s_def by simp
qed

subsection \<open>Startup trust\<close>

lemma assign_capped_raises:
  assumes "bitrate s \<le> fst (CapBitrateToThresholds now_ms (bitrate s) s)" "bitrate s \<le> b"
  shows "bitrate s \<le> bitrate (assign_capped now_ms b s)"
    and "fst (CapBitrateToThresholds now_ms (bitrate (assign_capped now_ms b s))
           (assign_capped now_ms b s)) = bitrate (assign_capped now_ms b s)"
proof -
  have "fst (CapBitrateToThresholds now_ms (bitrate s) s)
      \<le> fst (CapBitrateToThresholds now_ms b s)"
    using assms(2) by (rule Cap_fst_mono)
  with assms(1) have "bitrate s \<le> fst (CapBitrateToThresholds now_ms b s)"
    by (rule order_trans)
  then show "bitrate s \<le> bitrate (assign_capped now_ms b s)" by simp
  show "fst (CapBitrateToThresholds now_ms (bitrate (assign_capped now_ms b s))
           (assign_capped now_ms b s)) = bitrate (assign_capped now_ms b s)"
    by (simp add: Cap_fst cap_formula_idem)
qed

lemma startup_trust_raises:
  assumes "bitrate s \<le> fst (CapBitrateToThresholds now_ms (bitrate s) s)"
  shows "bitrate s \<le> bitrate (startup_trust now_ms s)"
proof -
  define s1 where
    "s1 = (if bitrate s < bwe_incoming s then assign_capped now_ms (bwe_incoming s) s else s)"
  have 1: "bitrate s \<le> bitrate s1"
    and 2: "bitrate s1 \<le> fst (CapBitrateToThresholds now_ms (bitrate s1) s1)"
    using assms assign_capped_raises [OF assms, of "bwe_incoming s"]
    by (auto simp add: s1_def less_imp_le)
  have "bitrate s1 \<le> bitrate (startup_trust now_ms s)"
    using assign_capped_raises(1) [OF 2, of "delay_based_bitrate_bps s1"]
    by (auto simp add: startup_trust_def Let_def s1_def [symmetric] less_imp_le)
  with 1 show ?thesis by (rule order_trans)
qed

text \<open>
  Claim C8, as amended. During the start phase with \<^verbatim>\<open>last_fraction_loss_ == 0\<close>, in a state
  whose bitrate is not above the caps (\<^verbatim>\<open>CapBitrateToThresholds\<close> does not lower it: it is at
  most the ceilings, or at most the configured minimum), the startup-trust adoption of the
  external hints can only raise the bitrate, whatever \<^verbatim>\<open>bwe_incoming_\<close> and
  \<^verbatim>\<open>delay_based_bitrate_bps_\<close> are: a tick of \<^verbatim>\<open>UpdateEstimate\<close> that adopts a hint ends with
  that higher bitrate, and a tick that adopts none before the first loss fraction ends with
  the capped bitrate, which is not lower.
\<close>

theorem startup_trust_adoption_raises:
  assumes "last_fraction_loss s = 0" and "IsInStartPhase now_ms s"
    and "bitrate s \<le> fst (CapBitrateToThresholds now_ms (bitrate s) s)"
  shows "bitrate s \<le> bitrate (startup_block now_ms s)
    \<and> (bitrate (startup_block now_ms s) \<noteq> bitrate s \<longrightarrow>
         bitrate (UpdateEstimate now_ms s) = bitrate (startup_block now_ms s)
         \<and> bitrate s < bitrate (UpdateEstimate now_ms s))
    \<and> (bitrate (startup_block now_ms s) = bitrate s \<and> last_packet_report_ms s = -1 \<longrightarrow>
         bitrate (UpdateEstimate now_ms s) = fst (CapBitrateToThresholds now_ms (bitrate s) s)
         \<and> bitrate s \<le> bitrate (UpdateEstimate now_ms s))"
proof -
  have sb: "startup_block now_ms s = startup_trust now_ms s"
    using assms(1,2) by (simp add: startup_block_def)
  have le: "bitrate s \<le> bitrate (startup_block now_ms s)"
    unfolding sb using assms(3) by (rule startup_trust_raises)
  have changed: "bitrate (UpdateEstimate now_ms s) = bitrate (startup_block now_ms s)
         \<and> bitrate s < bitrate (UpdateEstimate now_ms s)"
    if "bitrate (startup_block now_ms s) \<noteq> bitrate s"
    using that le by (simp add: UpdateEstimate_def Let_def order_less_le)
  have same: "bitrate (UpdateEstimate now_ms s) = fst (CapBitrateToThresholds now_ms (bitrate s) s)
         \<and> bitrate s \<le> bitrate (UpdateEstimate now_ms s)"
    if "bitrate (startup_block now_ms s) = bitrate s" "last_packet_report_ms s = -1"
  proof -
    have "bitrate (UpdateEstimate now_ms s)
        = fst (CapBitrateToThresholds now_ms (bitrate s)
                 (UpdateMinHistory now_ms (startup_block now_ms s)))"
      using that by (simp add: UpdateEstimate_def Let_def)
    also have "\<dots> = fst (CapBitrateToThresholds now_ms (bitrate s) s)"
      by (rule Cap_fst_cong) simp_all
    finally show ?thesis using assms(3) by simp
  qed
  from le changed same show ?thesis by blast
qed

lemma capped_hint_state_eval:
  "capped_hint_state = (initial_state 10000 False)
     \<lparr>min_bitrate_configured := 10000, max_bitrate_configured := 300000,
      bwe_incoming := 600000, last_low_bitrate_log_ms := 0,
      emitted := [WarnBelowMin 0 10], bitrate := 500000\<rparr>"
  by (simp add: capped_hint_state_def SetSendBitrate_def UpdateReceiverEstimate_def
      SetMinMaxBitrate_def assign_capped_def CapBitrateToThresholds_def initial_state_def
      Let_def const_defs)

text \<open>
  Claim C8 as stated fails on a bitrate above the caps: in the start phase with no loss, a
  bitrate of 500000 set by \<^verbatim>\<open>SetSendBitrate\<close> above the configured maximum of 300000, and a
  REMB value of 600000, the tick adopts the capped hint and the bitrate falls to 300000.
  It also fails on a tick that adopts no hint once a loss fraction has been computed: in the
  start phase with no loss and a bitrate of 5000000 within the caps, the tick goes on to the
  loss-based increase, which sets the bitrate to 11800 from the window minimum 10000.
\<close>

theorem startup_tick_lowers_bitrate:
  "last_fraction_loss capped_hint_state = 0
   \<and> IsInStartPhase 0 capped_hint_state
   \<and> bitrate capped_hint_state = 500000
   \<and> bwe_incoming capped_hint_state = 600000
   \<and> bitrate (UpdateEstimate 0 capped_hint_state) = 300000
   \<and> bitrate (UpdateEstimate 0 capped_hint_state) < bitrate capped_hint_state
   \<and> last_fraction_loss raised_floor_state = 0
   \<and> IsInStartPhase 500 raised_floor_state
   \<and> fst (CapBitrateToThresholds 500 (bitrate raised_floor_state) raised_floor_state)
       = bitrate raised_floor_state
   \<and> bitrate raised_floor_state = 5000000
   \<and> bitrate (startup_block 500 raised_floor_state) = 5000000
   \<and> bitrate (UpdateEstimate 500 raised_floor_state) = 11800
   \<and> bitrate (UpdateEstimate 500 raised_floor_state) < bitrate raised_floor_state"
proof -
  have 1: "last_fraction_loss capped_hint_state = 0
      \<and> IsInStartPhase 0 capped_hint_state
      \<and> bitrate capped_hint_state = 500000
      \<and> bwe_incoming capped_hint_state = 600000
      \<and> bitrate (UpdateEstimate 0 capped_hint_state) = 300000
      \<and> bitrate (UpdateEstimate 0 capped_hint_state) < bitrate capped_hint_state"
    by (simp add: capped_hint_state_eval initial_state_def UpdateEstimate_def Let_def
        startup_block_def startup_trust_def IsInStartPhase_def assign_capped_def
        CapBitrateToThresholds_def const_defs)
  have e: "raised_floor_state = (initial_state 10000 False)
     \<lparr>bitrate := 5000000, min_bitrate_history := [(0, 10000)], last_feedback_ms := 0,
      first_report_time_ms := 0, last_round_trip_time_ms := 100, last_packet_report_ms := 0,
      last_rtc_event_log_ms := 0, last_low_bitrate_log_ms := 100,
      emitted := [LogLossBasedBweUpdate 11800 0 0, WarnBelowMin 11 5000]\<rparr>"
    by (simp add: raised_floor_state_def eval_defs)
  have 2: "last_fraction_loss raised_floor_state = 0
      \<and> IsInStartPhase 500 raised_floor_state
      \<and> fst (CapBitrateToThresholds 500 (bitrate raised_floor_state) raised_floor_state)
          = bitrate raised_floor_state
      \<and> bitrate raised_floor_state = 5000000
      \<and> bitrate (startup_block 500 raised_floor_state) = 5000000
      \<and> bitrate (UpdateEstimate 500 raised_floor_state) = 11800"
    by (simp add: e eval_defs)
  from 2 have 3: "bitrate (UpdateEstimate 500 raised_floor_state) < bitrate raised_floor_state"
    by simp
  from 1 2 3 show ?thesis by blast
qed

lemma probing_state_eval:
  "probing_state = (initial_state 10000 False)
     \<lparr>min_bitrate_configured := 10000, max_bitrate_configured := 2000000,
      delay_based_bitrate_bps := 500000, bitrate := 100000\<rparr>"
  by (simp add: probing_state_def SetBitrates_def SetSendBitrate_def UpdateDelayBasedEstimate_def
      SetMinMaxBitrate_def assign_capped_def CapBitrateToThresholds_def initial_state_def
      Let_def const_defs)

text \<open>
  The start-phase ramp scenario: the tick raises 100000 to the hint 500000; with no hint and
  no loss report yet, a tick leaves 15000 as it is; and a tick raises 5000, below the
  configured minimum, to that minimum 10000.
\<close>

theorem startup_trust_adoption_raises_witness:
  "(last_fraction_loss probing_state = 0
   \<and> IsInStartPhase 0 probing_state
   \<and> bitrate probing_state \<le> fst (CapBitrateToThresholds 0 (bitrate probing_state) probing_state)
   \<and> bitrate probing_state = 100000
   \<and> bitrate (startup_block 0 probing_state) = 500000
   \<and> bitrate (UpdateEstimate 0 probing_state) = 500000
   \<and> bitrate probing_state < bitrate (UpdateEstimate 0 probing_state))
   \<and> (last_fraction_loss within_bounds_state = 0
   \<and> IsInStartPhase 0 within_bounds_state
   \<and> bitrate within_bounds_state
       \<le> fst (CapBitrateToThresholds 0 (bitrate within_bounds_state) within_bounds_state)
   \<and> bitrate (startup_block 0 within_bounds_state) = bitrate within_bounds_state
   \<and> last_packet_report_ms within_bounds_state = -1
   \<and> bitrate within_bounds_state = 15000
   \<and> bitrate (UpdateEstimate 0 within_bounds_state) = 15000)
   \<and> (last_fraction_loss below_min_state = 0
   \<and> IsInStartPhase 0 below_min_state
   \<and> bitrate below_min_state
       \<le> fst (CapBitrateToThresholds 0 (bitrate below_min_state) below_min_state)
   \<and> bitrate (startup_block 0 below_min_state) = bitrate below_min_state
   \<and> last_packet_report_ms below_min_state = -1
   \<and> bitrate below_min_state = 5000
   \<and> bitrate (UpdateEstimate 0 below_min_state) = 10000
   \<and> bitrate below_min_state \<le> bitrate (UpdateEstimate 0 below_min_state))"
proof -
  have adopts:
    "last_fraction_loss probing_state = 0
     \<and> IsInStartPhase 0 probing_state
     \<and> bitrate probing_state
         \<le> fst (CapBitrateToThresholds 0 (bitrate probing_state) probing_state)
     \<and> bitrate probing_state = 100000
     \<and> bitrate (startup_block 0 probing_state) = 500000
     \<and> bitrate (UpdateEstimate 0 probing_state) = 500000
     \<and> bitrate probing_state < bitrate (UpdateEstimate 0 probing_state)"
  proof -
    have h: "last_fraction_loss probing_state = 0" "IsInStartPhase 0 probing_state"
      "bitrate probing_state
         \<le> fst (CapBitrateToThresholds 0 (bitrate probing_state) probing_state)"
      and b: "bitrate probing_state = 100000"
      by (simp_all add: probing_state_eval initial_state_def IsInStartPhase_def
          CapBitrateToThresholds_def Let_def)
    have sb: "bitrate (startup_block 0 probing_state) = 500000"
      by (simp add: probing_state_eval initial_state_def startup_block_def startup_trust_def
          IsInStartPhase_def assign_capped_def CapBitrateToThresholds_def Let_def)
    then have ne: "bitrate (startup_block 0 probing_state) \<noteq> bitrate probing_state"
      by (simp add: b)
    from startup_trust_adoption_raises [OF h] ne
    have "bitrate (UpdateEstimate 0 probing_state) = bitrate (startup_block 0 probing_state)"
      "bitrate probing_state < bitrate (UpdateEstimate 0 probing_state)"
      by blast+
    with h b sb show ?thesis by simp
  qed
  have keeps:
    "last_fraction_loss within_bounds_state = 0
     \<and> IsInStartPhase 0 within_bounds_state
     \<and> bitrate within_bounds_state
         \<le> fst (CapBitrateToThresholds 0 (bitrate within_bounds_state) within_bounds_state)
     \<and> bitrate (startup_block 0 within_bounds_state) = bitrate within_bounds_state
     \<and> last_packet_report_ms within_bounds_state = -1
     \<and> bitrate within_bounds_state = 15000
     \<and> bitrate (UpdateEstimate 0 within_bounds_state) = 15000"
  proof -
    have e: "within_bounds_state =
        (initial_state 10000 False)\<lparr>min_bitrate_configured := 10000,
          max_bitrate_configured := 20000, bitrate := 15000\<rparr>"
      by (simp add: within_bounds_state_def SetSendBitrate_def SetMinMaxBitrate_def
          initial_state_def const_defs)
    have h: "last_fraction_loss within_bounds_state = 0" "IsInStartPhase 0 within_bounds_state"
      "bitrate within_bounds_state
         \<le> fst (CapBitrateToThresholds 0 (bitrate within_bounds_state) within_bounds_state)"
      and i: "bitrate (startup_block 0 within_bounds_state) = bitrate within_bounds_state"
        "last_packet_report_ms within_bounds_state = -1" "bitrate within_bounds_state = 15000"
      and c: "fst (CapBitrateToThresholds 0 (bitrate within_bounds_state) within_bounds_state)
         = 15000"
      by (simp_all add: e initial_state_def IsInStartPhase_def startup_block_def
          startup_trust_def CapBitrateToThresholds_def Let_def)
    from startup_trust_adoption_raises [OF h] i(1,2)
    have "bitrate (UpdateEstimate 0 within_bounds_state)
        = fst (CapBitrateToThresholds 0 (bitrate within_bounds_state) within_bounds_state)"
      by blast
    with h i c show ?thesis by simp
  qed
  have lifts:
    "last_fraction_loss below_min_state = 0
     \<and> IsInStartPhase 0 below_min_state
     \<and> bitrate below_min_state
         \<le> fst (CapBitrateToThresholds 0 (bitrate below_min_state) below_min_state)
     \<and> bitrate (startup_block 0 below_min_state) = bitrate below_min_state
     \<and> last_packet_report_ms below_min_state = -1
     \<and> bitrate below_min_state = 5000
     \<and> bitrate (UpdateEstimate 0 below_min_state) = 10000
     \<and> bitrate below_min_state \<le> bitrate (UpdateEstimate 0 below_min_state)"
  proof -
    have e: "below_min_state = (initial_state 10000 False)\<lparr>bitrate := 5000\<rparr>"
      by (simp add: below_min_state_def SetSendBitrate_def initial_state_def)
    have h: "last_fraction_loss below_min_state = 0" "IsInStartPhase 0 below_min_state"
      "bitrate below_min_state
         \<le> fst (CapBitrateToThresholds 0 (bitrate below_min_state) below_min_state)"
      and i: "bitrate (startup_block 0 below_min_state) = bitrate below_min_state"
        "last_packet_report_ms below_min_state = -1" "bitrate below_min_state = 5000"
      and c: "fst (CapBitrateToThresholds 0 (bitrate below_min_state) below_min_state) = 10000"
      by (simp_all add: e initial_state_def IsInStartPhase_def startup_block_def
          startup_trust_def CapBitrateToThresholds_def Let_def const_defs)
    from startup_trust_adoption_raises [OF h] i(1,2)
    have "bitrate (UpdateEstimate 0 below_min_state)
        = fst (CapBitrateToThresholds 0 (bitrate below_min_state) below_min_state)"
      "bitrate below_min_state \<le> bitrate (UpdateEstimate 0 below_min_state)"
      by blast+
    with h i c show ?thesis by simp
  qed
  from adopts keeps lifts show ?thesis by blast
qed

subsection \<open>The sliding-window minimum\<close>

text \<open>The two loops of \<^verbatim>\<open>UpdateMinHistory\<close> drop a prefix and a suffix of the history.\<close>

lemma pop_back_higher_split:
  "\<exists>suf. h = pop_back_higher cur h @ suf \<and> (\<forall>e \<in> set suf. cur \<le> snd e)"
proof -
  let ?P = "\<lambda>e. cur \<le> snd e"
  have "rev h = takeWhile ?P (rev h) @ dropWhile ?P (rev h)" by simp
  then have "h = rev (dropWhile ?P (rev h)) @ rev (takeWhile ?P (rev h))"
    by (metis rev_append rev_rev_ident)
  moreover have "\<forall>e \<in> set (rev (takeWhile ?P (rev h))). ?P e"
    by (auto dest: set_takeWhileD)
  ultimately show ?thesis unfolding pop_back_higher_dropWhile by blast
qed

lemma pop_back_higher_last:
  "pop_back_higher cur h \<noteq> [] \<Longrightarrow> snd (last (pop_back_higher cur h)) < cur"
proof -
  let ?P = "\<lambda>e. cur \<le> snd e"
  assume "pop_back_higher cur h \<noteq> []"
  then have ne: "dropWhile ?P (rev h) \<noteq> []" by (simp add: pop_back_higher_dropWhile)
  then have "\<not> ?P (hd (dropWhile ?P (rev h)))" by (rule hd_dropWhile)
  then show ?thesis using ne by (simp add: pop_back_higher_dropWhile last_rev not_le)
qed

lemma pop_front_expired_split:
  "\<exists>pre. h = pre @ pop_front_expired now_ms h \<and> (\<forall>e \<in> set pre. expired now_ms e)"
proof -
  have "h = takeWhile (expired now_ms) h @ dropWhile (expired now_ms) h" by simp
  moreover have "\<forall>e \<in> set (takeWhile (expired now_ms) h). expired now_ms e"
    by (auto dest: set_takeWhileD)
  ultimately show ?thesis unfolding pop_front_expired_dropWhile by blast
qed

lemma pop_front_expired_hd:
  "pop_front_expired now_ms h \<noteq> [] \<Longrightarrow> \<not> expired now_ms (hd (pop_front_expired now_ms h))"
  unfolding pop_front_expired_dropWhile by (rule hd_dropWhile)


lemma bitrates_increasing_last:
  "bitrates_increasing xs \<Longrightarrow> e \<in> set xs \<Longrightarrow> snd e \<le> snd (last xs)"
  by (cases xs rule: rev_cases)
    (auto simp add: bitrates_increasing_def sorted_wrt_append less_imp_le)

lemma times_nondecreasing_hd:
  "times_nondecreasing xs \<Longrightarrow> e \<in> set xs \<Longrightarrow> fst (hd xs) \<le> fst e"
  by (cases xs) (auto simp add: times_nondecreasing_def)

lemma bitrates_increasing_hd:
  "bitrates_increasing xs \<Longrightarrow> e \<in> set xs \<Longrightarrow> snd (hd xs) \<le> snd e"
  by (cases xs) (auto simp add: bitrates_increasing_def less_imp_le)

lemma expired_mono_now: "T \<le> T' \<Longrightarrow> expired T p \<Longrightarrow> expired T' p"
  by (simp add: expired_def)

lemma expired_mono_time: "fst p \<le> fst e \<Longrightarrow> expired T e \<Longrightarrow> expired T p"
  by (simp add: expired_def)

lemma push_min_history_bitrates_increasing:
  assumes "bitrates_increasing d"
  shows "bitrates_increasing (push_min_history now_ms cur d)"
proof -
  let ?d1 = "pop_front_expired now_ms d"
  let ?d2 = "pop_back_higher cur ?d1"
  obtain pre where pre: "d = pre @ ?d1" using pop_front_expired_split by blast
  obtain suf where suf: "?d1 = ?d2 @ suf" using pop_back_higher_split by blast
  have "bitrates_increasing (pre @ ?d2 @ suf)" using assms pre suf by simp
  then have d2: "bitrates_increasing ?d2"
    by (simp add: bitrates_increasing_def sorted_wrt_append)
  have "snd e < cur" if "e \<in> set ?d2" for e
  proof -
    from that have ne: "?d2 \<noteq> []" by auto
    have "snd e \<le> snd (last ?d2)" using d2 that by (rule bitrates_increasing_last)
    also have "\<dots> < cur" using ne by (rule pop_back_higher_last)
    finally show ?thesis .
  qed
  with d2 show ?thesis
    by (simp add: push_min_history_def bitrates_increasing_def sorted_wrt_append)
qed

lemma push_min_history_subset:
  "set (push_min_history now_ms cur d) \<subseteq> insert (now_ms, cur) (set d)"
proof -
  let ?d1 = "pop_front_expired now_ms d"
  let ?d2 = "pop_back_higher cur ?d1"
  obtain pre where pre: "d = pre @ ?d1" using pop_front_expired_split by blast
  obtain suf where suf: "?d1 = ?d2 @ suf" using pop_back_higher_split by blast
  have "set ?d2 \<subseteq> set ?d1" by (subst (2) suf) simp
  moreover have "set ?d1 \<subseteq> set d" by (subst (2) pre) simp
  ultimately show ?thesis by (auto simp add: push_min_history_def)
qed

lemma push_min_history_times_nondecreasing:
  assumes "times_nondecreasing d" "\<forall>e \<in> set d. fst e \<le> now_ms"
  shows "times_nondecreasing (push_min_history now_ms cur d)"
proof -
  let ?d1 = "pop_front_expired now_ms d"
  let ?d2 = "pop_back_higher cur ?d1"
  obtain pre where pre: "d = pre @ ?d1" using pop_front_expired_split by blast
  obtain suf where suf: "?d1 = ?d2 @ suf" using pop_back_higher_split by blast
  have "times_nondecreasing (pre @ ?d2 @ suf)" using assms(1) pre suf by simp
  then have d2: "times_nondecreasing ?d2"
    by (simp add: times_nondecreasing_def sorted_wrt_append)
  have "set ?d2 \<subseteq> set d" using push_min_history_subset [of now_ms cur d]
    by (subst (2) pre, subst (2) suf) auto
  with assms(2) have "\<forall>e \<in> set ?d2. fst e \<le> now_ms" by blast
  with d2 show ?thesis
    by (simp add: push_min_history_def times_nondecreasing_def sorted_wrt_append)
qed


text \<open>A push at a time that is no earlier than the last one keeps the invariant.\<close>

lemma push_min_history_window_min_inv:
  assumes inv: "window_min_inv T ps d" and le: "T \<le> T'"
  shows "window_min_inv T' (ps @ [(T', cur)]) (push_min_history T' cur d)"
proof -
  let ?d1 = "pop_front_expired T' d"
  let ?d2 = "pop_back_higher cur ?d1"
  let ?new = "(T', cur)"
  from inv have sub: "set d \<subseteq> set ps" and bi: "bitrates_increasing d"
    and tn: "times_nondecreasing d" and bound: "\<forall>p \<in> set ps. fst p \<le> T"
    and cover: "\<forall>p \<in> set ps. \<not> expired T p \<longrightarrow> (\<exists>e \<in> set d. snd e \<le> snd p \<and> fst p \<le> fst e)"
    by (simp_all add: window_min_inv_def)
  obtain pre where pre: "d = pre @ ?d1" and pre_exp: "\<forall>e \<in> set pre. expired T' e"
    using pop_front_expired_split by blast
  obtain suf where suf: "?d1 = ?d2 @ suf" and suf_high: "\<forall>e \<in> set suf. cur \<le> snd e"
    using pop_back_higher_split by blast
  have d1_sub: "set ?d1 \<subseteq> set d" by (subst (2) pre) simp
  have d2_sub: "set ?d2 \<subseteq> set ?d1" by (subst (2) suf) simp
  have tn1: "times_nondecreasing ?d1"
    using tn by (subst (asm) pre) (simp add: times_nondecreasing_def sorted_wrt_append)
  have fresh1: "\<not> expired T' e" if "e \<in> set ?d1" for e
  proof -
    from that have ne: "?d1 \<noteq> []" by auto
    have "fst (hd ?d1) \<le> fst e" using tn1 that by (rule times_nondecreasing_hd)
    moreover have "\<not> expired T' (hd ?d1)" using ne by (rule pop_front_expired_hd)
    ultimately show ?thesis using expired_mono_time by blast
  qed
  have bound_d: "\<forall>e \<in> set d. fst e \<le> T'" using sub bound le by fastforce
  have 1: "set (push_min_history T' cur d) \<subseteq> set (ps @ [?new])"
    using push_min_history_subset [of T' cur d] sub by auto
  have 2: "bitrates_increasing (push_min_history T' cur d)"
    using bi by (rule push_min_history_bitrates_increasing)
  have 3: "times_nondecreasing (push_min_history T' cur d)"
    using tn bound_d by (rule push_min_history_times_nondecreasing)
  have 4: "\<forall>p \<in> set (ps @ [?new]). fst p \<le> T'" using bound le by fastforce
  have 5: "\<forall>e \<in> set (push_min_history T' cur d). \<not> expired T' e"
    using fresh1 d2_sub by (auto simp add: push_min_history_def expired_def const_defs)
  have 6: "\<exists>e \<in> set (push_min_history T' cur d). snd e \<le> snd p \<and> fst p \<le> fst e"
    if p: "p \<in> set (ps @ [?new])" and np: "\<not> expired T' p" for p
  proof (cases "p = ?new")
    case True
    then show ?thesis by (simp add: push_min_history_def)
  next
    case False
    with p have pin: "p \<in> set ps" by simp
    have "\<not> expired T p" using np le expired_mono_now by blast
    with cover pin obtain e where e: "e \<in> set d" "snd e \<le> snd p" "fst p \<le> fst e" by blast
    have "\<not> expired T' e" using np e(3) expired_mono_time by blast
    with pre_exp have "e \<notin> set pre" by blast
    with e(1) have "e \<in> set ?d1" by (subst (asm) pre) simp
    then have "e \<in> set ?d2 \<or> e \<in> set suf" by (subst (asm) suf) simp
    then show ?thesis
    proof
      assume "e \<in> set ?d2"
      with e show ?thesis by (auto simp add: push_min_history_def)
    next
      assume "e \<in> set suf"
      with suf_high have "cur \<le> snd e" by blast
      then have "cur \<le> snd p" using e(2) by (rule order_trans)
      moreover have "fst p \<le> T'" using pin bound le by fastforce
      ultimately show ?thesis by (simp add: push_min_history_def)
    qed
  qed
  from 1 2 3 4 5 6 show ?thesis unfolding window_min_inv_def by blast
qed

lemma replay_snoc: "replay (ps @ [p]) = push_min_history (fst p) (snd p) (replay ps)"
  by (simp add: replay_def)

lemma replay_window_min_inv:
  assumes "ps \<noteq> []" "times_nondecreasing ps"
  shows "window_min_inv (fst (last ps)) ps (replay ps)"
  using assms
proof (induction ps rule: rev_induct)
  case Nil
  then show ?case by simp
next
  case (snoc p ps)
  show ?case
  proof (cases "ps = []")
    case True
    have "window_min_inv (fst p) [] []"
      by (simp add: window_min_inv_def bitrates_increasing_def times_nondecreasing_def)
    then have "window_min_inv (fst p) ([] @ [(fst p, snd p)])
        (push_min_history (fst p) (snd p) [])"
      by (rule push_min_history_window_min_inv) simp
    then show ?thesis using True by (simp add: replay_snoc replay_def)
  next
    case False
    from snoc.prems(2) have tn: "times_nondecreasing ps" and "fst (last ps) \<le> fst p"
      using False by (auto simp add: times_nondecreasing_def sorted_wrt_append)
    from snoc.IH [OF False tn] \<open>fst (last ps) \<le> fst p\<close>
    have "window_min_inv (fst p) (ps @ [(fst p, snd p)])
        (push_min_history (fst p) (snd p) (replay ps))"
      by (rule push_min_history_window_min_inv)
    then show ?thesis by (simp add: replay_snoc)
  qed
qed

lemma replay_nonempty: "ps \<noteq> [] \<Longrightarrow> replay ps \<noteq> []"
  by (cases ps rule: rev_cases) (simp_all add: replay_snoc push_min_history_def)

lemma replay_front_is_window_min:
  assumes "ps \<noteq> []" "times_nondecreasing ps"
  shows "snd (hd (replay ps)) = Min (snd ` {p \<in> set ps. \<not> expired (fst (last ps)) p})"
proof -
  let ?T = "fst (last ps)"
  let ?W = "{p \<in> set ps. \<not> expired ?T p}"
  have inv: "window_min_inv ?T ps (replay ps)" using assms by (rule replay_window_min_inv)
  have ne: "replay ps \<noteq> []" using assms(1) by (rule replay_nonempty)
  then have hd_in: "hd (replay ps) \<in> set (replay ps)" by simp
  with inv have "hd (replay ps) \<in> ?W" by (auto simp add: window_min_inv_def)
  then have in_img: "snd (hd (replay ps)) \<in> snd ` ?W" by (rule imageI)
  have "snd (hd (replay ps)) \<le> b" if "b \<in> snd ` ?W" for b
  proof -
    from that obtain p where p: "p \<in> set ps" "\<not> expired ?T p" "b = snd p" by auto
    with inv obtain e where e: "e \<in> set (replay ps)" "snd e \<le> snd p"
      unfolding window_min_inv_def by blast
    from inv have "bitrates_increasing (replay ps)" by (simp add: window_min_inv_def)
    then have "snd (hd (replay ps)) \<le> snd e" using e(1) by (rule bitrates_increasing_hd)
    with e(2) p(3) show ?thesis by simp
  qed
  with in_img show ?thesis by (intro Min_eqI [symmetric]) auto
qed


text \<open>What each operation does to the history.\<close>

lemma UpdateEstimate_history:
  "min_bitrate_history (UpdateEstimate now_ms s) =
     (if bitrate (startup_block now_ms s) \<noteq> bitrate s
      then [(now_ms, bitrate (startup_block now_ms s))]
      else push_min_history now_ms (bitrate s) (min_bitrate_history s))"
  by (simp add: UpdateEstimate_def Let_def UpdateMinHistory_def)

lemma UpdateReceiverBlock_history:
  "min_bitrate_history (UpdateReceiverBlock fraction_loss rtt number_of_packets now_ms s)
     = min_bitrate_history s
   \<or> (\<exists>s'. min_bitrate_history s' = min_bitrate_history s
        \<and> min_bitrate_history (UpdateReceiverBlock fraction_loss rtt number_of_packets now_ms s)
            = min_bitrate_history (UpdateEstimate now_ms s'))"
proof -
  let ?s3 = "new_fraction_loss now_ms
      (accumulate_report fraction_loss number_of_packets (note_feedback rtt now_ms s))"
  have "min_bitrate_history ?s3 = min_bitrate_history s"
    by (simp add: new_fraction_loss_def accumulate_report_def note_feedback_def Let_def)
  then show ?thesis
    by (auto simp add: UpdateReceiverBlock_def Let_def accumulate_report_def note_feedback_def)
qed

lemma history_cases:
  "min_bitrate_history (run_operation system_min op s) = min_bitrate_history s
   \<or> min_bitrate_history (run_operation system_min op s) = []
   \<or> (\<exists>b. min_bitrate_history (run_operation system_min op s) = [(clock_after T op, b)])
   \<or> (\<exists>b. min_bitrate_history (run_operation system_min op s)
          = push_min_history (clock_after T op) b (min_bitrate_history s))"
proof (cases op)
  case (SetBitratesOp send_b min_b max_b)
  then show ?thesis by (simp add: SetBitrates_def SetMinMaxBitrate_def SetSendBitrate_def Let_def)
next
  case (SetSendBitrateOp b)
  then show ?thesis by (simp add: SetSendBitrate_def)
next
  case (SetMinMaxBitrateOp min_b max_b)
  then show ?thesis by (simp add: SetMinMaxBitrate_def Let_def)
next
  case (UpdateReceiverEstimateOp now_ms bandwidth)
  then show ?thesis by (simp add: UpdateReceiverEstimate_def Let_def)
next
  case (UpdateDelayBasedEstimateOp now_ms bitrate_bps)
  then show ?thesis by (simp add: UpdateDelayBasedEstimate_def Let_def)
next
  case (UpdateReceiverBlockOp fraction_loss rtt number_of_packets now_ms)
  from UpdateReceiverBlock_history [of fraction_loss rtt number_of_packets now_ms s]
  show ?thesis
  proof
    assume "min_bitrate_history (UpdateReceiverBlock fraction_loss rtt number_of_packets now_ms s)
        = min_bitrate_history s"
    then show ?thesis by (simp add: UpdateReceiverBlockOp)
  next
    assume "\<exists>s'. min_bitrate_history s' = min_bitrate_history s
        \<and> min_bitrate_history (UpdateReceiverBlock fraction_loss rtt number_of_packets now_ms s)
            = min_bitrate_history (UpdateEstimate now_ms s')"
    then obtain s' where s': "min_bitrate_history s' = min_bitrate_history s"
      "min_bitrate_history (UpdateReceiverBlock fraction_loss rtt number_of_packets now_ms s)
         = min_bitrate_history (UpdateEstimate now_ms s')"
      by blast
    show ?thesis
    proof (cases "bitrate (startup_block now_ms s') \<noteq> bitrate s'")
      case True
      then have "min_bitrate_history (run_operation system_min op s)
          = [(clock_after T op, bitrate (startup_block now_ms s'))]"
        by (simp add: UpdateReceiverBlockOp s' UpdateEstimate_history)
      then show ?thesis by blast
    next
      case False
      then have "min_bitrate_history (run_operation system_min op s)
          = push_min_history (clock_after T op) (bitrate s') (min_bitrate_history s)"
        by (simp add: UpdateReceiverBlockOp s' UpdateEstimate_history)
      then show ?thesis by blast
    qed
  qed
next
  case (UpdateEstimateOp now_ms)
  then show ?thesis by (auto simp add: UpdateEstimate_history)
qed

lemma run_operation_bitrates_increasing:
  assumes "bitrates_increasing (min_bitrate_history s)"
  shows "bitrates_increasing (min_bitrate_history (run_operation system_min op s))"
  using history_cases [of system_min op s 0] assms push_min_history_bitrates_increasing
  by (auto simp add: bitrates_increasing_def)

lemma run_operations_bitrates_increasing:
  "bitrates_increasing (min_bitrate_history s)
     \<Longrightarrow> bitrates_increasing (min_bitrate_history (fold (run_operation system_min) ops s))"
  by (induction ops arbitrary: s) (simp_all add: run_operation_bitrates_increasing)

lemma run_operation_times_nondecreasing:
  assumes "times_nondecreasing (min_bitrate_history s)"
    and "\<forall>e \<in> set (min_bitrate_history s). fst e \<le> T"
    and "T \<le> clock_after T op"
  shows "times_nondecreasing (min_bitrate_history (run_operation system_min op s))
     \<and> (\<forall>e \<in> set (min_bitrate_history (run_operation system_min op s)).
           fst e \<le> clock_after T op)"
proof -
  have b: "\<forall>e \<in> set (min_bitrate_history s). fst e \<le> clock_after T op"
    using assms(2,3) by fastforce
  have p: "times_nondecreasing (push_min_history (clock_after T op) b (min_bitrate_history s))
      \<and> (\<forall>e \<in> set (push_min_history (clock_after T op) b (min_bitrate_history s)).
           fst e \<le> clock_after T op)" for b
    using push_min_history_times_nondecreasing [OF assms(1) b, of b]
      push_min_history_subset [of "clock_after T op" b "min_bitrate_history s"] b
    by auto
  from history_cases [of system_min op s T]
  consider "min_bitrate_history (run_operation system_min op s) = min_bitrate_history s"
    | "min_bitrate_history (run_operation system_min op s) = []"
    | c where "min_bitrate_history (run_operation system_min op s) = [(clock_after T op, c)]"
    | c where "min_bitrate_history (run_operation system_min op s)
          = push_min_history (clock_after T op) c (min_bitrate_history s)"
    by blast
  then show ?thesis
  proof cases
    case 1
    then show ?thesis using assms(1) b by simp
  next
    case 2
    then show ?thesis by (simp add: times_nondecreasing_def)
  next
    case 3
    then show ?thesis by (simp add: times_nondecreasing_def)
  next
    case 4
    then show ?thesis using p [of c] by simp
  qed
qed

lemma update_min_history_calls_history:
  "min_bitrate_history (update_min_history_calls ps s)
     = fold (\<lambda>p h. push_min_history (fst p) (snd p) h) ps (min_bitrate_history s)"
  unfolding update_min_history_calls_def
  by (induction ps arbitrary: s) (simp_all add: UpdateMinHistory_def)


text \<open>
  Claim C9, as amended. After every operation \<^verbatim>\<open>min_bitrate_history_\<close> is strictly increasing
  in bitrate from front to back: each operation keeps it so, and so it is after every
  sequence of operations on a fresh estimator. When \<^verbatim>\<open>now_ms\<close> never decreases from one call
  to the next, the timestamps do not decrease from front to back (two calls at the same
  \<^verbatim>\<open>now_ms\<close> leave equal timestamps). After calls of \<^verbatim>\<open>UpdateMinHistory\<close> on a cleared history,
  at times that never decrease, the front holds the smallest bitrate pushed within the last
  1000 ms, an entry at \<open>t\<close> having expired when \<^verbatim>\<open>now_ms - t + 1 > 1000\<close>.
\<close>

theorem min_bitrate_history_monotone_window_minimum:
  "(bitrates_increasing (min_bitrate_history s) \<longrightarrow>
      bitrates_increasing (min_bitrate_history (run_operation system_min op s)))
   \<and> bitrates_increasing
        (min_bitrate_history
           (fold (run_operation system_min) ops (initial_state system_min timeout_trial)))
   \<and> (times_nondecreasing (min_bitrate_history s)
        \<and> (\<forall>e \<in> set (min_bitrate_history s). fst e \<le> T)
        \<and> T \<le> clock_after T op \<longrightarrow>
      times_nondecreasing (min_bitrate_history (run_operation system_min op s))
      \<and> (\<forall>e \<in> set (min_bitrate_history (run_operation system_min op s)).
            fst e \<le> clock_after T op))
   \<and> (min_bitrate_history s = [] \<and> ps \<noteq> [] \<and> times_nondecreasing ps \<longrightarrow>
      min_bitrate_history (update_min_history_calls ps s) \<noteq> []
      \<and> snd (hd (min_bitrate_history (update_min_history_calls ps s)))
          = Min (snd ` {p \<in> set ps. \<not> expired (fst (last ps)) p}))"
proof -
  have "bitrates_increasing (min_bitrate_history (initial_state system_min timeout_trial))"
    by (simp add: initial_state_def bitrates_increasing_def)
  then have a: "bitrates_increasing
        (min_bitrate_history
           (fold (run_operation system_min) ops (initial_state system_min timeout_trial)))"
    by (rule run_operations_bitrates_increasing)
  have c: "min_bitrate_history (update_min_history_calls ps s) \<noteq> []
      \<and> snd (hd (min_bitrate_history (update_min_history_calls ps s)))
          = Min (snd ` {p \<in> set ps. \<not> expired (fst (last ps)) p})"
    if "min_bitrate_history s = []" "ps \<noteq> []" "times_nondecreasing ps"
  proof -
    have "min_bitrate_history (update_min_history_calls ps s) = replay ps"
      using that(1) by (simp add: update_min_history_calls_history replay_def)
    then show ?thesis
      using replay_nonempty [OF that(2)] replay_front_is_window_min [OF that(2,3)] by simp
  qed
  from a c run_operation_bitrates_increasing run_operation_times_nondecreasing
  show ?thesis by blast
qed

text \<open>
  Claim C9 as stated fails on the timestamps: a receiver block at time 0 raises the bitrate
  from 100000 to 109000, and a tick at the same time 0 pushes the new bitrate behind the old
  one, with the same timestamp.
\<close>

theorem min_bitrate_history_equal_timestamps:
  "min_bitrate_history equal_times_state = [(0, 100000), (0, 109000)]
   \<and> \<not> times_increasing (min_bitrate_history equal_times_state)"
proof -
  define s3 where "s3 = new_fraction_loss 0
      (accumulate_report 0 30 (note_feedback 100 0 (SetSendBitrate 100000 (initial_state 10000 False))))"
  have s3: "s3 = (initial_state 10000 False)
      \<lparr>bitrate := 100000, last_feedback_ms := 0, first_report_time_ms := 0,
       last_round_trip_time_ms := 100, last_packet_report_ms := 0\<rparr>"
    by (simp add: s3_def new_fraction_loss_def accumulate_report_def note_feedback_def
        SetSendBitrate_def initial_state_def Let_def signed_divide_int_def)
  have sb3: "startup_block 0 s3 = s3"
    by (simp add: s3 startup_block_def startup_trust_def IsInStartPhase_def initial_state_def
        Let_def)
  have ue: "UpdateEstimate 0 s3
      = cap_and_log 0 (loss_based_control 0 (UpdateMinHistory 0 (startup_block 0 s3)))"
    by (rule UpdateEstimate_control) (simp_all add: sb3, simp add: s3)
  have h3: "min_bitrate_history (UpdateMinHistory 0 s3) = [(0, 100000)]"
    by (simp add: s3 UpdateMinHistory_def push_min_history_def initial_state_def
        pop_back_higher_dropWhile)
  have lbc: "loss_based_control 0 (UpdateMinHistory 0 s3)
      = (UpdateMinHistory 0 s3)\<lparr>bitrate :=
           word_of_nat ((54 * unat (snd (hd (min_bitrate_history (UpdateMinHistory 0 s3)))) + 25)
                        div 50) + 1000\<rparr>"
    by (rule loss_based_control_increase)
      (simp_all add: h3, simp_all add: s3 initial_state_def const_defs)
  have b: "bitrate (UpdateEstimate 0 s3) = 109000"
    by (simp add: ue sb3 lbc h3 Cap_fst ceiling_cap_def, simp add: s3 initial_state_def const_defs)
  have h: "min_bitrate_history (UpdateEstimate 0 s3) = [(0, 100000)]"
    by (simp add: UpdateEstimate_history sb3, simp add: s3 push_min_history_def
        initial_state_def pop_back_higher_dropWhile)
  define r where "r = UpdateReceiverBlock 0 100 30 0 (SetSendBitrate 100000 (initial_state 10000 False))"
  have r: "r = UpdateUmaStats 0 100 (drop_bit 8 (uint (0 :: u8) * 30)) (UpdateEstimate 0 s3)"
    by (simp add: r_def UpdateReceiverBlock_def Let_def s3_def accumulate_report_def
        note_feedback_def SetSendBitrate_def initial_state_def kLimitNumPackets_def)
  have rf: "bitrate r = 109000" "min_bitrate_history r = [(0, 100000)]"
    "bwe_incoming r = 0" "delay_based_bitrate_bps r = 0"
    by (simp_all add: r b h, simp_all add: s3 initial_state_def)
  have "bitrate (startup_block 0 r) = bitrate r"
    by (simp add: startup_block_def startup_trust_def rf Let_def)
  then have "min_bitrate_history (UpdateEstimate 0 r) = [(0, 100000), (0, 109000)]"
    by (simp add: UpdateEstimate_history rf push_min_history_def pop_back_higher_dropWhile
        kBweIncreaseIntervalMs_def)
  then have "min_bitrate_history equal_times_state = [(0, 100000), (0, 109000)]"
    by (simp add: equal_times_state_def r_def)
  then show ?thesis by (simp add: times_increasing_def)
qed


text \<open>
  A tick on the steady state, and three pushes on a cleared history: at time 1200 the push
  at time 0 has expired and the front holds 109000, the smaller of the other two.
\<close>

theorem min_bitrate_history_monotone_window_minimum_witness:
  "min_bitrate_history steady_state = [(2500, 100000)]
   \<and> bitrates_increasing (min_bitrate_history steady_state)
   \<and> bitrates_increasing
        (min_bitrate_history (run_operation 10000 (UpdateEstimateOp 3000) steady_state))
   \<and> times_nondecreasing (min_bitrate_history steady_state)
   \<and> (2500 :: int) \<le> clock_after 2500 (UpdateEstimateOp 3000)
   \<and> times_nondecreasing
        (min_bitrate_history (run_operation 10000 (UpdateEstimateOp 3000) steady_state))
   \<and> min_bitrate_history (initial_state 10000 False) = []
   \<and> times_nondecreasing [(0, 50000), (500, 109000), (1200, 120000)]
   \<and> snd (hd (min_bitrate_history
        (update_min_history_calls [(0, 50000), (500, 109000), (1200, 120000)]
           (initial_state 10000 False))))
       = Min (snd ` {p \<in> set [(0, 50000), (500, 109000), (1200, 120000)].
                      \<not> expired (fst (last [(0, 50000), (500, 109000), (1200, 120000 :: u32)])) p})
   \<and> min_bitrate_history
        (update_min_history_calls [(0, 50000), (500, 109000), (1200, 120000)]
           (initial_state 10000 False))
       = [(500, 109000), (1200, 120000)]"
proof -
  let ?ps = "[(0, 50000), (500, 109000), (1200, 120000)] :: (int \<times> u32) list"
  have h: "min_bitrate_history steady_state = [(2500, 100000)]"
    by (simp add: steady_state_def initial_state_def)
  have bi: "bitrates_increasing (min_bitrate_history steady_state)"
    and tn: "times_nondecreasing (min_bitrate_history steady_state)"
    and bd: "\<forall>e \<in> set (min_bitrate_history steady_state). fst e \<le> 2500"
    by (simp_all add: h bitrates_increasing_def times_nondecreasing_def)
  have ck: "(2500 :: int) \<le> clock_after 2500 (UpdateEstimateOp 3000)" by simp
  have e: "min_bitrate_history (initial_state 10000 False) = []"
    by (simp add: initial_state_def)
  have ne: "?ps \<noteq> []" by simp
  have tp: "times_nondecreasing ?ps" by (simp add: times_nondecreasing_def)
  have ev: "min_bitrate_history (update_min_history_calls ?ps (initial_state 10000 False))
      = [(500, 109000), (1200, 120000)]"
    by (simp add: update_min_history_calls_history e push_min_history_def
        pop_back_higher_dropWhile kBweIncreaseIntervalMs_def)
  note t = min_bitrate_history_monotone_window_minimum
    [of steady_state 10000 "UpdateEstimateOp 3000" "[]" False 2500 ?ps]
  note t' = min_bitrate_history_monotone_window_minimum
    [of "initial_state 10000 False" 10000 "UpdateEstimateOp 3000" "[]" False 2500 ?ps]
  from t bi have 1: "bitrates_increasing
        (min_bitrate_history (run_operation 10000 (UpdateEstimateOp 3000) steady_state))"
    by blast
  from t tn bd ck have 2: "times_nondecreasing
        (min_bitrate_history (run_operation 10000 (UpdateEstimateOp 3000) steady_state))"
    by blast
  from t' e ne tp have 3: "snd (hd (min_bitrate_history
        (update_min_history_calls ?ps (initial_state 10000 False))))
       = Min (snd ` {p \<in> set ?ps. \<not> expired (fst (last ?ps)) p})"
    by blast
  from h bi 1 tn ck 2 e tp 3 ev show ?thesis by blast
qed

end
